theory Spec2Isabelle
  imports Main "HOL-Library.Word"
begin

section \<open>The Faust DSP generators (FaustDspGenerator)\<close>

text \<open>
  A shallow embedding of the two generator classes \<open>FaustMonoDspGenerator\<close> and
  \<open>FaustPolyDspGenerator\<close>. Every method is \<open>async\<close>; a call is modelled as
  run to completion (the caller awaits it), so a method is a function from the state before
  the call to its outcome and the state after it. The outcome of a call is a value of
  \<open>exn + 'a\<close>: \<open>Inl\<close> is a rejected promise (an exception that left the method),
  \<open>Inr None\<close> is the value \<open>null\<close>, \<open>Inr (Some n)\<close> a constructed object.
\<close>

subsection \<open>Data\<close>

datatype exn = Exn string

text \<open>The parsed metadata document (\<open>FaustDspMeta\<close>), with the fields the generators read.\<close>

record FaustDspMeta =
  compile_options :: string
  inputs :: nat
  outputs :: nat

text \<open>
  \<open>FaustDspFactory\<close>: the factory handle \<open>cfactory\<close> (a number), the binary
  \<open>code\<close>, the metadata as JSON text and the \<open>poly\<close> flag.
\<close>

record FaustDspFactory =
  cfactory :: int
  code :: "8 word list"
  json :: string
  poly :: bool

type_synonym WasmModule = "8 word list"

record BaseAudioContext =
  contextId :: nat
  sampleRate :: nat

subsection \<open>Strings and numbers of the host language\<close>

text \<open>
  \<open>s.match(p)\<close> for a pattern \<open>p\<close> without regular-expression metacharacters is
  truthy exactly when \<open>p\<close> occurs in \<open>s\<close>.
\<close>

fun starts_with :: "string \<Rightarrow> string \<Rightarrow> bool" where
  "starts_with s [] = True"
| "starts_with [] (p # ps) = False"
| "starts_with (c # cs) (p # ps) = (c = p \<and> starts_with cs ps)"

fun js_match :: "string \<Rightarrow> string \<Rightarrow> bool" where
  "js_match [] p = (p = [])"
| "js_match (c # cs) p = (starts_with (c # cs) p \<or> js_match cs p)"

text \<open>
  \<open>Number.prototype.toString\<close> on an integer handle: its decimal digits. A handle is an
  address in the memory of the compiler, or 0 for a factory loaded from files; the decimal
  form is what \<open>toString\<close> gives for every integer below \<open>10\<^sup>2\<^sup>1\<close> in absolute value.
\<close>

fun digits :: "nat \<Rightarrow> string" where
  "digits n = (if n < 10 then [''0123456789'' ! n]
               else digits (n div 10) @ [''0123456789'' ! (n mod 10)])"

declare digits.simps [simp del]

definition number_toString :: "int \<Rightarrow> string" where
  "number_toString i = (if i < 0 then CHR ''-'' # digits (nat (- i)) else digits (nat i))"

subsection \<open>The host: what the generators call and do not define\<close>

text \<open>
  The text handed to \<open>audioWorklet.addModule\<close> is a fixed template (the stringified
  classes and the processor function) around the object \<open>faustData\<close>; the model
  keeps the varying part: the processor name, the metadata text and, for a polyphonic
  processor, the metadata text of the effect when there is one.
\<close>

datatype processorCode =
    MonoProcessorCode (dspName: string) (dspMeta: string)
  | PolyProcessorCode (dspName: string) (dspMeta: string) (effectMeta: "string option")

text \<open>
  Calls into the platform, each of which may throw (\<open>Some e\<close>, \<open>Inl e\<close>):
  \<open>JSON.parse\<close>, the instantiation of a binary module,
  \<open>context.createScriptProcessor\<close>, \<open>context.audioWorklet.addModule\<close> (with
  the construction of the blob URL before it) and the \<open>AudioWorkletNode\<close> constructor.
\<close>

record host =
  JSON_parse :: "string \<Rightarrow> exn + FaustDspMeta"
  wasmInstantiate :: "8 word list \<Rightarrow> exn option"
  createScriptProcessor :: "BaseAudioContext \<Rightarrow> nat \<Rightarrow> nat \<Rightarrow> nat \<Rightarrow> exn option"
  addModule :: "BaseAudioContext \<Rightarrow> processorCode \<Rightarrow> exn option"
  newAudioWorkletNode :: "BaseAudioContext \<Rightarrow> string \<Rightarrow> exn option"

text \<open>
  The compiler (\<open>IFaustCompiler\<close>): each method resolves to a factory (or module) or
  to \<open>null\<close>, as the interface declares.
\<close>

record compiler =
  createMonoDSPFactory :: "string \<Rightarrow> string \<Rightarrow> string \<Rightarrow> FaustDspFactory option"
  createPolyDSPFactory :: "string \<Rightarrow> string \<Rightarrow> string \<Rightarrow> FaustDspFactory option"
  getAsyncInternalMixerModule :: "bool \<Rightarrow> WasmModule option"

subsection \<open>Runtime instances and nodes\<close>

text \<open>
  Modelled from the spec: the Runtime Instance (\<open>FaustDspInstance\<close>), whose class is
  not among the sources. It owns the instance's memory (the internal DSP state and the
  control values) and has channel counts that are fixed at instantiation.
\<close>

record RuntimeInstance =
  numInputs :: nat
  numOutputs :: nat
  memory :: "8 word list"

text \<open>
  Modelled from the spec: the Module Instantiator (\<open>FaustWasmInstantiator\<close>), which is
  not among the sources. It reads the metadata, instantiates the binary and returns an
  instance with the metadata's declared channel counts, or fails with no instance.
\<close>

definition createAsyncMonoDSPInstance :: "host \<Rightarrow> FaustDspFactory \<Rightarrow> exn + RuntimeInstance" where
  "createAsyncMonoDSPInstance h factory =
     (case JSON_parse h (json factory) of
        Inl e \<Rightarrow> Inl e
      | Inr m \<Rightarrow>
          (case wasmInstantiate h (code factory) of
             Some e \<Rightarrow> Inl e
           | None \<Rightarrow> Inr \<lparr>numInputs = inputs m, numOutputs = outputs m, memory = []\<rparr>))"

datatype FaustPolyDspInstance =
  FaustPolyDspInstance (voiceInstance: RuntimeInstance) (numVoices: nat)
    (mixerOf: WasmModule) (effectInstance: "RuntimeInstance option")

text \<open>
  Modelled from the spec: the polyphonic instantiation, from a voice module, a mixer module
  and an optional effect module.
\<close>

definition createAsyncPolyDSPInstance ::
  "host \<Rightarrow> FaustDspFactory \<Rightarrow> WasmModule \<Rightarrow> nat \<Rightarrow> FaustDspFactory option
     \<Rightarrow> exn + FaustPolyDspInstance" where
  "createAsyncPolyDSPInstance h voiceFactory mixerModule voices effectFactory =
     (case createAsyncMonoDSPInstance h voiceFactory of
        Inl e \<Rightarrow> Inl e
      | Inr v \<Rightarrow>
          (case wasmInstantiate h mixerModule of
             Some e \<Rightarrow> Inl e
           | None \<Rightarrow>
               (case effectFactory of
                  None \<Rightarrow> Inr (FaustPolyDspInstance v voices mixerModule None)
                | Some ef \<Rightarrow>
                    (case createAsyncMonoDSPInstance h ef of
                       Inl e \<Rightarrow> Inl e
                     | Inr fx \<Rightarrow> Inr (FaustPolyDspInstance v voices mixerModule (Some fx))))))"

text \<open>
  Modelled from the spec: \<open>FaustMonoWebAudioDsp\<close> and \<open>FaustPolyWebAudioDsp\<close>
  (not among the sources) wrap an instance with the sample rate, the sample size and the
  buffer size given to their constructor, and report the instance's channel counts.
\<close>

datatype FaustMonoWebAudioDsp =
  FaustMonoWebAudioDsp (monoInstance: RuntimeInstance) (monoSampleRate: nat)
    (monoSampleSize: nat) (monoBufferSize: nat)

datatype FaustPolyWebAudioDsp =
  FaustPolyWebAudioDsp (polyInstance: FaustPolyDspInstance) (polySampleRate: nat)
    (polySampleSize: nat) (polyBufferSize: nat)

definition mono_getNumInputs :: "FaustMonoWebAudioDsp \<Rightarrow> nat" where
  "mono_getNumInputs d = numInputs (monoInstance d)"

definition mono_getNumOutputs :: "FaustMonoWebAudioDsp \<Rightarrow> nat" where
  "mono_getNumOutputs d = numOutputs (monoInstance d)"

definition poly_getNumInputs :: "FaustPolyWebAudioDsp \<Rightarrow> nat" where
  "poly_getNumInputs d = numInputs (voiceInstance (polyInstance d))"

definition poly_getNumOutputs :: "FaustPolyWebAudioDsp \<Rightarrow> nat" where
  "poly_getNumOutputs d = numOutputs (voiceInstance (polyInstance d))"

text \<open>
  The nodes the generators return. A script-processor node is what
  \<open>context.createScriptProcessor(bufferSize, inputs, outputs)\<close> gave, initialised with
  the DSP; a worklet node is what its constructor was given.
\<close>

datatype FaustMonoNode =
    FaustMonoScriptProcessorNode (spBufferSize: nat) (spInputs: nat) (spOutputs: nat)
      (spDsp: FaustMonoWebAudioDsp)
  | FaustMonoAudioWorkletNode (awnContext: BaseAudioContext) (awnName: string)
      (awnFactory: FaustDspFactory) (awnSampleSize: nat)

datatype FaustPolyNode =
    FaustPolyScriptProcessorNode (pspBufferSize: nat) (pspInputs: nat) (pspOutputs: nat)
      (pspDsp: FaustPolyWebAudioDsp)
  | FaustPolyAudioWorkletNode (pawnContext: BaseAudioContext) (pawnName: string)
      (pawnVoiceFactory: FaustDspFactory) (pawnMixerModule: WasmModule) (pawnVoices: nat)
      (pawnSampleSize: nat) (pawnEffectFactory: "FaustDspFactory option")

datatype FaustOfflineProcessor =
  FaustOfflineProcessor (offlineDsp: FaustMonoWebAudioDsp) (offlineBufferSize: nat)

subsection \<open>State\<close>

text \<open>What a call did to its collaborators, in order.\<close>

datatype event =
    EvCreateMonoDSPFactory string string string
  | EvCreatePolyDSPFactory string string string
  | EvGetMixerModule bool
  | EvCreateMonoDSPInstance FaustDspFactory
  | EvCreatePolyDSPInstance FaustDspFactory WasmModule nat "FaustDspFactory option"
  | EvCreateScriptProcessor BaseAudioContext nat nat nat
  | EvAddModule BaseAudioContext processorCode bool
  | EvNewAudioWorkletNode BaseAudioContext string

text \<open>
  The two static sets \<open>gWorkletProcessors\<close>, one per generator class, shared by all
  generators of the class, and the trace of calls made so far.
\<close>

record world =
  gMonoWorkletProcessors :: "string set"
  gPolyWorkletProcessors :: "string set"
  trace :: "event list"

definition emit :: "event \<Rightarrow> world \<Rightarrow> world" where
  "emit e w = w\<lparr>trace := trace w @ [e]\<rparr>"

record FaustMonoDspGenerator =
  fFactory :: "FaustDspFactory option"

record FaustPolyDspGenerator =
  fVoiceFactory :: "FaustDspFactory option"
  fEffectFactory :: "FaustDspFactory option"

definition new_FaustMonoDspGenerator :: FaustMonoDspGenerator where
  "new_FaustMonoDspGenerator = \<lparr>fFactory = None\<rparr>"

definition new_FaustPolyDspGenerator :: FaustPolyDspGenerator where
  "new_FaustPolyDspGenerator = \<lparr>fVoiceFactory = None, fEffectFactory = None\<rparr>"

definition initial_world :: world where
  "initial_world = \<lparr>gMonoWorkletProcessors = {}, gPolyWorkletProcessors = {}, trace = []\<rparr>"

subsection \<open>FaustMonoDspGenerator\<close>

text \<open>
  The names under which processors are registered: \<open>nameIn + factory.cfactory.toString()\<close>,
  followed by \<open>"_poly"\<close> for a polyphonic processor.
\<close>

definition mono_key :: "string \<Rightarrow> FaustDspFactory \<Rightarrow> string" where
  "mono_key nameIn factory = nameIn @ number_toString (cfactory factory)"

definition poly_key :: "string \<Rightarrow> FaustDspFactory \<Rightarrow> string" where
  "poly_key nameIn voiceFactory = nameIn @ number_toString (cfactory voiceFactory) @ ''_poly''"

definition sampleSizeOf :: "FaustDspMeta \<Rightarrow> nat" where
  "sampleSizeOf JSONObj = (if js_match (compile_options JSONObj) ''-double'' then 8 else 4)"

text \<open>
  The block \<open>if (!gWorkletProcessors.has(name)) { try { ... } catch { return null } }\<close>
  of \<open>createNode\<close>. The flag is \<open>False\<close> when the block returned \<open>null\<close>.
\<close>

definition mono_registerProcessor ::
  "host \<Rightarrow> world \<Rightarrow> BaseAudioContext \<Rightarrow> string \<Rightarrow> FaustDspFactory \<Rightarrow> bool \<times> world" where
  "mono_registerProcessor h w context name factory =
     (if name \<notin> gMonoWorkletProcessors w then
        (let processorCode = MonoProcessorCode name (json factory) in
         case addModule h context processorCode of
           None \<Rightarrow>
             (True, (emit (EvAddModule context processorCode True) w)
                      \<lparr>gMonoWorkletProcessors := insert name (gMonoWorkletProcessors w)\<rparr>)
         | Some e \<Rightarrow> (False, emit (EvAddModule context processorCode False) w))
      else (True, w))"

definition new_FaustMonoAudioWorkletNode ::
  "host \<Rightarrow> world \<Rightarrow> BaseAudioContext \<Rightarrow> string \<Rightarrow> FaustDspFactory \<Rightarrow> nat
     \<Rightarrow> (exn + FaustMonoNode option) \<times> world" where
  "new_FaustMonoAudioWorkletNode h w context name factory sampleSize =
     (case newAudioWorkletNode h context name of
        Some e \<Rightarrow> (Inl e, emit (EvNewAudioWorkletNode context name) w)
      | None \<Rightarrow> (Inr (Some (FaustMonoAudioWorkletNode context name factory sampleSize)),
                  emit (EvNewAudioWorkletNode context name) w))"

definition mono_createNode ::
  "host \<Rightarrow> world \<Rightarrow> BaseAudioContext \<Rightarrow> string \<Rightarrow> FaustDspFactory \<Rightarrow> bool option \<Rightarrow> nat option
     \<Rightarrow> (exn + FaustMonoNode option) \<times> world" where
  "mono_createNode h w context nameIn factory spIn bufferSizeIn =
     (let sp = (case spIn of None \<Rightarrow> False | Some b \<Rightarrow> b);
          bufferSize = (case bufferSizeIn of None \<Rightarrow> 1024 | Some n \<Rightarrow> n)
      in case JSON_parse h (json factory) of
           Inl e \<Rightarrow> (Inl e, w)
         | Inr JSONObj \<Rightarrow>
             (let sampleSize = sampleSizeOf JSONObj in
              if sp then
                (let w1 = emit (EvCreateMonoDSPInstance factory) w in
                 case createAsyncMonoDSPInstance h factory of
                   Inl e \<Rightarrow> (Inl e, w1)
                 | Inr instance \<Rightarrow>
                     (let monoDsp = FaustMonoWebAudioDsp instance (sampleRate context) sampleSize bufferSize;
                          w2 = emit (EvCreateScriptProcessor context bufferSize
                                       (mono_getNumInputs monoDsp) (mono_getNumOutputs monoDsp)) w1
                      in case createScriptProcessor h context bufferSize
                                (mono_getNumInputs monoDsp) (mono_getNumOutputs monoDsp) of
                           Some e \<Rightarrow> (Inl e, w2)
                         | None \<Rightarrow>
                             (Inr (Some (FaustMonoScriptProcessorNode bufferSize
                                           (mono_getNumInputs monoDsp) (mono_getNumOutputs monoDsp) monoDsp)),
                              w2)))
              else
                (let name = mono_key nameIn factory;
                     (registered, w1) = mono_registerProcessor h w context name factory
                 in if registered
                    then new_FaustMonoAudioWorkletNode h w1 context name factory sampleSize
                    else (Inr None, w1))))"

definition mono_compileNode ::
  "host \<Rightarrow> compiler \<Rightarrow> FaustMonoDspGenerator \<Rightarrow> world \<Rightarrow> BaseAudioContext \<Rightarrow> string \<Rightarrow> string
     \<Rightarrow> string \<Rightarrow> bool option \<Rightarrow> nat option
     \<Rightarrow> (exn + FaustMonoNode option) \<times> FaustMonoDspGenerator \<times> world" where
  "mono_compileNode h c this w context name dspCode args sp bufferSize =
     (let this1 = this\<lparr>fFactory := createMonoDSPFactory c name dspCode args\<rparr>;
          w1 = emit (EvCreateMonoDSPFactory name dspCode args) w
      in case fFactory this1 of
           Some factory \<Rightarrow>
             (let (r, w2) = mono_createNode h w1 context name factory sp bufferSize
              in (r, this1, w2))
         | None \<Rightarrow> (Inr None, this1, w1))"

definition mono_getFactory :: "FaustMonoDspGenerator \<Rightarrow> FaustDspFactory option" where
  "mono_getFactory this = fFactory this"

definition mono_createOfflineProcessor ::
  "host \<Rightarrow> world \<Rightarrow> FaustDspFactory \<Rightarrow> nat \<Rightarrow> nat
     \<Rightarrow> (exn + FaustOfflineProcessor option) \<times> world" where
  "mono_createOfflineProcessor h w factory sampleRateIn bufferSize =
     (let w1 = emit (EvCreateMonoDSPInstance factory) w in
      case createAsyncMonoDSPInstance h factory of
        Inl e \<Rightarrow> (Inl e, w1)
      | Inr instance \<Rightarrow>
          (case JSON_parse h (json factory) of
             Inl e \<Rightarrow> (Inl e, w1)
           | Inr JSONObj \<Rightarrow>
               (let sampleSize = sampleSizeOf JSONObj;
                    monoDsp = FaustMonoWebAudioDsp instance sampleRateIn sampleSize bufferSize
                in (Inr (Some (FaustOfflineProcessor monoDsp bufferSize)), w1))))"

subsection \<open>FaustPolyDspGenerator\<close>

definition poly_registerProcessor ::
  "host \<Rightarrow> world \<Rightarrow> BaseAudioContext \<Rightarrow> string \<Rightarrow> FaustDspFactory \<Rightarrow> FaustDspFactory option
     \<Rightarrow> bool \<times> world" where
  "poly_registerProcessor h w context name voiceFactory effectFactory =
     (if name \<notin> gPolyWorkletProcessors w then
        (let processorCode = PolyProcessorCode name (json voiceFactory)
                               (case effectFactory of Some ef \<Rightarrow> Some (json ef) | None \<Rightarrow> None)
         in case addModule h context processorCode of
              None \<Rightarrow>
                (True, (emit (EvAddModule context processorCode True) w)
                         \<lparr>gPolyWorkletProcessors := insert name (gPolyWorkletProcessors w)\<rparr>)
            | Some e \<Rightarrow> (False, emit (EvAddModule context processorCode False) w))
      else (True, w))"

definition new_FaustPolyAudioWorkletNode ::
  "host \<Rightarrow> world \<Rightarrow> BaseAudioContext \<Rightarrow> string \<Rightarrow> FaustDspFactory \<Rightarrow> WasmModule \<Rightarrow> nat \<Rightarrow> nat
     \<Rightarrow> FaustDspFactory option \<Rightarrow> (exn + FaustPolyNode option) \<times> world" where
  "new_FaustPolyAudioWorkletNode h w context name voiceFactory mixerModule voices sampleSize effectFactory =
     (case newAudioWorkletNode h context name of
        Some e \<Rightarrow> (Inl e, emit (EvNewAudioWorkletNode context name) w)
      | None \<Rightarrow>
          (Inr (Some (FaustPolyAudioWorkletNode context name voiceFactory mixerModule voices
                        sampleSize effectFactory)),
           emit (EvNewAudioWorkletNode context name) w))"

definition poly_createNode ::
  "host \<Rightarrow> world \<Rightarrow> BaseAudioContext \<Rightarrow> string \<Rightarrow> FaustDspFactory \<Rightarrow> WasmModule \<Rightarrow> nat
     \<Rightarrow> bool option \<Rightarrow> FaustDspFactory option \<Rightarrow> nat option
     \<Rightarrow> (exn + FaustPolyNode option) \<times> world" where
  "poly_createNode h w context nameIn voiceFactory mixerModule voices spIn effectFactory bufferSizeIn =
     (let sp = (case spIn of None \<Rightarrow> False | Some b \<Rightarrow> b);
          bufferSize = (case bufferSizeIn of None \<Rightarrow> 1024 | Some n \<Rightarrow> n)
      in case JSON_parse h (json voiceFactory) of
           Inl e \<Rightarrow> (Inl e, w)
         | Inr JSONObj \<Rightarrow>
             (let sampleSize = sampleSizeOf JSONObj in
              if sp then
                (let w1 = emit (EvCreatePolyDSPInstance voiceFactory mixerModule voices effectFactory) w in
                 case createAsyncPolyDSPInstance h voiceFactory mixerModule voices effectFactory of
                   Inl e \<Rightarrow> (Inl e, w1)
                 | Inr instance \<Rightarrow>
                     (let polyDsp = FaustPolyWebAudioDsp instance (sampleRate context) sampleSize bufferSize;
                          w2 = emit (EvCreateScriptProcessor context bufferSize
                                       (poly_getNumInputs polyDsp) (poly_getNumOutputs polyDsp)) w1
                      in case createScriptProcessor h context bufferSize
                                (poly_getNumInputs polyDsp) (poly_getNumOutputs polyDsp) of
                           Some e \<Rightarrow> (Inl e, w2)
                         | None \<Rightarrow>
                             (Inr (Some (FaustPolyScriptProcessorNode bufferSize
                                           (poly_getNumInputs polyDsp) (poly_getNumOutputs polyDsp) polyDsp)),
                              w2)))
              else
                (let name = poly_key nameIn voiceFactory;
                     (registered, w1) = poly_registerProcessor h w context name voiceFactory effectFactory
                 in if registered
                    then new_FaustPolyAudioWorkletNode h w1 context name voiceFactory mixerModule
                           voices sampleSize effectFactory
                    else (Inr None, w1))))"

text \<open>The effect code used when \<open>effectCode\<close> is \<open>null\<close> or the empty string.\<close>

definition default_effect_dsp :: "string \<Rightarrow> string" where
  "default_effect_dsp dspCode =
     [CHR 0x0A] @ ''adapt(1,1) = _; adapt(2,2) = _,_; adapt(1,2) = _ <: _,_; adapt(2,1) = _,_ :> _;''
     @ [CHR 0x0A] @ ''adaptor(F,G) = adapt(outputs(F),inputs(G));''
     @ [CHR 0x0A] @ ''dsp_code = environment{'' @ dspCode @ ''};''
     @ [CHR 0x0A] @ ''process = adaptor(dsp_code.process, dsp_code.effect) : dsp_code.effect;''"

text \<open>\<open>effectCode || `...`\<close>: the given effect code unless it is \<open>null\<close> or empty.\<close>

definition effect_dsp :: "string \<Rightarrow> string option \<Rightarrow> string" where
  "effect_dsp dspCode effectCode =
     (case effectCode of
        None \<Rightarrow> default_effect_dsp dspCode
      | Some ec \<Rightarrow> if ec = [] then default_effect_dsp dspCode else ec)"

definition poly_compileNode ::
  "host \<Rightarrow> compiler \<Rightarrow> FaustPolyDspGenerator \<Rightarrow> world \<Rightarrow> BaseAudioContext \<Rightarrow> string \<Rightarrow> string
     \<Rightarrow> string option \<Rightarrow> string \<Rightarrow> nat \<Rightarrow> bool option \<Rightarrow> nat option
     \<Rightarrow> (exn + FaustPolyNode option) \<times> FaustPolyDspGenerator \<times> world" where
  "poly_compileNode h c this w context name dspCode effectCode args voices sp bufferSize =
     (let voiceDsp = dspCode;
          effectDsp = effect_dsp dspCode effectCode;
          w1 = emit (EvCreatePolyDSPFactory name voiceDsp args) w
      in case createPolyDSPFactory c name voiceDsp args of
           None \<Rightarrow> (Inr None, this, w1)
         | Some voiceFactory \<Rightarrow>
             (let effectFactory = createPolyDSPFactory c name effectDsp args;
                  w2 = emit (EvCreatePolyDSPFactory name effectDsp args) w1
              in case JSON_parse h (json voiceFactory) of
                   Inl e \<Rightarrow> (Inl e, this, w2)
                 | Inr JSONObj \<Rightarrow>
                     (let isDouble = js_match (compile_options JSONObj) ''-double'';
                          w3 = emit (EvGetMixerModule isDouble) w2
                      in case getAsyncInternalMixerModule c isDouble of
                           None \<Rightarrow> (Inr None, this, w3)
                         | Some mixerModule \<Rightarrow>
                             (let (r, w4) = poly_createNode h w3 context name voiceFactory mixerModule
                                              voices sp effectFactory bufferSize
                              in (r, this, w4)))))"

text \<open>
  The state in which \<open>compileNode\<close> calls \<open>createNode\<close>: after the two calls of
  the compiler and the request for the mixer module.
\<close>

definition world_after_poly_compile ::
  "world \<Rightarrow> string \<Rightarrow> string \<Rightarrow> string option \<Rightarrow> string \<Rightarrow> bool \<Rightarrow> world" where
  "world_after_poly_compile w name dspCode effectCode args isDouble =
     emit (EvGetMixerModule isDouble)
       (emit (EvCreatePolyDSPFactory name (effect_dsp dspCode effectCode) args)
          (emit (EvCreatePolyDSPFactory name dspCode args) w))"

definition poly_getVoiceFactory :: "FaustPolyDspGenerator \<Rightarrow> FaustDspFactory option" where
  "poly_getVoiceFactory this = fVoiceFactory this"

definition poly_getEffectFactory :: "FaustPolyDspGenerator \<Rightarrow> FaustDspFactory option" where
  "poly_getEffectFactory this = fEffectFactory this"

subsection \<open>The suspension at \<open>addModule\<close>\<close>

text \<open>
  In the worklet branch, \<open>createNode\<close> tests \<open>gWorkletProcessors.has(name)\<close>, then
  suspends at \<open>await context.audioWorklet.addModule(url)\<close>, and calls
  \<open>gWorkletProcessors.add(name)\<close> only when it is resumed. Other calls can run while it
  is suspended. The two halves of such a call: \<open>begin\<close> runs up to the suspension, or
  to the end when the call does not register; \<open>resume\<close> runs from the settled
  \<open>addModule\<close> to the end, in the state that then holds.
\<close>

datatype mono_suspended =
  MonoSuspended host BaseAudioContext string FaustDspFactory nat

datatype poly_suspended =
  PolySuspended host BaseAudioContext string FaustDspFactory WasmModule nat nat "FaustDspFactory option"

definition mono_createNode_begin ::
  "host \<Rightarrow> world \<Rightarrow> BaseAudioContext \<Rightarrow> string \<Rightarrow> FaustDspFactory \<Rightarrow> bool option \<Rightarrow> nat option
     \<Rightarrow> ((exn + FaustMonoNode option) \<times> world) + mono_suspended" where
  "mono_createNode_begin h w context nameIn factory spIn bufferSizeIn =
     (case JSON_parse h (json factory) of
        Inl e \<Rightarrow> Inl (Inl e, w)
      | Inr JSONObj \<Rightarrow>
          if (case spIn of None \<Rightarrow> False | Some b \<Rightarrow> b)
          then Inl (mono_createNode h w context nameIn factory spIn bufferSizeIn)
          else if mono_key nameIn factory \<notin> gMonoWorkletProcessors w
          then Inr (MonoSuspended h context (mono_key nameIn factory) factory (sampleSizeOf JSONObj))
          else Inl (new_FaustMonoAudioWorkletNode h w context (mono_key nameIn factory) factory
                      (sampleSizeOf JSONObj)))"

fun mono_createNode_resume ::
  "mono_suspended \<Rightarrow> world \<Rightarrow> (exn + FaustMonoNode option) \<times> world" where
  "mono_createNode_resume (MonoSuspended h context name factory sampleSize) w =
     (case addModule h context (MonoProcessorCode name (json factory)) of
        None \<Rightarrow>
          new_FaustMonoAudioWorkletNode h
            ((emit (EvAddModule context (MonoProcessorCode name (json factory)) True) w)
               \<lparr>gMonoWorkletProcessors := insert name (gMonoWorkletProcessors w)\<rparr>)
            context name factory sampleSize
      | Some e \<Rightarrow>
          (Inr None, emit (EvAddModule context (MonoProcessorCode name (json factory)) False) w))"

definition poly_createNode_begin ::
  "host \<Rightarrow> world \<Rightarrow> BaseAudioContext \<Rightarrow> string \<Rightarrow> FaustDspFactory \<Rightarrow> WasmModule \<Rightarrow> nat
     \<Rightarrow> bool option \<Rightarrow> FaustDspFactory option \<Rightarrow> nat option
     \<Rightarrow> ((exn + FaustPolyNode option) \<times> world) + poly_suspended" where
  "poly_createNode_begin h w context nameIn voiceFactory mixerModule voices spIn effectFactory bufferSizeIn =
     (case JSON_parse h (json voiceFactory) of
        Inl e \<Rightarrow> Inl (Inl e, w)
      | Inr JSONObj \<Rightarrow>
          if (case spIn of None \<Rightarrow> False | Some b \<Rightarrow> b)
          then Inl (poly_createNode h w context nameIn voiceFactory mixerModule voices spIn effectFactory
                      bufferSizeIn)
          else if poly_key nameIn voiceFactory \<notin> gPolyWorkletProcessors w
          then Inr (PolySuspended h context (poly_key nameIn voiceFactory) voiceFactory mixerModule voices
                      (sampleSizeOf JSONObj) effectFactory)
          else Inl (new_FaustPolyAudioWorkletNode h w context (poly_key nameIn voiceFactory) voiceFactory
                      mixerModule voices (sampleSizeOf JSONObj) effectFactory))"

fun poly_createNode_resume ::
  "poly_suspended \<Rightarrow> world \<Rightarrow> (exn + FaustPolyNode option) \<times> world" where
  "poly_createNode_resume
     (PolySuspended h context name voiceFactory mixerModule voices sampleSize effectFactory) w =
     (case addModule h context
             (PolyProcessorCode name (json voiceFactory)
                (case effectFactory of Some ef \<Rightarrow> Some (json ef) | None \<Rightarrow> None)) of
        None \<Rightarrow>
          new_FaustPolyAudioWorkletNode h
            ((emit (EvAddModule context
                      (PolyProcessorCode name (json voiceFactory)
                         (case effectFactory of Some ef \<Rightarrow> Some (json ef) | None \<Rightarrow> None)) True) w)
               \<lparr>gPolyWorkletProcessors := insert name (gPolyWorkletProcessors w)\<rparr>)
            context name voiceFactory mixerModule voices sampleSize effectFactory
      | Some e \<Rightarrow>
          (Inr None,
           emit (EvAddModule context
                   (PolyProcessorCode name (json voiceFactory)
                      (case effectFactory of Some ef \<Rightarrow> Some (json ef) | None \<Rightarrow> None)) False) w))"

subsection \<open>Sequences of calls\<close>

text \<open>
  A call of a public method, with the behaviour of the platform (and of the compiler) at
  the time of the call. A sequence of calls is a sequence of awaited calls: each has
  returned before the next begins. One generator of each class is followed; the static sets are shared
  by every generator of a class, so calls on other generators of the class are
  \<open>createNode\<close> calls as far as the sets and the trace are concerned.
\<close>

datatype call =
    MonoCompileNode host compiler BaseAudioContext string string string "bool option" "nat option"
  | MonoCreateNode host BaseAudioContext string FaustDspFactory "bool option" "nat option"
  | MonoCreateOfflineProcessor host FaustDspFactory nat nat
  | PolyCompileNode host compiler BaseAudioContext string string "string option" string nat
      "bool option" "nat option"
  | PolyCreateNode host BaseAudioContext string FaustDspFactory WasmModule nat "bool option"
      "FaustDspFactory option" "nat option"

record system =
  monoGenerator :: FaustMonoDspGenerator
  polyGenerator :: FaustPolyDspGenerator
  statics :: world

fun step :: "call \<Rightarrow> system \<Rightarrow> system" where
  "step (MonoCompileNode h c context name dspCode args sp bufferSize) s =
     (let (r, this, w) = mono_compileNode h c (monoGenerator s) (statics s) context name dspCode
                           args sp bufferSize
      in s\<lparr>monoGenerator := this, statics := w\<rparr>)"
| "step (MonoCreateNode h context name factory sp bufferSize) s =
     s\<lparr>statics := snd (mono_createNode h (statics s) context name factory sp bufferSize)\<rparr>"
| "step (MonoCreateOfflineProcessor h factory sr bufferSize) s =
     s\<lparr>statics := snd (mono_createOfflineProcessor h (statics s) factory sr bufferSize)\<rparr>"
| "step (PolyCompileNode h c context name dspCode effectCode args voices sp bufferSize) s =
     (let (r, this, w) = poly_compileNode h c (polyGenerator s) (statics s) context name dspCode
                           effectCode args voices sp bufferSize
      in s\<lparr>polyGenerator := this, statics := w\<rparr>)"
| "step (PolyCreateNode h context name voiceFactory mixerModule voices sp effectFactory bufferSize) s =
     s\<lparr>statics := snd (poly_createNode h (statics s) context name voiceFactory mixerModule voices
                          sp effectFactory bufferSize)\<rparr>"

fun run :: "call list \<Rightarrow> system \<Rightarrow> system" where
  "run [] s = s"
| "run (c # cs) s = run cs (step c s)"

definition initial_system :: system where
  "initial_system =
     \<lparr>monoGenerator = new_FaustMonoDspGenerator, polyGenerator = new_FaustPolyDspGenerator,
      statics = initial_world\<rparr>"

subsection \<open>Reading the trace\<close>

definition events_since :: "world \<Rightarrow> world \<Rightarrow> event list" where
  "events_since w w' = drop (length (trace w)) (trace w')"

fun is_addModule :: "event \<Rightarrow> bool" where
  "is_addModule (EvAddModule context p ok) = True"
| "is_addModule e = False"

fun is_failed_addModule :: "event \<Rightarrow> bool" where
  "is_failed_addModule (EvAddModule context p ok) = (\<not> ok)"
| "is_failed_addModule e = False"

fun is_registration :: "event \<Rightarrow> bool" where
  "is_registration (EvAddModule context p ok) = ok"
| "is_registration e = False"

fun registers :: "string \<Rightarrow> event \<Rightarrow> bool" where
  "registers key (EvAddModule context p ok) = (ok \<and> dspName p = key)"
| "registers key e = False"

fun registers_in :: "BaseAudioContext \<Rightarrow> string \<Rightarrow> event \<Rightarrow> bool" where
  "registers_in ctx key (EvAddModule context p ok) = (ok \<and> context = ctx \<and> dspName p = key)"
| "registers_in ctx key e = False"

text \<open>
  What the static sets and the trace have in common in every reachable state: a name has
  been registered at most once, and only if it is in one of the sets; the names of the
  monophonic set end in a digit and those of the polyphonic set in \<open>y\<close>.
\<close>

definition is_digit :: "char \<Rightarrow> bool" where
  "is_digit ch \<longleftrightarrow> ch \<in> set ''0123456789''"

definition world_inv :: "world \<Rightarrow> bool" where
  "world_inv w \<longleftrightarrow>
     (\<forall>k. length (filter (registers k) (trace w))
            \<le> (if k \<in> gMonoWorkletProcessors w \<union> gPolyWorkletProcessors w then 1 else 0))
     \<and> (\<forall>k \<in> gMonoWorkletProcessors w. k \<noteq> [] \<and> is_digit (last k))
     \<and> (\<forall>k \<in> gPolyWorkletProcessors w. k \<noteq> [] \<and> last k = CHR ''y'')"

fun is_compile :: "event \<Rightarrow> bool" where
  "is_compile (EvCreateMonoDSPFactory name dspCode args) = True"
| "is_compile (EvCreatePolyDSPFactory name dspCode args) = True"
| "is_compile e = False"

fun is_construction :: "event \<Rightarrow> bool" where
  "is_construction (EvCreateMonoDSPInstance f) = True"
| "is_construction (EvCreatePolyDSPInstance f m n e) = True"
| "is_construction (EvCreateScriptProcessor context b nin nout) = True"
| "is_construction (EvNewAudioWorkletNode context name) = True"
| "is_construction e = False"

subsection \<open>The control surface of a built node\<close>

text \<open>
  Modelled from the spec: the node classes (\<open>FaustScriptProcessorNode\<close>,
  \<open>FaustAudioWorkletNode\<close>) are not among the sources. A script-processor node
  reports the channel counts of the DSP it was initialised with; a worklet node, whose
  instance lives in the worklet, reports the counts declared in the metadata of the factory
  it was constructed from.
\<close>

definition mono_node_getNumInputs :: "host \<Rightarrow> FaustMonoNode \<Rightarrow> nat option" where
  "mono_node_getNumInputs h n =
     (case n of
        FaustMonoScriptProcessorNode b ni no d \<Rightarrow> Some (mono_getNumInputs d)
      | FaustMonoAudioWorkletNode context name factory ss \<Rightarrow>
          (case JSON_parse h (json factory) of Inl e \<Rightarrow> None | Inr m \<Rightarrow> Some (inputs m)))"

definition mono_node_getNumOutputs :: "host \<Rightarrow> FaustMonoNode \<Rightarrow> nat option" where
  "mono_node_getNumOutputs h n =
     (case n of
        FaustMonoScriptProcessorNode b ni no d \<Rightarrow> Some (mono_getNumOutputs d)
      | FaustMonoAudioWorkletNode context name factory ss \<Rightarrow>
          (case JSON_parse h (json factory) of Inl e \<Rightarrow> None | Inr m \<Rightarrow> Some (outputs m)))"

definition poly_node_getNumInputs :: "host \<Rightarrow> FaustPolyNode \<Rightarrow> nat option" where
  "poly_node_getNumInputs h n =
     (case n of
        FaustPolyScriptProcessorNode b ni no d \<Rightarrow> Some (poly_getNumInputs d)
      | FaustPolyAudioWorkletNode context name voiceFactory mixerModule voices ss effectFactory \<Rightarrow>
          (case JSON_parse h (json voiceFactory) of Inl e \<Rightarrow> None | Inr m \<Rightarrow> Some (inputs m)))"

definition poly_node_getNumOutputs :: "host \<Rightarrow> FaustPolyNode \<Rightarrow> nat option" where
  "poly_node_getNumOutputs h n =
     (case n of
        FaustPolyScriptProcessorNode b ni no d \<Rightarrow> Some (poly_getNumOutputs d)
      | FaustPolyAudioWorkletNode context name voiceFactory mixerModule voices ss effectFactory \<Rightarrow>
          (case JSON_parse h (json voiceFactory) of Inl e \<Rightarrow> None | Inr m \<Rightarrow> Some (outputs m)))"

text \<open>
  Modelled from the spec: what is done to a node during its lifetime (\<open>init\<close>,
  \<open>compute\<close>, \<open>setParam\<close>, and for a polyphonic node \<open>keyOn\<close>,
  \<open>keyOff\<close>, \<open>allNotesOff\<close>). What the compiled module does to the memory of
  an instance is a parameter. A worklet node forwards the operation to its worklet and is
  itself unchanged.
\<close>

datatype node_op =
    OpInit nat
  | OpCompute nat
  | OpSetParam string int
  | OpKeyOn nat nat
  | OpKeyOff nat
  | OpAllNotesOff

type_synonym dsp_behaviour = "node_op \<Rightarrow> 8 word list \<Rightarrow> 8 word list"

definition instance_apply :: "dsp_behaviour \<Rightarrow> node_op \<Rightarrow> RuntimeInstance \<Rightarrow> RuntimeInstance" where
  "instance_apply k op' i = i\<lparr>memory := k op' (memory i)\<rparr>"

fun mono_node_apply :: "dsp_behaviour \<Rightarrow> node_op \<Rightarrow> FaustMonoNode \<Rightarrow> FaustMonoNode" where
  "mono_node_apply k op' (FaustMonoScriptProcessorNode b ni no (FaustMonoWebAudioDsp i sr ss bs)) =
     FaustMonoScriptProcessorNode b ni no (FaustMonoWebAudioDsp (instance_apply k op' i) sr ss bs)"
| "mono_node_apply k op' (FaustMonoAudioWorkletNode context name factory ss) =
     FaustMonoAudioWorkletNode context name factory ss"

fun poly_node_apply :: "dsp_behaviour \<Rightarrow> node_op \<Rightarrow> FaustPolyNode \<Rightarrow> FaustPolyNode" where
  "poly_node_apply k op'
     (FaustPolyScriptProcessorNode b ni no
        (FaustPolyWebAudioDsp (FaustPolyDspInstance v n mixerModule fx) sr ss bs)) =
     FaustPolyScriptProcessorNode b ni no
       (FaustPolyWebAudioDsp
          (FaustPolyDspInstance (instance_apply k op' v) n mixerModule
             (map_option (instance_apply k op') fx)) sr ss bs)"
| "poly_node_apply k op'
     (FaustPolyAudioWorkletNode context name voiceFactory mixerModule voices ss effectFactory) =
     FaustPolyAudioWorkletNode context name voiceFactory mixerModule voices ss effectFactory"

text \<open>The value of the parameter \<open>bufferSize = 1024\<close> of \<open>createNode\<close>.\<close>

definition bufferSizeOr :: "nat option \<Rightarrow> nat" where
  "bufferSizeOr b = (case b of None \<Rightarrow> 1024 | Some n \<Rightarrow> n)"

text \<open>The sample size a node was built with.\<close>

definition mono_node_sampleSize :: "FaustMonoNode \<Rightarrow> nat" where
  "mono_node_sampleSize n =
     (case n of
        FaustMonoScriptProcessorNode b ni no d \<Rightarrow> monoSampleSize d
      | FaustMonoAudioWorkletNode context name factory ss \<Rightarrow> ss)"

definition poly_node_sampleSize :: "FaustPolyNode \<Rightarrow> nat" where
  "poly_node_sampleSize n =
     (case n of
        FaustPolyScriptProcessorNode b ni no d \<Rightarrow> polySampleSize d
      | FaustPolyAudioWorkletNode context name voiceFactory mixerModule voices ss effectFactory \<Rightarrow> ss)"

subsection \<open>Example inputs\<close>

definition example_context :: BaseAudioContext where
  "example_context = \<lparr>contextId = 0, sampleRate = 44100\<rparr>"

definition example_context_other :: BaseAudioContext where
  "example_context_other = \<lparr>contextId = 1, sampleRate = 48000\<rparr>"

definition example_json_single :: string where
  "example_json_single = ''{compile_options: -lang wasm-ib -single -ftz 2, inputs: 1, outputs: 2}''"

definition example_json_double :: string where
  "example_json_double = ''{compile_options: -lang wasm-ib -double -ftz 2, inputs: 0, outputs: 1}''"

definition example_meta_single :: FaustDspMeta where
  "example_meta_single =
     \<lparr>compile_options = ''-lang wasm-ib -single -ftz 2'', inputs = 1, outputs = 2\<rparr>"

definition example_meta_double :: FaustDspMeta where
  "example_meta_double =
     \<lparr>compile_options = ''-lang wasm-ib -double -ftz 2'', inputs = 0, outputs = 1\<rparr>"

definition example_parse :: "string \<Rightarrow> exn + FaustDspMeta" where
  "example_parse s =
     (if s = example_json_single then Inr example_meta_single
      else if s = example_json_double then Inr example_meta_double
      else Inl (Exn ''SyntaxError''))"

text \<open>A platform on which every call succeeds, and one whose worklet refuses every module.\<close>

definition example_host :: host where
  "example_host =
     \<lparr>JSON_parse = example_parse,
      wasmInstantiate = (\<lambda>b. None),
      createScriptProcessor = (\<lambda>context b ni no. None),
      addModule = (\<lambda>context p. None),
      newAudioWorkletNode = (\<lambda>context name. None)\<rparr>"

definition example_host_refusing :: host where
  "example_host_refusing = example_host\<lparr>addModule := (\<lambda>context p. Some (Exn ''AbortError''))\<rparr>"

definition example_factory :: FaustDspFactory where
  "example_factory = \<lparr>cfactory = 1, code = [0, 97, 115, 109], json = example_json_single, poly = False\<rparr>"

text \<open>The same binary and metadata under another handle.\<close>

definition example_factory_again :: FaustDspFactory where
  "example_factory_again = \<lparr>cfactory = 2, code = [0, 97, 115, 109], json = example_json_single, poly = False\<rparr>"

definition example_factory_double :: FaustDspFactory where
  "example_factory_double = \<lparr>cfactory = 3, code = [0, 97, 115, 109, 1], json = example_json_double, poly = False\<rparr>"

definition example_voice_factory :: FaustDspFactory where
  "example_voice_factory = \<lparr>cfactory = 7, code = [0, 97, 115, 109], json = example_json_single, poly = True\<rparr>"

definition example_mixer :: WasmModule where
  "example_mixer = [0, 97, 115, 109, 9]"

text \<open>
  A compiler that compiles the voice code \<open>process = osc;\<close> and nothing else (so the
  effect code fails to compile), and one that compiles nothing.
\<close>

definition example_compiler :: compiler where
  "example_compiler =
     \<lparr>createMonoDSPFactory = (\<lambda>name dspCode args. if dspCode = ''process = osc;'' then Some example_factory else None),
      createPolyDSPFactory = (\<lambda>name dspCode args. if dspCode = ''process = osc;'' then Some example_voice_factory else None),
      getAsyncInternalMixerModule = (\<lambda>isDouble. Some example_mixer)\<rparr>"

text \<open>A compiler that compiles the voice code and every effect code.\<close>

definition example_compiler_all :: compiler where
  "example_compiler_all =
     \<lparr>createMonoDSPFactory = (\<lambda>name dspCode args. Some example_factory),
      createPolyDSPFactory = (\<lambda>name dspCode args.
         if dspCode = ''process = osc;'' then Some example_voice_factory else Some example_factory_double),
      getAsyncInternalMixerModule = (\<lambda>isDouble. Some example_mixer)\<rparr>"

definition example_compiler_failing :: compiler where
  "example_compiler_failing =
     \<lparr>createMonoDSPFactory = (\<lambda>name dspCode args. None),
      createPolyDSPFactory = (\<lambda>name dspCode args. None),
      getAsyncInternalMixerModule = (\<lambda>isDouble. Some example_mixer)\<rparr>"

definition example_behaviour :: dsp_behaviour where
  "example_behaviour op' mem = mem @ [1]"

section \<open>Properties\<close>

subsection \<open>Unfolding the model\<close>

lemmas example_defs =
  example_host_def example_host_refusing_def example_parse_def example_json_single_def
  example_json_double_def example_meta_single_def example_meta_double_def
  example_factory_def example_factory_again_def
  example_factory_double_def example_voice_factory_def example_mixer_def
  example_compiler_def example_compiler_all_def example_compiler_failing_def example_context_def
  example_context_other_def
  initial_world_def initial_system_def new_FaustMonoDspGenerator_def new_FaustPolyDspGenerator_def

lemmas generator_defs =
  mono_createNode_def mono_compileNode_def mono_createOfflineProcessor_def
  mono_registerProcessor_def new_FaustMonoAudioWorkletNode_def
  poly_createNode_def poly_compileNode_def effect_dsp_def default_effect_dsp_def
  world_after_poly_compile_def
  poly_registerProcessor_def
  new_FaustPolyAudioWorkletNode_def
  createAsyncMonoDSPInstance_def createAsyncPolyDSPInstance_def
  mono_getNumInputs_def mono_getNumOutputs_def poly_getNumInputs_def poly_getNumOutputs_def
  mono_key_def poly_key_def number_toString_def sampleSizeOf_def emit_def Let_def

subsection \<open>The sample size\<close>

lemma starts_with_iff: "starts_with s p \<longleftrightarrow> (\<exists>b. s = p @ b)"
  by (induction s p rule: starts_with.induct) auto

lemma js_match_iff: "js_match s p \<longleftrightarrow> (\<exists>a b. s = a @ p @ b)"
proof (induction s)
  case Nil
  then show ?case by auto
next
  case (Cons c cs)
  show ?case
  proof
    assume "js_match (c # cs) p"
    then consider "starts_with (c # cs) p" | "js_match cs p" by auto
    then show "\<exists>a b. c # cs = a @ p @ b"
    proof cases
      case 1
      then obtain b where "c # cs = p @ b" by (auto simp: starts_with_iff)
      then have "c # cs = [] @ p @ b" by simp
      then show ?thesis by blast
    next
      case 2
      then obtain a b where "cs = a @ p @ b" using Cons.IH by auto
      then have "c # cs = (c # a) @ p @ b" by simp
      then show ?thesis by blast
    qed
  next
    assume "\<exists>a b. c # cs = a @ p @ b"
    then obtain a b where ab: "c # cs = a @ p @ b" by blast
    show "js_match (c # cs) p"
    proof (cases a)
      case Nil
      with ab have "starts_with (c # cs) p" by (auto simp: starts_with_iff)
      then show ?thesis by simp
    next
      case (Cons x xs)
      with ab have "cs = xs @ p @ b" by simp
      then have "js_match cs p" using Cons.IH by blast
      then show ?thesis by simp
    qed
  qed
qed

lemma sampleSizeOf_contains:
  "sampleSizeOf m = (if (\<exists>a b. compile_options m = a @ ''-double'' @ b) then 8 else 4)"
  unfolding sampleSizeOf_def js_match_iff by (rule refl)

lemma mono_createNode_sampleSize:
  assumes "JSON_parse h (json factory) = Inr m"
    and "fst (mono_createNode h w ctx nameIn factory sp bufferSize) = Inr (Some n)"
  shows "mono_node_sampleSize n = sampleSizeOf m"
  using assms
  by (auto simp: mono_createNode_def Let_def mono_node_sampleSize_def
        new_FaustMonoAudioWorkletNode_def
      split: sum.splits option.splits if_splits prod.splits)

lemma poly_createNode_sampleSize:
  assumes "JSON_parse h (json voiceFactory) = Inr m"
    and "fst (poly_createNode h w ctx nameIn voiceFactory mixerModule voices sp effectFactory bufferSize) = Inr (Some n)"
  shows "poly_node_sampleSize n = sampleSizeOf m"
  using assms
  by (auto simp: poly_createNode_def Let_def poly_node_sampleSize_def
        new_FaustPolyAudioWorkletNode_def
      split: sum.splits option.splits if_splits prod.splits)

lemma mono_createOfflineProcessor_sampleSize:
  assumes "JSON_parse h (json factory) = Inr m"
    and "fst (mono_createOfflineProcessor h w factory sr bufferSize) = Inr (Some p)"
  shows "monoSampleSize (offlineDsp p) = sampleSizeOf m"
  using assms
  by (auto simp: mono_createOfflineProcessor_def Let_def
      split: sum.splits option.splits if_splits prod.splits)

text \<open>
  C5. When the \<open>compile_options\<close> of the factory's metadata contain \<open>-double\<close>
  the sample size is 8 bytes, and 4 bytes otherwise; every node built by the monophonic
  \<open>createNode\<close>, by the polyphonic \<open>createNode\<close> and every processor built by
  \<open>createOfflineProcessor\<close> carries this sample size.
\<close>

theorem C5_sample_size:
  assumes "JSON_parse h (json factory) = Inr m"
  shows "sampleSizeOf m = (if (\<exists>a b. compile_options m = a @ ''-double'' @ b) then 8 else 4)
    \<and> (\<forall>n. fst (mono_createNode h w ctx nameIn factory sp bufferSize) = Inr (Some n)
          \<longrightarrow> mono_node_sampleSize n = sampleSizeOf m)
    \<and> (\<forall>n. fst (poly_createNode h w ctx nameIn factory mixerModule voices sp effectFactory bufferSize)
             = Inr (Some n)
          \<longrightarrow> poly_node_sampleSize n = sampleSizeOf m)
    \<and> (\<forall>p. fst (mono_createOfflineProcessor h w factory sr bs) = Inr (Some p)
          \<longrightarrow> monoSampleSize (offlineDsp p) = sampleSizeOf m)"
proof (intro conjI allI impI)
  show "sampleSizeOf m = (if (\<exists>a b. compile_options m = a @ ''-double'' @ b) then 8 else 4)"
    by (rule sampleSizeOf_contains)
next
  fix n
  assume "fst (mono_createNode h w ctx nameIn factory sp bufferSize) = Inr (Some n)"
  with assms show "mono_node_sampleSize n = sampleSizeOf m"
    by (rule mono_createNode_sampleSize)
next
  fix n
  assume "fst (poly_createNode h w ctx nameIn factory mixerModule voices sp effectFactory bufferSize)
            = Inr (Some n)"
  with assms show "poly_node_sampleSize n = sampleSizeOf m"
    by (rule poly_createNode_sampleSize)
next
  fix p
  assume "fst (mono_createOfflineProcessor h w factory sr bs) = Inr (Some p)"
  with assms show "monoSampleSize (offlineDsp p) = sampleSizeOf m"
    by (rule mono_createOfflineProcessor_sampleSize)
qed

theorem C5_sample_size_witness:
  "JSON_parse example_host (json example_factory_double) = Inr example_meta_double
   \<and> sampleSizeOf example_meta_double = 8
   \<and> fst (mono_createNode example_host initial_world example_context ''osc''
            example_factory_double None None)
       = Inr (Some (FaustMonoAudioWorkletNode example_context ''osc3'' example_factory_double 8))
   \<and> mono_node_sampleSize
         (FaustMonoAudioWorkletNode example_context ''osc3'' example_factory_double 8) = 8
   \<and> fst (poly_createNode example_host initial_world example_context ''osc''
            example_factory_double example_mixer 4 None None None)
       = Inr (Some (FaustPolyAudioWorkletNode example_context ''osc3_poly''
                      example_factory_double example_mixer 4 8 None))
   \<and> poly_node_sampleSize
         (FaustPolyAudioWorkletNode example_context ''osc3_poly''
            example_factory_double example_mixer 4 8 None) = 8
   \<and> fst (mono_createOfflineProcessor example_host initial_world example_factory_double 44100 256)
       = Inr (Some (FaustOfflineProcessor
                      (FaustMonoWebAudioDsp \<lparr>numInputs = 0, numOutputs = 1, memory = []\<rparr> 44100 8 256)
                      256))
   \<and> monoSampleSize
         (offlineDsp (FaustOfflineProcessor
                        (FaustMonoWebAudioDsp \<lparr>numInputs = 0, numOutputs = 1, memory = []\<rparr> 44100 8 256)
                        256)) = 8"
proof -
  have p: "JSON_parse example_host (json example_factory_double) = Inr example_meta_double"
    by (simp add: example_defs)
  have s: "sampleSizeOf example_meta_double = 8"
    by (simp add: example_defs sampleSizeOf_def)
  have m: "fst (mono_createNode example_host initial_world example_context ''osc''
            example_factory_double None None)
       = Inr (Some (FaustMonoAudioWorkletNode example_context ''osc3'' example_factory_double 8))"
    by (simp add: example_defs generator_defs digits.simps)
  have q: "fst (poly_createNode example_host initial_world example_context ''osc''
            example_factory_double example_mixer 4 None None None)
       = Inr (Some (FaustPolyAudioWorkletNode example_context ''osc3_poly''
                      example_factory_double example_mixer 4 8 None))"
    by (simp add: example_defs generator_defs digits.simps)
  have f: "fst (mono_createOfflineProcessor example_host initial_world example_factory_double 44100 256)
       = Inr (Some (FaustOfflineProcessor
                      (FaustMonoWebAudioDsp \<lparr>numInputs = 0, numOutputs = 1, memory = []\<rparr> 44100 8 256)
                      256))"
    by (simp add: example_defs generator_defs)
  from C5_sample_size [OF p, where w = initial_world and ctx = example_context
      and nameIn = "''osc''" and sp = None and bufferSize = None and mixerModule = example_mixer
      and voices = 4 and effectFactory = None and sr = 44100 and bs = 256] p s m q f
  show ?thesis by simp
qed

subsection \<open>Registration of the worklet processor\<close>

lemmas unfold_createNode =
  mono_createNode_def mono_registerProcessor_def new_FaustMonoAudioWorkletNode_def
  poly_createNode_def poly_registerProcessor_def new_FaustPolyAudioWorkletNode_def
  Let_def emit_def events_since_def

lemmas createNode_splits = sum.splits option.splits if_splits bool.splits prod.splits

lemma mono_createNode_failed_addModule:
  assumes "mono_createNode h w ctx nameIn factory sp bufferSize = (r, w')"
    and "\<exists>e \<in> set (events_since w w'). is_failed_addModule e"
  shows "r = Inr None"
    and "length (filter is_addModule (events_since w w')) = 1"
    and "gMonoWorkletProcessors w' = gMonoWorkletProcessors w"
    and "gPolyWorkletProcessors w' = gPolyWorkletProcessors w"
    and "mono_key nameIn factory \<notin> gMonoWorkletProcessors w'"
    and "sp \<noteq> Some True"
    and "addModule h ctx (MonoProcessorCode (mono_key nameIn factory) (json factory)) \<noteq> None"
  using assms
  by (auto simp: unfold_createNode split: createNode_splits)

lemma poly_createNode_failed_addModule:
  assumes "poly_createNode h w ctx nameIn voiceFactory mixerModule voices sp effectFactory bufferSize = (r, w')"
    and "\<exists>e \<in> set (events_since w w'). is_failed_addModule e"
  shows "r = Inr None"
    and "length (filter is_addModule (events_since w w')) = 1"
    and "gMonoWorkletProcessors w' = gMonoWorkletProcessors w"
    and "gPolyWorkletProcessors w' = gPolyWorkletProcessors w"
    and "poly_key nameIn voiceFactory \<notin> gPolyWorkletProcessors w'"
    and "sp \<noteq> Some True"
  using assms
  by (auto simp: unfold_createNode split: createNode_splits)

lemma mono_createNode_addModule_throws:
  assumes "sp \<noteq> Some True"
    and "JSON_parse h (json factory) = Inr m"
    and "mono_key nameIn factory \<notin> gMonoWorkletProcessors w"
    and "addModule h ctx (MonoProcessorCode (mono_key nameIn factory) (json factory)) = Some e"
  shows "mono_createNode h w ctx nameIn factory sp bufferSize =
          (Inr None, emit (EvAddModule ctx (MonoProcessorCode (mono_key nameIn factory) (json factory)) False) w)"
  using assms
  by (auto simp: unfold_createNode split: createNode_splits)

lemma poly_createNode_addModule_throws:
  assumes "sp \<noteq> Some True"
    and "JSON_parse h (json voiceFactory) = Inr m"
    and "poly_key nameIn voiceFactory \<notin> gPolyWorkletProcessors w"
    and "addModule h ctx (PolyProcessorCode (poly_key nameIn voiceFactory) (json voiceFactory)
                            (map_option json effectFactory)) = Some e"
  shows "poly_createNode h w ctx nameIn voiceFactory mixerModule voices sp effectFactory bufferSize =
          (Inr None, emit (EvAddModule ctx (PolyProcessorCode (poly_key nameIn voiceFactory) (json voiceFactory)
                            (map_option json effectFactory)) False) w)"
  using assms
  by (auto simp: unfold_createNode split: createNode_splits)

lemma mono_createNode_attempts:
  assumes "sp \<noteq> Some True"
    and "JSON_parse h (json factory) = Inr m"
    and "mono_key nameIn factory \<notin> gMonoWorkletProcessors w"
  shows "filter is_addModule (events_since w (snd (mono_createNode h w ctx nameIn factory sp bufferSize)))
         = [EvAddModule ctx (MonoProcessorCode (mono_key nameIn factory) (json factory))
              (addModule h ctx (MonoProcessorCode (mono_key nameIn factory) (json factory)) = None)]"
  using assms
  by (auto simp: unfold_createNode split: createNode_splits)

lemma poly_createNode_attempts:
  assumes "sp \<noteq> Some True"
    and "JSON_parse h (json voiceFactory) = Inr m"
    and "poly_key nameIn voiceFactory \<notin> gPolyWorkletProcessors w"
  shows "filter is_addModule
           (events_since w (snd (poly_createNode h w ctx nameIn voiceFactory mixerModule voices sp
                                   effectFactory bufferSize)))
         = [EvAddModule ctx (PolyProcessorCode (poly_key nameIn voiceFactory) (json voiceFactory)
                               (map_option json effectFactory))
              (addModule h ctx (PolyProcessorCode (poly_key nameIn voiceFactory) (json voiceFactory)
                                  (map_option json effectFactory)) = None)]"
  using assms
  by (auto simp: unfold_createNode split: createNode_splits)

lemma mono_createNode_new_key:
  assumes "mono_createNode h w ctx nameIn factory sp bufferSize = (r, w')"
    and "k \<in> gMonoWorkletProcessors w'" and "k \<notin> gMonoWorkletProcessors w"
  shows "k = mono_key nameIn factory"
    and "addModule h ctx (MonoProcessorCode k (json factory)) = None"
    and "EvAddModule ctx (MonoProcessorCode k (json factory)) True \<in> set (events_since w w')"
  using assms
  by (auto simp: unfold_createNode split: createNode_splits)

lemma poly_createNode_new_key:
  assumes "poly_createNode h w ctx nameIn voiceFactory mixerModule voices sp effectFactory bufferSize = (r, w')"
    and "k \<in> gPolyWorkletProcessors w'" and "k \<notin> gPolyWorkletProcessors w"
  shows "k = poly_key nameIn voiceFactory"
    and "addModule h ctx (PolyProcessorCode k (json voiceFactory) (map_option json effectFactory)) = None"
    and "EvAddModule ctx (PolyProcessorCode k (json voiceFactory) (map_option json effectFactory)) True
           \<in> set (events_since w w')"
  using assms
  by (auto simp: unfold_createNode split: createNode_splits)

text \<open>
  C3. A \<open>createNode\<close> call for the worklet backend in which \<open>addModule\<close> throws
  returns \<open>null\<close>, and \<open>addModule\<close> is called exactly once in that call: the
  registration is not tried a second time. This holds for the monophonic and for the
  polyphonic generator, whether the failing call is read off the trace or off the platform.
\<close>

theorem C3_registration_failure_is_null:
  "(mono_createNode h w ctx nameIn factory sp bufferSize = (r, w')
      \<and> (\<exists>e \<in> set (events_since w w'). is_failed_addModule e)
    \<longrightarrow> r = Inr None \<and> length (filter is_addModule (events_since w w')) = 1)
   \<and> (poly_createNode h w ctx nameIn factory mixerModule voices sp effectFactory bufferSize = (pr, pw')
      \<and> (\<exists>e \<in> set (events_since w pw'). is_failed_addModule e)
    \<longrightarrow> pr = Inr None \<and> length (filter is_addModule (events_since w pw')) = 1)
   \<and> (sp \<noteq> Some True \<and> JSON_parse h (json factory) = Inr m
      \<and> mono_key nameIn factory \<notin> gMonoWorkletProcessors w
      \<and> addModule h ctx (MonoProcessorCode (mono_key nameIn factory) (json factory)) = Some x
    \<longrightarrow> mono_createNode h w ctx nameIn factory sp bufferSize =
          (Inr None,
           emit (EvAddModule ctx (MonoProcessorCode (mono_key nameIn factory) (json factory)) False) w))
   \<and> (sp \<noteq> Some True \<and> JSON_parse h (json factory) = Inr m
      \<and> poly_key nameIn factory \<notin> gPolyWorkletProcessors w
      \<and> addModule h ctx (PolyProcessorCode (poly_key nameIn factory) (json factory)
                            (map_option json effectFactory)) = Some x
    \<longrightarrow> poly_createNode h w ctx nameIn factory mixerModule voices sp effectFactory bufferSize =
          (Inr None,
           emit (EvAddModule ctx (PolyProcessorCode (poly_key nameIn factory) (json factory)
                                    (map_option json effectFactory)) False) w))"
proof (intro conjI impI)
  assume a: "mono_createNode h w ctx nameIn factory sp bufferSize = (r, w')
      \<and> (\<exists>e \<in> set (events_since w w'). is_failed_addModule e)"
  then show "r = Inr None"
    using mono_createNode_failed_addModule(1) by blast
  from a show "length (filter is_addModule (events_since w w')) = 1"
    using mono_createNode_failed_addModule(2) by blast
next
  assume a: "poly_createNode h w ctx nameIn factory mixerModule voices sp effectFactory bufferSize = (pr, pw')
      \<and> (\<exists>e \<in> set (events_since w pw'). is_failed_addModule e)"
  then show "pr = Inr None"
    using poly_createNode_failed_addModule(1) by blast
  from a show "length (filter is_addModule (events_since w pw')) = 1"
    using poly_createNode_failed_addModule(2) by blast
next
  assume "sp \<noteq> Some True \<and> JSON_parse h (json factory) = Inr m
      \<and> mono_key nameIn factory \<notin> gMonoWorkletProcessors w
      \<and> addModule h ctx (MonoProcessorCode (mono_key nameIn factory) (json factory)) = Some x"
  then show "mono_createNode h w ctx nameIn factory sp bufferSize =
          (Inr None,
           emit (EvAddModule ctx (MonoProcessorCode (mono_key nameIn factory) (json factory)) False) w)"
    using mono_createNode_addModule_throws by blast
next
  assume "sp \<noteq> Some True \<and> JSON_parse h (json factory) = Inr m
      \<and> poly_key nameIn factory \<notin> gPolyWorkletProcessors w
      \<and> addModule h ctx (PolyProcessorCode (poly_key nameIn factory) (json factory)
                            (map_option json effectFactory)) = Some x"
  then show "poly_createNode h w ctx nameIn factory mixerModule voices sp effectFactory bufferSize =
          (Inr None,
           emit (EvAddModule ctx (PolyProcessorCode (poly_key nameIn factory) (json factory)
                                    (map_option json effectFactory)) False) w)"
    using poly_createNode_addModule_throws by blast
qed

theorem C3_registration_failure_is_null_witness:
  "mono_createNode example_host_refusing initial_world example_context ''osc'' example_factory None None
     = (Inr None,
        emit (EvAddModule example_context (MonoProcessorCode ''osc1'' example_json_single) False)
          initial_world)
   \<and> (\<exists>e \<in> set (events_since initial_world
                    (emit (EvAddModule example_context (MonoProcessorCode ''osc1'' example_json_single) False)
                       initial_world)).
         is_failed_addModule e)
   \<and> length (filter is_addModule
         (events_since initial_world
            (emit (EvAddModule example_context (MonoProcessorCode ''osc1'' example_json_single) False)
               initial_world))) = 1
   \<and> poly_createNode example_host_refusing initial_world example_context ''osc'' example_factory
        example_mixer 4 None None None
     = (Inr None,
        emit (EvAddModule example_context (PolyProcessorCode ''osc1_poly'' example_json_single None) False)
          initial_world)
   \<and> (\<exists>e \<in> set (events_since initial_world
                    (emit (EvAddModule example_context
                             (PolyProcessorCode ''osc1_poly'' example_json_single None) False)
                       initial_world)).
         is_failed_addModule e)
   \<and> length (filter is_addModule
         (events_since initial_world
            (emit (EvAddModule example_context
                     (PolyProcessorCode ''osc1_poly'' example_json_single None) False)
               initial_world))) = 1
   \<and> JSON_parse example_host_refusing (json example_factory) = Inr example_meta_single
   \<and> mono_key ''osc'' example_factory \<notin> gMonoWorkletProcessors initial_world
   \<and> poly_key ''osc'' example_factory \<notin> gPolyWorkletProcessors initial_world
   \<and> addModule example_host_refusing example_context
        (MonoProcessorCode (mono_key ''osc'' example_factory) (json example_factory))
      = Some (Exn ''AbortError'')
   \<and> addModule example_host_refusing example_context
        (PolyProcessorCode (poly_key ''osc'' example_factory) (json example_factory) (map_option json (None :: FaustDspFactory option)))
      = Some (Exn ''AbortError'')"
proof -
  have k1: "mono_key ''osc'' example_factory = ''osc1''"
    by (simp add: mono_key_def number_toString_def digits.simps example_factory_def)
  have k2: "poly_key ''osc'' example_factory = ''osc1_poly''"
    by (simp add: poly_key_def number_toString_def digits.simps example_factory_def)
  have j: "json example_factory = example_json_single"
    by (simp add: example_factory_def)
  have p: "JSON_parse example_host_refusing (json example_factory) = Inr example_meta_single"
    by (simp add: example_defs)
  have n1: "mono_key ''osc'' example_factory \<notin> gMonoWorkletProcessors initial_world"
    by (simp add: initial_world_def)
  have n2: "poly_key ''osc'' example_factory \<notin> gPolyWorkletProcessors initial_world"
    by (simp add: initial_world_def)
  have a1: "addModule example_host_refusing example_context
        (MonoProcessorCode (mono_key ''osc'' example_factory) (json example_factory))
      = Some (Exn ''AbortError'')"
    by (simp add: example_host_refusing_def)
  have a2: "addModule example_host_refusing example_context
        (PolyProcessorCode (poly_key ''osc'' example_factory) (json example_factory) (map_option json (None :: FaustDspFactory option)))
      = Some (Exn ''AbortError'')"
    by (simp add: example_host_refusing_def)
  have s: "None \<noteq> Some True" by simp
  note c = C3_registration_failure_is_null [where h = example_host_refusing and w = initial_world
      and ctx = example_context and nameIn = "''osc''" and factory = example_factory and sp = None
      and bufferSize = None and mixerModule = example_mixer and voices = 4 and effectFactory = None
      and m = example_meta_single and x = "Exn ''AbortError''"
      and r = "Inr None"
      and w' = "emit (EvAddModule example_context (MonoProcessorCode ''osc1'' example_json_single) False)
                  initial_world"
      and pr = "Inr None"
      and pw' = "emit (EvAddModule example_context
                         (PolyProcessorCode ''osc1_poly'' example_json_single None) False)
                   initial_world"]
  have m1: "mono_createNode example_host_refusing initial_world example_context ''osc'' example_factory None None
     = (Inr None,
        emit (EvAddModule example_context (MonoProcessorCode ''osc1'' example_json_single) False)
          initial_world)"
    using c s p n1 a1 k1 j by simp
  have m2: "poly_createNode example_host_refusing initial_world example_context ''osc'' example_factory
        example_mixer 4 None None None
     = (Inr None,
        emit (EvAddModule example_context (PolyProcessorCode ''osc1_poly'' example_json_single None) False)
          initial_world)"
    using c s p n2 a2 k2 j by simp
  have f1: "\<exists>e \<in> set (events_since initial_world
                    (emit (EvAddModule example_context (MonoProcessorCode ''osc1'' example_json_single) False)
                       initial_world)).
         is_failed_addModule e"
    by (simp add: events_since_def emit_def)
  have f2: "\<exists>e \<in> set (events_since initial_world
                    (emit (EvAddModule example_context
                             (PolyProcessorCode ''osc1_poly'' example_json_single None) False)
                       initial_world)).
         is_failed_addModule e"
    by (simp add: events_since_def emit_def)
  from c m1 m2 f1 f2 p n1 n2 a1 a2 show ?thesis by blast
qed

text \<open>
  C4. A \<open>createNode\<close> call for the worklet backend in which the registration fails
  leaves both static sets as they were, so the name is not in the set afterwards, and a
  further \<open>createNode\<close> call for the same name and factory calls \<open>addModule\<close>
  again. A name enters a static set only in a call whose \<open>addModule\<close> completed.
\<close>

theorem C4_failed_registration_not_cached:
  "(mono_createNode h w ctx nameIn factory sp bufferSize = (r, w')
      \<and> (\<exists>e \<in> set (events_since w w'). is_failed_addModule e)
    \<longrightarrow> gMonoWorkletProcessors w' = gMonoWorkletProcessors w
        \<and> gPolyWorkletProcessors w' = gPolyWorkletProcessors w
        \<and> mono_key nameIn factory \<notin> gMonoWorkletProcessors w'
        \<and> (spn \<noteq> Some True \<and> JSON_parse hn (json factory) = Inr mn
             \<longrightarrow> filter is_addModule
                   (events_since w' (snd (mono_createNode hn w' ctxn nameIn factory spn bufferSizen)))
                 = [EvAddModule ctxn (MonoProcessorCode (mono_key nameIn factory) (json factory))
                      (addModule hn ctxn (MonoProcessorCode (mono_key nameIn factory) (json factory)) = None)]))
   \<and> (poly_createNode h w ctx nameIn factory mixerModule voices sp effectFactory bufferSize = (pr, pw')
      \<and> (\<exists>e \<in> set (events_since w pw'). is_failed_addModule e)
    \<longrightarrow> gMonoWorkletProcessors pw' = gMonoWorkletProcessors w
        \<and> gPolyWorkletProcessors pw' = gPolyWorkletProcessors w
        \<and> poly_key nameIn factory \<notin> gPolyWorkletProcessors pw'
        \<and> (spn \<noteq> Some True \<and> JSON_parse hn (json factory) = Inr mn
             \<longrightarrow> filter is_addModule
                   (events_since pw' (snd (poly_createNode hn pw' ctxn nameIn factory mixerModule voices
                                            spn effectFactory bufferSizen)))
                 = [EvAddModule ctxn (PolyProcessorCode (poly_key nameIn factory) (json factory)
                                        (map_option json effectFactory))
                      (addModule hn ctxn (PolyProcessorCode (poly_key nameIn factory) (json factory)
                                            (map_option json effectFactory)) = None)]))
   \<and> (mono_createNode hb wb ctxb nameb fb spb bufferSizeb = (rb, wb')
      \<and> k \<in> gMonoWorkletProcessors wb' \<and> k \<notin> gMonoWorkletProcessors wb
    \<longrightarrow> k = mono_key nameb fb
        \<and> addModule hb ctxb (MonoProcessorCode k (json fb)) = None
        \<and> EvAddModule ctxb (MonoProcessorCode k (json fb)) True \<in> set (events_since wb wb'))
   \<and> (poly_createNode hb wb ctxb nameb fb mixerb voicesb spb effectb bufferSizeb = (prb, pwb')
      \<and> kp \<in> gPolyWorkletProcessors pwb' \<and> kp \<notin> gPolyWorkletProcessors wb
    \<longrightarrow> kp = poly_key nameb fb
        \<and> addModule hb ctxb (PolyProcessorCode kp (json fb) (map_option json effectb)) = None
        \<and> EvAddModule ctxb (PolyProcessorCode kp (json fb) (map_option json effectb)) True
             \<in> set (events_since wb pwb'))"
proof (intro conjI impI)
  assume a: "mono_createNode h w ctx nameIn factory sp bufferSize = (r, w')
      \<and> (\<exists>e \<in> set (events_since w w'). is_failed_addModule e)"
  then show "gMonoWorkletProcessors w' = gMonoWorkletProcessors w"
    using mono_createNode_failed_addModule(3) by blast
  from a show "gPolyWorkletProcessors w' = gPolyWorkletProcessors w"
    using mono_createNode_failed_addModule(4) by blast
  from a show n: "mono_key nameIn factory \<notin> gMonoWorkletProcessors w'"
    using mono_createNode_failed_addModule(5) by blast
  assume "spn \<noteq> Some True \<and> JSON_parse hn (json factory) = Inr mn"
  with n show "filter is_addModule
                 (events_since w' (snd (mono_createNode hn w' ctxn nameIn factory spn bufferSizen)))
               = [EvAddModule ctxn (MonoProcessorCode (mono_key nameIn factory) (json factory))
                    (addModule hn ctxn (MonoProcessorCode (mono_key nameIn factory) (json factory)) = None)]"
    using mono_createNode_attempts by blast
next
  assume a: "poly_createNode h w ctx nameIn factory mixerModule voices sp effectFactory bufferSize = (pr, pw')
      \<and> (\<exists>e \<in> set (events_since w pw'). is_failed_addModule e)"
  then show "gMonoWorkletProcessors pw' = gMonoWorkletProcessors w"
    using poly_createNode_failed_addModule(3) by blast
  from a show "gPolyWorkletProcessors pw' = gPolyWorkletProcessors w"
    using poly_createNode_failed_addModule(4) by blast
  from a show n: "poly_key nameIn factory \<notin> gPolyWorkletProcessors pw'"
    using poly_createNode_failed_addModule(5) by blast
  assume "spn \<noteq> Some True \<and> JSON_parse hn (json factory) = Inr mn"
  with n show "filter is_addModule
                   (events_since pw' (snd (poly_createNode hn pw' ctxn nameIn factory mixerModule voices
                                            spn effectFactory bufferSizen)))
                 = [EvAddModule ctxn (PolyProcessorCode (poly_key nameIn factory) (json factory)
                                        (map_option json effectFactory))
                      (addModule hn ctxn (PolyProcessorCode (poly_key nameIn factory) (json factory)
                                            (map_option json effectFactory)) = None)]"
    using poly_createNode_attempts by blast
next
  assume a: "mono_createNode hb wb ctxb nameb fb spb bufferSizeb = (rb, wb')
      \<and> k \<in> gMonoWorkletProcessors wb' \<and> k \<notin> gMonoWorkletProcessors wb"
  then show "k = mono_key nameb fb"
    using mono_createNode_new_key(1) by blast
  from a show "addModule hb ctxb (MonoProcessorCode k (json fb)) = None"
    using mono_createNode_new_key(2) by blast
  from a show "EvAddModule ctxb (MonoProcessorCode k (json fb)) True \<in> set (events_since wb wb')"
    using mono_createNode_new_key(3) by blast
next
  assume a: "poly_createNode hb wb ctxb nameb fb mixerb voicesb spb effectb bufferSizeb = (prb, pwb')
      \<and> kp \<in> gPolyWorkletProcessors pwb' \<and> kp \<notin> gPolyWorkletProcessors wb"
  then show "kp = poly_key nameb fb"
    using poly_createNode_new_key(1) by blast
  from a show "addModule hb ctxb (PolyProcessorCode kp (json fb) (map_option json effectb)) = None"
    using poly_createNode_new_key(2) by blast
  from a show "EvAddModule ctxb (PolyProcessorCode kp (json fb) (map_option json effectb)) True
             \<in> set (events_since wb pwb')"
    using poly_createNode_new_key(3) by blast
qed

theorem C4_failed_registration_not_cached_witness:
  "(\<exists>e \<in> set (events_since initial_world (snd (mono_createNode example_host_refusing initial_world example_context ''osc'' example_factory None None))). is_failed_addModule e)
   \<and> (\<exists>e \<in> set (events_since initial_world (snd (poly_createNode example_host_refusing initial_world example_context ''osc'' example_factory example_mixer 4 None None None))). is_failed_addModule e)
   \<and> (None \<noteq> Some True)
   \<and> (JSON_parse example_host (json example_factory) = Inr example_meta_single)
   \<and> (''osc1'' \<in> gMonoWorkletProcessors (snd (mono_createNode example_host initial_world example_context ''osc'' example_factory None None)))
   \<and> (''osc1'' \<notin> gMonoWorkletProcessors initial_world)
   \<and> (''osc1_poly'' \<in> gPolyWorkletProcessors (snd (poly_createNode example_host initial_world example_context ''osc'' example_factory example_mixer 4 None None None)))
   \<and> (''osc1_poly'' \<notin> gPolyWorkletProcessors initial_world)
   \<and> gMonoWorkletProcessors (snd (mono_createNode example_host_refusing initial_world example_context ''osc'' example_factory None None)) = gMonoWorkletProcessors initial_world
   \<and> gPolyWorkletProcessors (snd (mono_createNode example_host_refusing initial_world example_context ''osc'' example_factory None None)) = gPolyWorkletProcessors initial_world
   \<and> mono_key ''osc'' example_factory \<notin> gMonoWorkletProcessors (snd (mono_createNode example_host_refusing initial_world example_context ''osc'' example_factory None None))
   \<and> filter is_addModule (events_since (snd (mono_createNode example_host_refusing initial_world example_context ''osc'' example_factory None None)) (snd (mono_createNode example_host (snd (mono_createNode example_host_refusing initial_world example_context ''osc'' example_factory None None)) example_context ''osc'' example_factory None None)))
       = [EvAddModule example_context (MonoProcessorCode (mono_key ''osc'' example_factory) (json example_factory))
            (addModule example_host example_context (MonoProcessorCode (mono_key ''osc'' example_factory) (json example_factory)) = None)]
   \<and> gMonoWorkletProcessors (snd (poly_createNode example_host_refusing initial_world example_context ''osc'' example_factory example_mixer 4 None None None)) = gMonoWorkletProcessors initial_world
   \<and> gPolyWorkletProcessors (snd (poly_createNode example_host_refusing initial_world example_context ''osc'' example_factory example_mixer 4 None None None)) = gPolyWorkletProcessors initial_world
   \<and> poly_key ''osc'' example_factory \<notin> gPolyWorkletProcessors (snd (poly_createNode example_host_refusing initial_world example_context ''osc'' example_factory example_mixer 4 None None None))
   \<and> filter is_addModule (events_since (snd (poly_createNode example_host_refusing initial_world example_context ''osc'' example_factory example_mixer 4 None None None)) (snd (poly_createNode example_host (snd (poly_createNode example_host_refusing initial_world example_context ''osc'' example_factory example_mixer 4 None None None)) example_context ''osc'' example_factory example_mixer 4 None None None)))
       = [EvAddModule example_context (PolyProcessorCode (poly_key ''osc'' example_factory) (json example_factory) (map_option json (None :: FaustDspFactory option)))
            (addModule example_host example_context (PolyProcessorCode (poly_key ''osc'' example_factory) (json example_factory) (map_option json (None :: FaustDspFactory option))) = None)]
   \<and> ''osc1'' = mono_key ''osc'' example_factory
   \<and> addModule example_host example_context (MonoProcessorCode ''osc1'' (json example_factory)) = None
   \<and> EvAddModule example_context (MonoProcessorCode ''osc1'' (json example_factory)) True
       \<in> set (events_since initial_world (snd (mono_createNode example_host initial_world example_context ''osc'' example_factory None None)))
   \<and> ''osc1_poly'' = poly_key ''osc'' example_factory
   \<and> addModule example_host example_context (PolyProcessorCode ''osc1_poly'' (json example_factory) (map_option json (None :: FaustDspFactory option))) = None
   \<and> EvAddModule example_context (PolyProcessorCode ''osc1_poly'' (json example_factory) (map_option json (None :: FaustDspFactory option))) True
       \<in> set (events_since initial_world (snd (poly_createNode example_host initial_world example_context ''osc'' example_factory example_mixer 4 None None None)))"
proof -
  have f1: "\<exists>e \<in> set (events_since initial_world (snd (mono_createNode example_host_refusing initial_world example_context ''osc'' example_factory None None))). is_failed_addModule e"
    by (simp add: example_defs generator_defs digits.simps events_since_def)
  have f2: "\<exists>e \<in> set (events_since initial_world (snd (poly_createNode example_host_refusing initial_world example_context ''osc'' example_factory example_mixer 4 None None None))). is_failed_addModule e"
    by (simp add: example_defs generator_defs digits.simps events_since_def)
  have s: "None \<noteq> Some True"
    by (simp add: example_defs generator_defs digits.simps events_since_def)
  have p: "JSON_parse example_host (json example_factory) = Inr example_meta_single"
    by (simp add: example_defs generator_defs digits.simps events_since_def)
  have g1: "''osc1'' \<in> gMonoWorkletProcessors (snd (mono_createNode example_host initial_world example_context ''osc'' example_factory None None))"
    by (simp add: example_defs generator_defs digits.simps events_since_def)
  have n1: "''osc1'' \<notin> gMonoWorkletProcessors initial_world"
    by (simp add: example_defs generator_defs digits.simps events_since_def)
  have g2: "''osc1_poly'' \<in> gPolyWorkletProcessors (snd (poly_createNode example_host initial_world example_context ''osc'' example_factory example_mixer 4 None None None))"
    by (simp add: example_defs generator_defs digits.simps events_since_def)
  have n2: "''osc1_poly'' \<notin> gPolyWorkletProcessors initial_world"
    by (simp add: example_defs generator_defs digits.simps events_since_def)
  note a = C4_failed_registration_not_cached [where h = example_host_refusing and w = initial_world
      and ctx = example_context and nameIn = "''osc''" and factory = example_factory and sp = None
      and bufferSize = None and mixerModule = example_mixer and voices = 4 and effectFactory = None
      and r = "fst (mono_createNode example_host_refusing initial_world example_context ''osc'' example_factory None None)" and w' = "snd (mono_createNode example_host_refusing initial_world example_context ''osc'' example_factory None None)"
      and pr = "fst (poly_createNode example_host_refusing initial_world example_context ''osc'' example_factory example_mixer 4 None None None)" and pw' = "snd (poly_createNode example_host_refusing initial_world example_context ''osc'' example_factory example_mixer 4 None None None)"
      and hn = example_host and ctxn = example_context and spn = None and bufferSizen = None
      and mn = example_meta_single
      and hb = example_host and wb = initial_world and ctxb = example_context and nameb = "''osc''"
      and fb = example_factory and spb = None and bufferSizeb = None and mixerb = example_mixer
      and voicesb = 4 and effectb = None
      and rb = "fst (mono_createNode example_host initial_world example_context ''osc'' example_factory None None)" and wb' = "snd (mono_createNode example_host initial_world example_context ''osc'' example_factory None None)"
      and prb = "fst (poly_createNode example_host initial_world example_context ''osc'' example_factory example_mixer 4 None None None)" and pwb' = "snd (poly_createNode example_host initial_world example_context ''osc'' example_factory example_mixer 4 None None None)"
      and k = "''osc1''" and kp = "''osc1_poly''"]
  note a1 = a [THEN conjunct1, THEN mp, OF conjI [OF prod.collapse [symmetric] f1]]
  note a2 = a [THEN conjunct2, THEN conjunct1, THEN mp, OF conjI [OF prod.collapse [symmetric] f2]]
  note a3 = a [THEN conjunct2, THEN conjunct2, THEN conjunct1, THEN mp,
               OF conjI [OF prod.collapse [symmetric] conjI [OF g1 n1]]]
  note a4 = a [THEN conjunct2, THEN conjunct2, THEN conjunct2, THEN mp,
               OF conjI [OF prod.collapse [symmetric] conjI [OF g2 n2]]]
  note a1d = a1 [THEN conjunct2, THEN conjunct2, THEN conjunct2, THEN mp, OF conjI [OF s p]]
  note a2d = a2 [THEN conjunct2, THEN conjunct2, THEN conjunct2, THEN mp, OF conjI [OF s p]]
  note a1a = a1 [THEN conjunct1] and a1b = a1 [THEN conjunct2, THEN conjunct1]
    and a1c = a1 [THEN conjunct2, THEN conjunct2, THEN conjunct1]
  note a2a = a2 [THEN conjunct1] and a2b = a2 [THEN conjunct2, THEN conjunct1]
    and a2c = a2 [THEN conjunct2, THEN conjunct2, THEN conjunct1]
  note a3a = a3 [THEN conjunct1] and a3b = a3 [THEN conjunct2, THEN conjunct1]
    and a3c = a3 [THEN conjunct2, THEN conjunct2]
  note a4a = a4 [THEN conjunct1] and a4b = a4 [THEN conjunct2, THEN conjunct1]
    and a4c = a4 [THEN conjunct2, THEN conjunct2]
  show ?thesis
    by (intro conjI)
      (rule f1 f2 s p g1 n1 g2 n2 a1a a1b a1c a1d a2a a2b a2c a2d a3a a3b a3c a4a a4b a4c)+
qed

subsection \<open>The script-processor backend\<close>

lemma mono_createNode_sp_frame:
  assumes "mono_createNode h w ctx nameIn factory (Some True) bufferSize = (r, w')"
  shows "gMonoWorkletProcessors w' = gMonoWorkletProcessors w"
    and "gPolyWorkletProcessors w' = gPolyWorkletProcessors w"
    and "filter is_addModule (events_since w w') = []"
    and "r \<noteq> Inr None"
    and "r \<noteq> Inr (Some (FaustMonoAudioWorkletNode c k f ss))"
  using assms
  by (auto simp: unfold_createNode split: createNode_splits)

lemma poly_createNode_sp_frame:
  assumes "poly_createNode h w ctx nameIn voiceFactory mixerModule voices (Some True) effectFactory bufferSize = (r, w')"
  shows "gMonoWorkletProcessors w' = gMonoWorkletProcessors w"
    and "gPolyWorkletProcessors w' = gPolyWorkletProcessors w"
    and "filter is_addModule (events_since w w') = []"
    and "r \<noteq> Inr None"
    and "r \<noteq> Inr (Some (FaustPolyAudioWorkletNode c k f mm v ss ef))"
  using assms
  by (auto simp: unfold_createNode split: createNode_splits)

lemma mono_createNode_sp_builds:
  assumes "JSON_parse h (json factory) = Inr m"
    and "createAsyncMonoDSPInstance h factory = Inr inst"
    and "createScriptProcessor h ctx (bufferSizeOr bufferSize) (numInputs inst) (numOutputs inst) = None"
  shows "mono_createNode h w ctx nameIn factory (Some True) bufferSize =
     (Inr (Some (FaustMonoScriptProcessorNode (bufferSizeOr bufferSize) (numInputs inst) (numOutputs inst)
                  (FaustMonoWebAudioDsp inst (sampleRate ctx) (sampleSizeOf m) (bufferSizeOr bufferSize)))),
      emit (EvCreateScriptProcessor ctx (bufferSizeOr bufferSize) (numInputs inst) (numOutputs inst))
        (emit (EvCreateMonoDSPInstance factory) w))"
  using assms
  by (auto simp: unfold_createNode bufferSizeOr_def mono_getNumInputs_def mono_getNumOutputs_def
      split: createNode_splits)

lemma poly_createNode_sp_builds:
  assumes "JSON_parse h (json voiceFactory) = Inr m"
    and "createAsyncPolyDSPInstance h voiceFactory mixerModule voices effectFactory = Inr inst"
    and "createScriptProcessor h ctx (bufferSizeOr bufferSize) (numInputs (voiceInstance inst))
           (numOutputs (voiceInstance inst)) = None"
  shows "poly_createNode h w ctx nameIn voiceFactory mixerModule voices (Some True) effectFactory bufferSize =
     (Inr (Some (FaustPolyScriptProcessorNode (bufferSizeOr bufferSize)
                  (numInputs (voiceInstance inst)) (numOutputs (voiceInstance inst))
                  (FaustPolyWebAudioDsp inst (sampleRate ctx) (sampleSizeOf m) (bufferSizeOr bufferSize)))),
      emit (EvCreateScriptProcessor ctx (bufferSizeOr bufferSize)
              (numInputs (voiceInstance inst)) (numOutputs (voiceInstance inst)))
        (emit (EvCreatePolyDSPInstance voiceFactory mixerModule voices effectFactory) w))"
  using assms
  by (auto simp: unfold_createNode bufferSizeOr_def poly_getNumInputs_def poly_getNumOutputs_def
      split: createNode_splits)

text \<open>
  C7. With \<open>sp = true\<close>, \<open>createNode\<close> leaves both static sets unchanged and never
  calls \<open>addModule\<close>; it returns neither \<open>null\<close> nor a worklet node. When the
  metadata parses, the instantiation succeeds and \<open>createScriptProcessor\<close> accepts its
  arguments, the instance is created in the call itself and the result is a script-processor
  node initialised with the DSP that wraps this instance.
\<close>

theorem C7_script_processor_backend:
  "(mono_createNode h w ctx nameIn factory (Some True) bufferSize = (r, w')
    \<longrightarrow> gMonoWorkletProcessors w' = gMonoWorkletProcessors w
        \<and> gPolyWorkletProcessors w' = gPolyWorkletProcessors w
        \<and> filter is_addModule (events_since w w') = []
        \<and> r \<noteq> Inr None
        \<and> (\<forall>c k f ss. r \<noteq> Inr (Some (FaustMonoAudioWorkletNode c k f ss))))
   \<and> (JSON_parse h (json factory) = Inr m
      \<and> createAsyncMonoDSPInstance h factory = Inr inst
      \<and> createScriptProcessor h ctx (bufferSizeOr bufferSize) (numInputs inst) (numOutputs inst) = None
    \<longrightarrow> mono_createNode h w ctx nameIn factory (Some True) bufferSize =
     (Inr (Some (FaustMonoScriptProcessorNode (bufferSizeOr bufferSize) (numInputs inst) (numOutputs inst)
                  (FaustMonoWebAudioDsp inst (sampleRate ctx) (sampleSizeOf m) (bufferSizeOr bufferSize)))),
      emit (EvCreateScriptProcessor ctx (bufferSizeOr bufferSize) (numInputs inst) (numOutputs inst))
        (emit (EvCreateMonoDSPInstance factory) w)))
   \<and> (poly_createNode h w ctx nameIn factory mixerModule voices (Some True) effectFactory bufferSize = (pr, pw')
    \<longrightarrow> gMonoWorkletProcessors pw' = gMonoWorkletProcessors w
        \<and> gPolyWorkletProcessors pw' = gPolyWorkletProcessors w
        \<and> filter is_addModule (events_since w pw') = []
        \<and> pr \<noteq> Inr None
        \<and> (\<forall>c k f mm v ss ef. pr \<noteq> Inr (Some (FaustPolyAudioWorkletNode c k f mm v ss ef))))
   \<and> (JSON_parse h (json factory) = Inr m
      \<and> createAsyncPolyDSPInstance h factory mixerModule voices effectFactory = Inr pinst
      \<and> createScriptProcessor h ctx (bufferSizeOr bufferSize) (numInputs (voiceInstance pinst))
            (numOutputs (voiceInstance pinst)) = None
    \<longrightarrow> poly_createNode h w ctx nameIn factory mixerModule voices (Some True) effectFactory bufferSize =
     (Inr (Some (FaustPolyScriptProcessorNode (bufferSizeOr bufferSize)
                  (numInputs (voiceInstance pinst)) (numOutputs (voiceInstance pinst))
                  (FaustPolyWebAudioDsp pinst (sampleRate ctx) (sampleSizeOf m) (bufferSizeOr bufferSize)))),
      emit (EvCreateScriptProcessor ctx (bufferSizeOr bufferSize)
              (numInputs (voiceInstance pinst)) (numOutputs (voiceInstance pinst)))
        (emit (EvCreatePolyDSPInstance factory mixerModule voices effectFactory) w)))"
proof (intro conjI impI allI)
  assume a: "mono_createNode h w ctx nameIn factory (Some True) bufferSize = (r, w')"
  show "gMonoWorkletProcessors w' = gMonoWorkletProcessors w" using mono_createNode_sp_frame(1) [OF a] .
  show "gPolyWorkletProcessors w' = gPolyWorkletProcessors w" using mono_createNode_sp_frame(2) [OF a] .
  show "filter is_addModule (events_since w w') = []" using mono_createNode_sp_frame(3) [OF a] .
  show "r \<noteq> Inr None" using mono_createNode_sp_frame(4) [OF a] .
  fix c k f ss
  show "r \<noteq> Inr (Some (FaustMonoAudioWorkletNode c k f ss))"
    using mono_createNode_sp_frame(5) [OF a] .
next
  assume "JSON_parse h (json factory) = Inr m
      \<and> createAsyncMonoDSPInstance h factory = Inr inst
      \<and> createScriptProcessor h ctx (bufferSizeOr bufferSize) (numInputs inst) (numOutputs inst) = None"
  then show "mono_createNode h w ctx nameIn factory (Some True) bufferSize =
     (Inr (Some (FaustMonoScriptProcessorNode (bufferSizeOr bufferSize) (numInputs inst) (numOutputs inst)
                  (FaustMonoWebAudioDsp inst (sampleRate ctx) (sampleSizeOf m) (bufferSizeOr bufferSize)))),
      emit (EvCreateScriptProcessor ctx (bufferSizeOr bufferSize) (numInputs inst) (numOutputs inst))
        (emit (EvCreateMonoDSPInstance factory) w))"
    using mono_createNode_sp_builds by blast
next
  assume a: "poly_createNode h w ctx nameIn factory mixerModule voices (Some True) effectFactory bufferSize = (pr, pw')"
  show "gMonoWorkletProcessors pw' = gMonoWorkletProcessors w" using poly_createNode_sp_frame(1) [OF a] .
  show "gPolyWorkletProcessors pw' = gPolyWorkletProcessors w" using poly_createNode_sp_frame(2) [OF a] .
  show "filter is_addModule (events_since w pw') = []" using poly_createNode_sp_frame(3) [OF a] .
  show "pr \<noteq> Inr None" using poly_createNode_sp_frame(4) [OF a] .
  fix c k f mm v ss ef
  show "pr \<noteq> Inr (Some (FaustPolyAudioWorkletNode c k f mm v ss ef))"
    using poly_createNode_sp_frame(5) [OF a] .
next
  assume "JSON_parse h (json factory) = Inr m
      \<and> createAsyncPolyDSPInstance h factory mixerModule voices effectFactory = Inr pinst
      \<and> createScriptProcessor h ctx (bufferSizeOr bufferSize) (numInputs (voiceInstance pinst))
            (numOutputs (voiceInstance pinst)) = None"
  then show "poly_createNode h w ctx nameIn factory mixerModule voices (Some True) effectFactory bufferSize =
     (Inr (Some (FaustPolyScriptProcessorNode (bufferSizeOr bufferSize)
                  (numInputs (voiceInstance pinst)) (numOutputs (voiceInstance pinst))
                  (FaustPolyWebAudioDsp pinst (sampleRate ctx) (sampleSizeOf m) (bufferSizeOr bufferSize)))),
      emit (EvCreateScriptProcessor ctx (bufferSizeOr bufferSize)
              (numInputs (voiceInstance pinst)) (numOutputs (voiceInstance pinst)))
        (emit (EvCreatePolyDSPInstance factory mixerModule voices effectFactory) w))"
    using poly_createNode_sp_builds by blast
qed

theorem C7_script_processor_backend_witness:
  "(JSON_parse example_host (json example_factory_double) = Inr example_meta_double)
   \<and> (createAsyncMonoDSPInstance example_host example_factory_double = Inr \<lparr>numInputs = 0, numOutputs = 1, memory = []\<rparr>)
   \<and> (createScriptProcessor example_host example_context (bufferSizeOr (Some 512)) (numInputs \<lparr>numInputs = 0, numOutputs = 1, memory = []\<rparr>) (numOutputs \<lparr>numInputs = 0, numOutputs = 1, memory = []\<rparr>) = None)
   \<and> (createAsyncPolyDSPInstance example_host example_factory_double example_mixer 4 None = Inr (FaustPolyDspInstance \<lparr>numInputs = 0, numOutputs = 1, memory = []\<rparr> 4 example_mixer None))
   \<and> (createScriptProcessor example_host example_context (bufferSizeOr (Some 512)) (numInputs (voiceInstance (FaustPolyDspInstance \<lparr>numInputs = 0, numOutputs = 1, memory = []\<rparr> 4 example_mixer None))) (numOutputs (voiceInstance (FaustPolyDspInstance \<lparr>numInputs = 0, numOutputs = 1, memory = []\<rparr> 4 example_mixer None))) = None)
   \<and> gMonoWorkletProcessors (snd (mono_createNode example_host initial_world example_context ''osc'' example_factory_double (Some True) (Some 512))) = gMonoWorkletProcessors initial_world
   \<and> gPolyWorkletProcessors (snd (mono_createNode example_host initial_world example_context ''osc'' example_factory_double (Some True) (Some 512))) = gPolyWorkletProcessors initial_world
   \<and> filter is_addModule (events_since initial_world (snd (mono_createNode example_host initial_world example_context ''osc'' example_factory_double (Some True) (Some 512)))) = []
   \<and> (fst (mono_createNode example_host initial_world example_context ''osc'' example_factory_double (Some True) (Some 512))) \<noteq> Inr None
   \<and> mono_createNode example_host initial_world example_context ''osc'' example_factory_double (Some True) (Some 512) =
     (Inr (Some (FaustMonoScriptProcessorNode (bufferSizeOr (Some 512)) (numInputs \<lparr>numInputs = 0, numOutputs = 1, memory = []\<rparr>) (numOutputs \<lparr>numInputs = 0, numOutputs = 1, memory = []\<rparr>)
                  (FaustMonoWebAudioDsp \<lparr>numInputs = 0, numOutputs = 1, memory = []\<rparr> (sampleRate example_context) (sampleSizeOf example_meta_double) (bufferSizeOr (Some 512))))),
      emit (EvCreateScriptProcessor example_context (bufferSizeOr (Some 512)) (numInputs \<lparr>numInputs = 0, numOutputs = 1, memory = []\<rparr>) (numOutputs \<lparr>numInputs = 0, numOutputs = 1, memory = []\<rparr>))
        (emit (EvCreateMonoDSPInstance example_factory_double) initial_world))
   \<and> gMonoWorkletProcessors (snd (poly_createNode example_host initial_world example_context ''osc'' example_factory_double example_mixer 4 (Some True) None (Some 512))) = gMonoWorkletProcessors initial_world
   \<and> gPolyWorkletProcessors (snd (poly_createNode example_host initial_world example_context ''osc'' example_factory_double example_mixer 4 (Some True) None (Some 512))) = gPolyWorkletProcessors initial_world
   \<and> filter is_addModule (events_since initial_world (snd (poly_createNode example_host initial_world example_context ''osc'' example_factory_double example_mixer 4 (Some True) None (Some 512)))) = []
   \<and> (fst (poly_createNode example_host initial_world example_context ''osc'' example_factory_double example_mixer 4 (Some True) None (Some 512))) \<noteq> Inr None
   \<and> poly_createNode example_host initial_world example_context ''osc'' example_factory_double example_mixer 4 (Some True) None (Some 512) =
     (Inr (Some (FaustPolyScriptProcessorNode (bufferSizeOr (Some 512))
                  (numInputs (voiceInstance (FaustPolyDspInstance \<lparr>numInputs = 0, numOutputs = 1, memory = []\<rparr> 4 example_mixer None))) (numOutputs (voiceInstance (FaustPolyDspInstance \<lparr>numInputs = 0, numOutputs = 1, memory = []\<rparr> 4 example_mixer None)))
                  (FaustPolyWebAudioDsp (FaustPolyDspInstance \<lparr>numInputs = 0, numOutputs = 1, memory = []\<rparr> 4 example_mixer None) (sampleRate example_context) (sampleSizeOf example_meta_double) (bufferSizeOr (Some 512))))),
      emit (EvCreateScriptProcessor example_context (bufferSizeOr (Some 512))
              (numInputs (voiceInstance (FaustPolyDspInstance \<lparr>numInputs = 0, numOutputs = 1, memory = []\<rparr> 4 example_mixer None))) (numOutputs (voiceInstance (FaustPolyDspInstance \<lparr>numInputs = 0, numOutputs = 1, memory = []\<rparr> 4 example_mixer None))))
        (emit (EvCreatePolyDSPInstance example_factory_double example_mixer 4 None) initial_world))"
proof -
  have p: "JSON_parse example_host (json example_factory_double) = Inr example_meta_double"
    by (simp add: example_defs generator_defs digits.simps events_since_def)
  have i: "createAsyncMonoDSPInstance example_host example_factory_double = Inr \<lparr>numInputs = 0, numOutputs = 1, memory = []\<rparr>"
    by (simp add: example_defs generator_defs digits.simps events_since_def)
  have cs: "createScriptProcessor example_host example_context (bufferSizeOr (Some 512)) (numInputs \<lparr>numInputs = 0, numOutputs = 1, memory = []\<rparr>) (numOutputs \<lparr>numInputs = 0, numOutputs = 1, memory = []\<rparr>) = None"
    by (simp add: example_defs)
  have pi: "createAsyncPolyDSPInstance example_host example_factory_double example_mixer 4 None = Inr (FaustPolyDspInstance \<lparr>numInputs = 0, numOutputs = 1, memory = []\<rparr> 4 example_mixer None)"
    by (simp add: example_defs generator_defs digits.simps events_since_def)
  have pcs: "createScriptProcessor example_host example_context (bufferSizeOr (Some 512)) (numInputs (voiceInstance (FaustPolyDspInstance \<lparr>numInputs = 0, numOutputs = 1, memory = []\<rparr> 4 example_mixer None))) (numOutputs (voiceInstance (FaustPolyDspInstance \<lparr>numInputs = 0, numOutputs = 1, memory = []\<rparr> 4 example_mixer None))) = None"
    by (simp add: example_defs)
  note a = C7_script_processor_backend [where h = example_host and w = initial_world and ctx = example_context and nameIn = "''osc''"
      and factory = example_factory_double and bufferSize = "Some 512" and mixerModule = example_mixer
      and voices = 4 and effectFactory = None and m = example_meta_double
      and inst = "\<lparr>numInputs = 0, numOutputs = 1, memory = []\<rparr>"
      and pinst = "(FaustPolyDspInstance \<lparr>numInputs = 0, numOutputs = 1, memory = []\<rparr> 4 example_mixer None)"
      and r = "fst (mono_createNode example_host initial_world example_context ''osc'' example_factory_double (Some True) (Some 512))" and w' = "snd (mono_createNode example_host initial_world example_context ''osc'' example_factory_double (Some True) (Some 512))"
      and pr = "fst (poly_createNode example_host initial_world example_context ''osc'' example_factory_double example_mixer 4 (Some True) None (Some 512))" and pw' = "snd (poly_createNode example_host initial_world example_context ''osc'' example_factory_double example_mixer 4 (Some True) None (Some 512))"]
  note b0 = a [THEN conjunct1, THEN mp, OF prod.collapse [symmetric]]
  note b0_0 = b0 [THEN conjunct1]
  note b0_1 = b0 [THEN conjunct2, THEN conjunct1]
  note b0_2 = b0 [THEN conjunct2, THEN conjunct2, THEN conjunct1]
  note b0_3 = b0 [THEN conjunct2, THEN conjunct2, THEN conjunct2, THEN conjunct1]
  note b1 = a [THEN conjunct2, THEN conjunct1, THEN mp, OF conjI [OF p conjI [OF i cs]]]
  note b1_0 = b1
  note b2 = a [THEN conjunct2, THEN conjunct2, THEN conjunct1, THEN mp, OF prod.collapse [symmetric]]
  note b2_0 = b2 [THEN conjunct1]
  note b2_1 = b2 [THEN conjunct2, THEN conjunct1]
  note b2_2 = b2 [THEN conjunct2, THEN conjunct2, THEN conjunct1]
  note b2_3 = b2 [THEN conjunct2, THEN conjunct2, THEN conjunct2, THEN conjunct1]
  note b3 = a [THEN conjunct2, THEN conjunct2, THEN conjunct2, THEN mp, OF conjI [OF p conjI [OF pi pcs]]]
  note b3_0 = b3
  show ?thesis
    by (intro conjI) (rule p i cs pi pcs b0_0 b0_1 b0_2 b0_3 b1_0 b2_0 b2_1 b2_2 b2_3 b3_0)+
qed

subsection \<open>Compilation\<close>

lemma mono_createNode_trace:
  "\<exists>evs. trace (snd (mono_createNode h w ctx nameIn factory sp bufferSize)) = trace w @ evs
         \<and> filter is_compile evs = []"
  by (auto simp: unfold_createNode split: createNode_splits)

lemma poly_createNode_trace:
  "\<exists>evs. trace (snd (poly_createNode h w ctx nameIn voiceFactory mixerModule voices sp effectFactory
                        bufferSize)) = trace w @ evs
         \<and> filter is_compile evs = []"
  by (auto simp: unfold_createNode split: createNode_splits)

lemma mono_compileNode_passes_through:
  assumes "mono_compileNode h c this w ctx name dspCode args sp bufferSize = (r, this', w')"
  shows "fFactory this' = createMonoDSPFactory c name dspCode args"
    and "filter is_compile (events_since w w') = [EvCreateMonoDSPFactory name dspCode args]"
    and "(r, w') = (case fFactory this' of
                      None \<Rightarrow> (Inr None, emit (EvCreateMonoDSPFactory name dspCode args) w)
                    | Some f \<Rightarrow> mono_createNode h (emit (EvCreateMonoDSPFactory name dspCode args) w)
                                 ctx name f sp bufferSize)"
proof -
  show "fFactory this' = createMonoDSPFactory c name dspCode args"
    using assms by (auto simp: mono_compileNode_def Let_def split: option.splits prod.splits)
  show "(r, w') = (case fFactory this' of
                      None \<Rightarrow> (Inr None, emit (EvCreateMonoDSPFactory name dspCode args) w)
                    | Some f \<Rightarrow> mono_createNode h (emit (EvCreateMonoDSPFactory name dspCode args) w)
                                 ctx name f sp bufferSize)"
    using assms by (auto simp: mono_compileNode_def Let_def split: option.splits prod.splits)
  show "filter is_compile (events_since w w') = [EvCreateMonoDSPFactory name dspCode args]"
  proof (cases "createMonoDSPFactory c name dspCode args")
    case None
    with assms show ?thesis
      by (auto simp: mono_compileNode_def Let_def emit_def events_since_def)
  next
    case (Some f)
    obtain evs where e: "trace (snd (mono_createNode h (emit (EvCreateMonoDSPFactory name dspCode args) w)
                                       ctx name f sp bufferSize))
                         = trace (emit (EvCreateMonoDSPFactory name dspCode args) w) @ evs"
      and n: "filter is_compile evs = []"
      using mono_createNode_trace by blast
    from assms Some have "w' = snd (mono_createNode h (emit (EvCreateMonoDSPFactory name dspCode args) w)
                                       ctx name f sp bufferSize)"
      by (auto simp: mono_compileNode_def Let_def split: prod.splits)
    with e n show ?thesis
      by (simp add: emit_def events_since_def)
  qed
qed

lemma mono_compileNode_no_factory:
  assumes "createMonoDSPFactory c name dspCode args = None"
  shows "mono_compileNode h c this w ctx name dspCode args sp bufferSize =
           (Inr None, this\<lparr>fFactory := None\<rparr>, emit (EvCreateMonoDSPFactory name dspCode args) w)"
  using assms by (simp add: mono_compileNode_def Let_def)

lemma poly_compileNode_no_factory:
  assumes "createPolyDSPFactory c name dspCode args = None"
  shows "poly_compileNode h c this w ctx name dspCode effectCode args voices sp bufferSize =
           (Inr None, this, emit (EvCreatePolyDSPFactory name dspCode args) w)"
  using assms by (simp add: poly_compileNode_def Let_def)

lemma poly_compileNode_this:
  "fst (snd (poly_compileNode h c this w ctx name dspCode effectCode args voices sp bufferSize)) = this"
  by (auto simp: poly_compileNode_def Let_def split: option.splits sum.splits prod.splits)

lemma poly_createNode_traceD:
  assumes "poly_createNode h w ctx nameIn voiceFactory mixerModule voices sp effectFactory bufferSize = (r, w')"
  shows "\<exists>evs. trace w' = trace w @ evs"
  using poly_createNode_trace [of h w ctx nameIn voiceFactory mixerModule voices sp effectFactory bufferSize]
    assms by auto

lemma poly_compileNode_trace:
  "\<exists>evs. trace (snd (snd (poly_compileNode h c this w ctx name dspCode effectCode args voices sp bufferSize)))
          = trace w @ EvCreatePolyDSPFactory name dspCode args # evs"
  by (auto simp: poly_compileNode_def Let_def emit_def split: option.splits sum.splits prod.splits
      dest!: poly_createNode_traceD)

lemma poly_compileNode_first_compile:
  "hd (filter is_compile
        (events_since w (snd (snd (poly_compileNode h c this w ctx name dspCode effectCode args voices
                                     sp bufferSize)))))
   = EvCreatePolyDSPFactory name dspCode args"
proof -
  obtain evs where
    "trace (snd (snd (poly_compileNode h c this w ctx name dspCode effectCode args voices sp bufferSize)))
      = trace w @ EvCreatePolyDSPFactory name dspCode args # evs"
    using poly_compileNode_trace by blast
  then show ?thesis by (simp add: events_since_def)
qed

lemma poly_compileNode_factory:
  assumes "createPolyDSPFactory c name dspCode args = Some vf"
    and "JSON_parse h (json vf) = Inr m"
    and "getAsyncInternalMixerModule c (js_match (compile_options m) ''-double'') = Some mm"
  shows "poly_compileNode h c this w ctx name dspCode effectCode args voices sp bufferSize =
          (fst (poly_createNode h
                  (world_after_poly_compile w name dspCode effectCode args
                     (js_match (compile_options m) ''-double''))
                  ctx name vf mm voices sp
                  (createPolyDSPFactory c name (effect_dsp dspCode effectCode) args) bufferSize),
           this,
           snd (poly_createNode h
                  (world_after_poly_compile w name dspCode effectCode args
                     (js_match (compile_options m) ''-double''))
                  ctx name vf mm voices sp
                  (createPolyDSPFactory c name (effect_dsp dspCode effectCode) args) bufferSize))"
  using assms
  by (simp add: poly_compileNode_def Let_def world_after_poly_compile_def split: prod.splits)

text \<open>
  C6. \<open>compileNode\<close> hands its name, code and arguments to the compiler unchanged and
  uses what the compiler returns: the monophonic generator stores it and, when it is a
  factory, returns what \<open>createNode\<close> returns for it. When the compiler returns no
  factory for the monophonic code or for the voice code, \<open>compileNode\<close> returns
  \<open>null\<close>, having done nothing but that one call of the compiler: no instance and no
  node is constructed. When the voice code compiles, its metadata parses and the mixer module
  loads, the polyphonic generator returns what \<open>createNode\<close> returns for the voice
  factory, the mixer module and whatever the compiler returned for the effect code.
\<close>

theorem C6_compile_failure_returns_null:
  "(mono_compileNode h c this w ctx name dspCode args sp bufferSize = (r, this', w')
    \<longrightarrow> fFactory this' = createMonoDSPFactory c name dspCode args
        \<and> filter is_compile (events_since w w') = [EvCreateMonoDSPFactory name dspCode args]
        \<and> (r, w') = (case fFactory this' of
                        None \<Rightarrow> (Inr None, emit (EvCreateMonoDSPFactory name dspCode args) w)
                      | Some f \<Rightarrow> mono_createNode h (emit (EvCreateMonoDSPFactory name dspCode args) w)
                                   ctx name f sp bufferSize))
   \<and> (createMonoDSPFactory c name dspCode args = None
    \<longrightarrow> mono_compileNode h c this w ctx name dspCode args sp bufferSize =
          (Inr None, this\<lparr>fFactory := None\<rparr>, emit (EvCreateMonoDSPFactory name dspCode args) w)
        \<and> filter is_construction
            (events_since w (snd (snd (mono_compileNode h c this w ctx name dspCode args sp bufferSize)))) = [])
   \<and> hd (filter is_compile
          (events_since w (snd (snd (poly_compileNode h c pthis w ctx name dspCode effectCode args voices
                                       sp bufferSize)))))
       = EvCreatePolyDSPFactory name dspCode args
   \<and> (createPolyDSPFactory c name dspCode args = None
    \<longrightarrow> poly_compileNode h c pthis w ctx name dspCode effectCode args voices sp bufferSize =
          (Inr None, pthis, emit (EvCreatePolyDSPFactory name dspCode args) w)
        \<and> filter is_construction
            (events_since w (snd (snd (poly_compileNode h c pthis w ctx name dspCode effectCode args voices
                                         sp bufferSize)))) = [])
   \<and> (createPolyDSPFactory cg name dspCode args = Some vf
      \<and> JSON_parse h (json vf) = Inr m
      \<and> getAsyncInternalMixerModule cg (js_match (compile_options m) ''-double'') = Some mm
    \<longrightarrow> poly_compileNode h cg pthis w ctx name dspCode effectCode args voices sp bufferSize =
          (fst (poly_createNode h
                  (world_after_poly_compile w name dspCode effectCode args
                     (js_match (compile_options m) ''-double''))
                  ctx name vf mm voices sp
                  (createPolyDSPFactory cg name (effect_dsp dspCode effectCode) args) bufferSize),
           pthis,
           snd (poly_createNode h
                  (world_after_poly_compile w name dspCode effectCode args
                     (js_match (compile_options m) ''-double''))
                  ctx name vf mm voices sp
                  (createPolyDSPFactory cg name (effect_dsp dspCode effectCode) args) bufferSize)))"
proof (intro conjI impI)
  assume a: "mono_compileNode h c this w ctx name dspCode args sp bufferSize = (r, this', w')"
  show "fFactory this' = createMonoDSPFactory c name dspCode args"
    using mono_compileNode_passes_through(1) [OF a] .
  show "filter is_compile (events_since w w') = [EvCreateMonoDSPFactory name dspCode args]"
    using mono_compileNode_passes_through(2) [OF a] .
  show "(r, w') = (case fFactory this' of
                        None \<Rightarrow> (Inr None, emit (EvCreateMonoDSPFactory name dspCode args) w)
                      | Some f \<Rightarrow> mono_createNode h (emit (EvCreateMonoDSPFactory name dspCode args) w)
                                   ctx name f sp bufferSize)"
    using mono_compileNode_passes_through(3) [OF a] .
next
  assume a: "createMonoDSPFactory c name dspCode args = None"
  show "mono_compileNode h c this w ctx name dspCode args sp bufferSize =
          (Inr None, this\<lparr>fFactory := None\<rparr>, emit (EvCreateMonoDSPFactory name dspCode args) w)"
    using mono_compileNode_no_factory [OF a] .
  show "filter is_construction
            (events_since w (snd (snd (mono_compileNode h c this w ctx name dspCode args sp bufferSize)))) = []"
    by (simp add: mono_compileNode_no_factory [OF a] events_since_def emit_def)
next
  show "hd (filter is_compile
          (events_since w (snd (snd (poly_compileNode h c pthis w ctx name dspCode effectCode args voices
                                       sp bufferSize)))))
       = EvCreatePolyDSPFactory name dspCode args"
    by (rule poly_compileNode_first_compile)
next
  assume a: "createPolyDSPFactory c name dspCode args = None"
  show "poly_compileNode h c pthis w ctx name dspCode effectCode args voices sp bufferSize =
          (Inr None, pthis, emit (EvCreatePolyDSPFactory name dspCode args) w)"
    using poly_compileNode_no_factory [OF a] .
  show "filter is_construction
            (events_since w (snd (snd (poly_compileNode h c pthis w ctx name dspCode effectCode args voices
                                         sp bufferSize)))) = []"
    by (simp add: poly_compileNode_no_factory [OF a] events_since_def emit_def)
next
  assume "createPolyDSPFactory cg name dspCode args = Some vf
      \<and> JSON_parse h (json vf) = Inr m
      \<and> getAsyncInternalMixerModule cg (js_match (compile_options m) ''-double'') = Some mm"
  then show "poly_compileNode h cg pthis w ctx name dspCode effectCode args voices sp bufferSize =
          (fst (poly_createNode h
                  (world_after_poly_compile w name dspCode effectCode args
                     (js_match (compile_options m) ''-double''))
                  ctx name vf mm voices sp
                  (createPolyDSPFactory cg name (effect_dsp dspCode effectCode) args) bufferSize),
           pthis,
           snd (poly_createNode h
                  (world_after_poly_compile w name dspCode effectCode args
                     (js_match (compile_options m) ''-double''))
                  ctx name vf mm voices sp
                  (createPolyDSPFactory cg name (effect_dsp dspCode effectCode) args) bufferSize))"
    using poly_compileNode_factory by blast
qed

theorem C6_compile_failure_returns_null_witness:
  "((mono_compileNode example_host example_compiler_failing new_FaustMonoDspGenerator initial_world example_context ''osc'' ''process = osc;'' ''-I libs'' None None) = (fst (mono_compileNode example_host example_compiler_failing new_FaustMonoDspGenerator initial_world example_context ''osc'' ''process = osc;'' ''-I libs'' None None), fst (snd (mono_compileNode example_host example_compiler_failing new_FaustMonoDspGenerator initial_world example_context ''osc'' ''process = osc;'' ''-I libs'' None None)), snd (snd (mono_compileNode example_host example_compiler_failing new_FaustMonoDspGenerator initial_world example_context ''osc'' ''process = osc;'' ''-I libs'' None None))))
   \<and> (createMonoDSPFactory example_compiler_failing ''osc'' ''process = osc;'' ''-I libs'' = None)
   \<and> (createPolyDSPFactory example_compiler_failing ''osc'' ''process = osc;'' ''-I libs'' = None)
   \<and> (createPolyDSPFactory example_compiler_all ''osc'' ''process = osc;'' ''-I libs'' = Some example_voice_factory)
   \<and> (JSON_parse example_host (json example_voice_factory) = Inr example_meta_single)
   \<and> (getAsyncInternalMixerModule example_compiler_all (js_match (compile_options example_meta_single) ''-double'') = Some example_mixer)
   \<and> fFactory (fst (snd (mono_compileNode example_host example_compiler_failing new_FaustMonoDspGenerator initial_world example_context ''osc'' ''process = osc;'' ''-I libs'' None None))) = createMonoDSPFactory example_compiler_failing ''osc'' ''process = osc;'' ''-I libs''
   \<and> filter is_compile (events_since initial_world (snd (snd (mono_compileNode example_host example_compiler_failing new_FaustMonoDspGenerator initial_world example_context ''osc'' ''process = osc;'' ''-I libs'' None None)))) = [EvCreateMonoDSPFactory ''osc'' ''process = osc;'' ''-I libs'']
   \<and> mono_compileNode example_host example_compiler_failing new_FaustMonoDspGenerator initial_world example_context ''osc'' ''process = osc;'' ''-I libs'' None None =
          (Inr None, new_FaustMonoDspGenerator\<lparr>fFactory := None\<rparr>, emit (EvCreateMonoDSPFactory ''osc'' ''process = osc;'' ''-I libs'') initial_world)
   \<and> filter is_construction
            (events_since initial_world (snd (snd (mono_compileNode example_host example_compiler_failing new_FaustMonoDspGenerator initial_world example_context ''osc'' ''process = osc;'' ''-I libs'' None None)))) = []
   \<and> hd (filter is_compile
          (events_since initial_world (snd (snd (poly_compileNode example_host example_compiler_failing new_FaustPolyDspGenerator initial_world example_context ''osc'' ''process = osc;'' None ''-I libs'' 4
                                       None None)))))
       = EvCreatePolyDSPFactory ''osc'' ''process = osc;'' ''-I libs''
   \<and> poly_compileNode example_host example_compiler_failing new_FaustPolyDspGenerator initial_world example_context ''osc'' ''process = osc;'' None ''-I libs'' 4 None None =
          (Inr None, new_FaustPolyDspGenerator, emit (EvCreatePolyDSPFactory ''osc'' ''process = osc;'' ''-I libs'') initial_world)
   \<and> filter is_construction
            (events_since initial_world (snd (snd (poly_compileNode example_host example_compiler_failing new_FaustPolyDspGenerator initial_world example_context ''osc'' ''process = osc;'' None ''-I libs'' 4
                                         None None)))) = []
   \<and> poly_compileNode example_host example_compiler_all new_FaustPolyDspGenerator initial_world example_context ''osc'' ''process = osc;'' None ''-I libs'' 4 None None =
          (fst (poly_createNode example_host
                  (world_after_poly_compile initial_world ''osc'' ''process = osc;'' None ''-I libs''
                     (js_match (compile_options example_meta_single) ''-double''))
                  example_context ''osc'' example_voice_factory example_mixer 4 None
                  (createPolyDSPFactory example_compiler_all ''osc'' (effect_dsp ''process = osc;'' None) ''-I libs'') None),
           new_FaustPolyDspGenerator,
           snd (poly_createNode example_host
                  (world_after_poly_compile initial_world ''osc'' ''process = osc;'' None ''-I libs''
                     (js_match (compile_options example_meta_single) ''-double''))
                  example_context ''osc'' example_voice_factory example_mixer 4 None
                  (createPolyDSPFactory example_compiler_all ''osc'' (effect_dsp ''process = osc;'' None) ''-I libs'') None))"
proof -
  have pc: "(mono_compileNode example_host example_compiler_failing new_FaustMonoDspGenerator initial_world example_context ''osc'' ''process = osc;'' ''-I libs'' None None) = (fst (mono_compileNode example_host example_compiler_failing new_FaustMonoDspGenerator initial_world example_context ''osc'' ''process = osc;'' ''-I libs'' None None), fst (snd (mono_compileNode example_host example_compiler_failing new_FaustMonoDspGenerator initial_world example_context ''osc'' ''process = osc;'' ''-I libs'' None None)), snd (snd (mono_compileNode example_host example_compiler_failing new_FaustMonoDspGenerator initial_world example_context ''osc'' ''process = osc;'' ''-I libs'' None None)))"
    by simp
  have cn: "createMonoDSPFactory example_compiler_failing ''osc'' ''process = osc;'' ''-I libs'' = None"
    by (simp add: example_defs)
  have cp: "createPolyDSPFactory example_compiler_failing ''osc'' ''process = osc;'' ''-I libs'' = None"
    by (simp add: example_defs)
  have gv: "createPolyDSPFactory example_compiler_all ''osc'' ''process = osc;'' ''-I libs'' = Some example_voice_factory"
    by (simp add: example_defs)
  have gp: "JSON_parse example_host (json example_voice_factory) = Inr example_meta_single"
    by (simp add: example_defs)
  have gm: "getAsyncInternalMixerModule example_compiler_all (js_match (compile_options example_meta_single) ''-double'') = Some example_mixer"
    by (simp add: example_defs)
  note a = C6_compile_failure_returns_null [where h = example_host
      and c = example_compiler_failing
      and this = new_FaustMonoDspGenerator
      and pthis = new_FaustPolyDspGenerator
      and w = initial_world
      and ctx = example_context
      and name = "''osc''"
      and dspCode = "''process = osc;''"
      and args = "''-I libs''"
      and sp = None
      and bufferSize = None
      and effectCode = None
      and voices = 4
      and r = "fst (mono_compileNode example_host example_compiler_failing new_FaustMonoDspGenerator initial_world example_context ''osc'' ''process = osc;'' ''-I libs'' None None)"
      and this' = "fst (snd (mono_compileNode example_host example_compiler_failing new_FaustMonoDspGenerator initial_world example_context ''osc'' ''process = osc;'' ''-I libs'' None None))"
      and w' = "snd (snd (mono_compileNode example_host example_compiler_failing new_FaustMonoDspGenerator initial_world example_context ''osc'' ''process = osc;'' ''-I libs'' None None))"
      and cg = example_compiler_all
      and vf = example_voice_factory
      and m = example_meta_single
      and mm = example_mixer]
  note b0 = a [THEN conjunct1, THEN mp, OF pc]
  note b0_0 = b0 [THEN conjunct1]
  note b0_1 = b0 [THEN conjunct2, THEN conjunct1]
  note b1 = a [THEN conjunct2, THEN conjunct1, THEN mp, OF cn]
  note b1_0 = b1 [THEN conjunct1]
  note b1_1 = b1 [THEN conjunct2]
  note b2 = a [THEN conjunct2, THEN conjunct2, THEN conjunct1]
  note b2_0 = b2
  note b3 = a [THEN conjunct2, THEN conjunct2, THEN conjunct2, THEN conjunct1, THEN mp, OF cp]
  note b3_0 = b3 [THEN conjunct1]
  note b3_1 = b3 [THEN conjunct2]
  note b4 = a [THEN conjunct2, THEN conjunct2, THEN conjunct2, THEN conjunct2, THEN mp, OF conjI [OF gv conjI [OF gp gm]]]
  note b4_0 = b4
  show ?thesis
    by (intro conjI) (rule pc cn cp gv gp gm b0_0 b0_1 b1_0 b1_1 b2_0 b3_0 b3_1 b4_0)+
qed

subsection \<open>The fields of the polyphonic generator\<close>

lemma step_polyGenerator: "polyGenerator (step c s) = polyGenerator s"
proof (cases c)
  case (PolyCompileNode h cmp ctx name dspCode effectCode args voices sp bufferSize)
  have "fst (snd (poly_compileNode h cmp (polyGenerator s) (statics s) ctx name dspCode effectCode args
                    voices sp bufferSize)) = polyGenerator s"
    by (rule poly_compileNode_this)
  with PolyCompileNode show ?thesis
    by (auto simp: Let_def split: prod.splits)
next
  case (MonoCompileNode h cmp ctx name dspCode args sp bufferSize)
  then show ?thesis by (simp add: Let_def split: prod.splits)
qed simp_all

lemma run_polyGenerator: "polyGenerator (run cs s) = polyGenerator s"
  by (induction cs arbitrary: s) (simp_all add: step_polyGenerator)

text \<open>
  C9. After any sequence of calls on a new polyphonic generator, \<open>getVoiceFactory\<close>
  and \<open>getEffectFactory\<close> return \<open>null\<close>: the constructor sets both fields to
  \<open>null\<close> and \<open>compileNode\<close> leaves the generator as it was, also when it has
  compiled a voice and an effect factory and built a node from them.
\<close>

theorem C9_poly_factories_stay_null:
  "poly_getVoiceFactory (polyGenerator (run cs initial_system)) = None
   \<and> poly_getEffectFactory (polyGenerator (run cs initial_system)) = None
   \<and> fst (snd (poly_compileNode h c this w ctx name dspCode effectCode args voices sp bufferSize)) = this"
proof (intro conjI)
  have "polyGenerator (run cs initial_system) = new_FaustPolyDspGenerator"
    by (simp add: run_polyGenerator initial_system_def)
  then show "poly_getVoiceFactory (polyGenerator (run cs initial_system)) = None"
    and "poly_getEffectFactory (polyGenerator (run cs initial_system)) = None"
    by (simp_all add: poly_getVoiceFactory_def poly_getEffectFactory_def new_FaustPolyDspGenerator_def)
  show "fst (snd (poly_compileNode h c this w ctx name dspCode effectCode args voices sp bufferSize)) = this"
    by (rule poly_compileNode_this)
qed

theorem C9_poly_factories_stay_null_witness:
  "fst (poly_compileNode example_host example_compiler_all new_FaustPolyDspGenerator initial_world
          example_context ''synth'' ''process = osc;'' None ''-I libs'' 4 None None)
     = Inr (Some (FaustPolyAudioWorkletNode example_context ''synth7_poly'' example_voice_factory
                    example_mixer 4 4 (Some example_factory_double)))
   \<and> poly_getVoiceFactory (polyGenerator (run [PolyCompileNode example_host example_compiler_all example_context ''synth'' ''process = osc;'' None ''-I libs'' 4 None None] initial_system)) = None
   \<and> poly_getEffectFactory (polyGenerator (run [PolyCompileNode example_host example_compiler_all example_context ''synth'' ''process = osc;'' None ''-I libs'' 4 None None] initial_system)) = None"
proof -
  have f: "fst (poly_compileNode example_host example_compiler_all new_FaustPolyDspGenerator initial_world
          example_context ''synth'' ''process = osc;'' None ''-I libs'' 4 None None)
     = Inr (Some (FaustPolyAudioWorkletNode example_context ''synth7_poly'' example_voice_factory
                    example_mixer 4 4 (Some example_factory_double)))"
    by (simp add: example_defs generator_defs digits.simps)
  note a = C9_poly_factories_stay_null
    [where cs = "[PolyCompileNode example_host example_compiler_all example_context ''synth'' ''process = osc;'' None ''-I libs'' 4 None None]"]
  show ?thesis
    by (intro conjI) (rule f a [THEN conjunct1] a [THEN conjunct2, THEN conjunct1])+
qed

subsection \<open>Compilation of a polyphonic node\<close>

lemma poly_compileNode_effect_absent:
  assumes "createPolyDSPFactory c name dspCode args = Some vf"
    and "createPolyDSPFactory c name (effect_dsp dspCode effectCode) args = None"
    and "JSON_parse h (json vf) = Inr m"
    and "getAsyncInternalMixerModule c (js_match (compile_options m) ''-double'') = Some mm"
  shows "poly_compileNode h c this w ctx name dspCode effectCode args voices sp bufferSize =
          (fst (poly_createNode h
                  (world_after_poly_compile w name dspCode effectCode args
                     (js_match (compile_options m) ''-double''))
                  ctx name vf mm voices sp None bufferSize),
           this,
           snd (poly_createNode h
                  (world_after_poly_compile w name dspCode effectCode args
                     (js_match (compile_options m) ''-double''))
                  ctx name vf mm voices sp None bufferSize))"
  using assms
  by (simp add: poly_compileNode_def Let_def world_after_poly_compile_def split: prod.splits)

lemma poly_createNode_worklet_builds:
  assumes "sp \<noteq> Some True"
    and "JSON_parse h (json vf) = Inr m"
    and "addModule h ctx (PolyProcessorCode (poly_key name vf) (json vf) (map_option json ef)) = None"
    and "newAudioWorkletNode h ctx (poly_key name vf) = None"
  shows "fst (poly_createNode h w ctx name vf mm voices sp ef bufferSize) =
           Inr (Some (FaustPolyAudioWorkletNode ctx (poly_key name vf) vf mm voices (sampleSizeOf m) ef))"
  using assms
  by (auto simp: unfold_createNode split: createNode_splits)

lemma poly_createNode_null_trace:
  assumes "poly_createNode h w ctx name vf mm voices sp ef bufferSize = (Inr None, w')"
  shows "\<exists>evs. trace w' = trace w @ evs \<and> (\<exists>e \<in> set evs. is_failed_addModule e)"
  using assms
  by (auto simp: unfold_createNode split: createNode_splits)

lemma poly_compileNode_null:
  assumes "poly_compileNode h c this w ctx name dspCode effectCode args voices sp bufferSize
             = (Inr None, this', w')"
  shows "createPolyDSPFactory c name dspCode args = None
         \<or> (\<exists>vf m. createPolyDSPFactory c name dspCode args = Some vf
                   \<and> JSON_parse h (json vf) = Inr m
                   \<and> getAsyncInternalMixerModule c (js_match (compile_options m) ''-double'') = None)
         \<or> (\<exists>e \<in> set (events_since w w'). is_failed_addModule e)"
proof (cases "createPolyDSPFactory c name dspCode args")
  case None
  then show ?thesis by simp
next
  case (Some vf)
  note vf = Some
  show ?thesis
  proof (cases "JSON_parse h (json vf)")
    case (Inl e)
    with assms vf show ?thesis
      by (simp add: poly_compileNode_def Let_def)
  next
    case (Inr m)
    note m = Inr
    show ?thesis
    proof (cases "getAsyncInternalMixerModule c (js_match (compile_options m) ''-double'')")
      case None
      with vf m show ?thesis by simp
    next
      case (Some mm)
      let ?w3 = "emit (EvGetMixerModule (js_match (compile_options m) ''-double''))
                   (emit (EvCreatePolyDSPFactory name (effect_dsp dspCode effectCode) args)
                      (emit (EvCreatePolyDSPFactory name dspCode args) w))"
      from assms vf m Some
      have "poly_createNode h ?w3 ctx name vf mm voices sp
              (createPolyDSPFactory c name (effect_dsp dspCode effectCode) args) bufferSize
            = (Inr None, w')"
        by (simp add: poly_compileNode_def Let_def split: prod.splits)
      then obtain evs where t: "trace w' = trace ?w3 @ evs"
        and f: "\<exists>e \<in> set evs. is_failed_addModule e"
        using poly_createNode_null_trace by blast
      from t have "events_since w w' =
          [EvCreatePolyDSPFactory name dspCode args,
           EvCreatePolyDSPFactory name (effect_dsp dspCode effectCode) args,
           EvGetMixerModule (js_match (compile_options m) ''-double'')] @ evs"
        by (simp add: events_since_def emit_def)
      with f have "\<exists>e \<in> set (events_since w w'). is_failed_addModule e"
        by auto
      then show ?thesis by simp
    qed
  qed
qed

text \<open>
  C10, as the code has it. When the voice code compiles, the effect code does not and the
  mixer module loads, \<open>compileNode\<close> returns what \<open>createNode\<close> returns for the
  voice factory with no effect factory; with the worklet backend, a successful registration
  and a successful construction this is a worklet node without effect factory. The call
  returns \<open>null\<close> only when the voice code does not compile, when the mixer module does
  not load, or when \<open>createNode\<close> returns \<open>null\<close> because \<open>addModule\<close> threw.
\<close>

theorem C10_effect_failure_tolerated:
  "(createPolyDSPFactory c name dspCode args = Some vf
      \<and> createPolyDSPFactory c name (effect_dsp dspCode effectCode) args = None
      \<and> JSON_parse h (json vf) = Inr m
      \<and> getAsyncInternalMixerModule c (js_match (compile_options m) ''-double'') = Some mm
    \<longrightarrow> poly_compileNode h c this w ctx name dspCode effectCode args voices sp bufferSize =
          (fst (poly_createNode h
                  (world_after_poly_compile w name dspCode effectCode args
                     (js_match (compile_options m) ''-double''))
                  ctx name vf mm voices sp None bufferSize),
           this,
           snd (poly_createNode h
                  (world_after_poly_compile w name dspCode effectCode args
                     (js_match (compile_options m) ''-double''))
                  ctx name vf mm voices sp None bufferSize)))
   \<and> (createPolyDSPFactory c name dspCode args = Some vf
      \<and> createPolyDSPFactory c name (effect_dsp dspCode effectCode) args = None
      \<and> JSON_parse h (json vf) = Inr m
      \<and> getAsyncInternalMixerModule c (js_match (compile_options m) ''-double'') = Some mm
      \<and> sp \<noteq> Some True
      \<and> addModule h ctx (PolyProcessorCode (poly_key name vf) (json vf) None) = None
      \<and> newAudioWorkletNode h ctx (poly_key name vf) = None
    \<longrightarrow> fst (poly_compileNode h c this w ctx name dspCode effectCode args voices sp bufferSize) =
          Inr (Some (FaustPolyAudioWorkletNode ctx (poly_key name vf) vf mm voices (sampleSizeOf m) None)))
   \<and> (poly_compileNode hb cb thisb wb ctxb nameb dspCodeb effectCodeb argsb voicesb spb bufferSizeb
        = (Inr None, thisb', wb')
    \<longrightarrow> (createPolyDSPFactory cb nameb dspCodeb argsb = None
         \<or> (\<exists>f p. createPolyDSPFactory cb nameb dspCodeb argsb = Some f
                   \<and> JSON_parse hb (json f) = Inr p
                   \<and> getAsyncInternalMixerModule cb (js_match (compile_options p) ''-double'') = None)
         \<or> (\<exists>e \<in> set (events_since wb wb'). is_failed_addModule e)))"
proof (intro conjI impI)
  assume "createPolyDSPFactory c name dspCode args = Some vf
      \<and> createPolyDSPFactory c name (effect_dsp dspCode effectCode) args = None
      \<and> JSON_parse h (json vf) = Inr m
      \<and> getAsyncInternalMixerModule c (js_match (compile_options m) ''-double'') = Some mm"
  then show "poly_compileNode h c this w ctx name dspCode effectCode args voices sp bufferSize =
          (fst (poly_createNode h
                  (world_after_poly_compile w name dspCode effectCode args
                     (js_match (compile_options m) ''-double''))
                  ctx name vf mm voices sp None bufferSize),
           this,
           snd (poly_createNode h
                  (world_after_poly_compile w name dspCode effectCode args
                     (js_match (compile_options m) ''-double''))
                  ctx name vf mm voices sp None bufferSize))"
    using poly_compileNode_effect_absent by blast
next
  assume a: "createPolyDSPFactory c name dspCode args = Some vf
      \<and> createPolyDSPFactory c name (effect_dsp dspCode effectCode) args = None
      \<and> JSON_parse h (json vf) = Inr m
      \<and> getAsyncInternalMixerModule c (js_match (compile_options m) ''-double'') = Some mm
      \<and> sp \<noteq> Some True
      \<and> addModule h ctx (PolyProcessorCode (poly_key name vf) (json vf) None) = None
      \<and> newAudioWorkletNode h ctx (poly_key name vf) = None"
  then have "poly_compileNode h c this w ctx name dspCode effectCode args voices sp bufferSize =
          (fst (poly_createNode h
                  (world_after_poly_compile w name dspCode effectCode args
                     (js_match (compile_options m) ''-double''))
                  ctx name vf mm voices sp None bufferSize),
           this,
           snd (poly_createNode h
                  (world_after_poly_compile w name dspCode effectCode args
                     (js_match (compile_options m) ''-double''))
                  ctx name vf mm voices sp None bufferSize))"
    using poly_compileNode_effect_absent by blast
  moreover from a have "fst (poly_createNode h
                  (world_after_poly_compile w name dspCode effectCode args
                     (js_match (compile_options m) ''-double''))
                  ctx name vf mm voices sp None bufferSize) =
      Inr (Some (FaustPolyAudioWorkletNode ctx (poly_key name vf) vf mm voices (sampleSizeOf m) None))"
    using poly_createNode_worklet_builds [where ef = None] by simp
  ultimately show "fst (poly_compileNode h c this w ctx name dspCode effectCode args voices sp bufferSize) =
          Inr (Some (FaustPolyAudioWorkletNode ctx (poly_key name vf) vf mm voices (sampleSizeOf m) None))"
    by simp
next
  assume "poly_compileNode hb cb thisb wb ctxb nameb dspCodeb effectCodeb argsb voicesb spb bufferSizeb
        = (Inr None, thisb', wb')"
  then show "(createPolyDSPFactory cb nameb dspCodeb argsb = None
         \<or> (\<exists>f p. createPolyDSPFactory cb nameb dspCodeb argsb = Some f
                   \<and> JSON_parse hb (json f) = Inr p
                   \<and> getAsyncInternalMixerModule cb (js_match (compile_options p) ''-double'') = None)
         \<or> (\<exists>e \<in> set (events_since wb wb'). is_failed_addModule e))"
    using poly_compileNode_null by blast
qed

theorem C10_effect_failure_tolerated_witness:
  "(createPolyDSPFactory example_compiler ''synth'' ''process = osc;'' ''-I libs'' = Some example_voice_factory)
   \<and> (createPolyDSPFactory example_compiler ''synth'' (effect_dsp ''process = osc;'' None) ''-I libs'' = None)
   \<and> (JSON_parse example_host (json example_voice_factory) = Inr example_meta_single)
   \<and> (getAsyncInternalMixerModule example_compiler (js_match (compile_options example_meta_single) ''-double'') = Some example_mixer)
   \<and> (None \<noteq> Some True)
   \<and> (addModule example_host example_context (PolyProcessorCode (poly_key ''synth'' example_voice_factory) (json example_voice_factory) None) = None)
   \<and> (newAudioWorkletNode example_host example_context (poly_key ''synth'' example_voice_factory) = None)
   \<and> (poly_compileNode example_host_refusing example_compiler new_FaustPolyDspGenerator initial_world example_context ''synth'' ''process = osc;'' None ''-I libs'' 4 None None
        = (Inr None, new_FaustPolyDspGenerator, (snd (snd (poly_compileNode example_host_refusing example_compiler new_FaustPolyDspGenerator initial_world example_context ''synth'' ''process = osc;'' None ''-I libs'' 4 None None)))))
   \<and> poly_compileNode example_host example_compiler new_FaustPolyDspGenerator initial_world example_context ''synth'' ''process = osc;'' None ''-I libs'' 4 None None =
          (fst (poly_createNode example_host
                  (world_after_poly_compile initial_world ''synth'' ''process = osc;'' None ''-I libs''
                     (js_match (compile_options example_meta_single) ''-double''))
                  example_context ''synth'' example_voice_factory example_mixer 4 None None None),
           new_FaustPolyDspGenerator,
           snd (poly_createNode example_host
                  (world_after_poly_compile initial_world ''synth'' ''process = osc;'' None ''-I libs''
                     (js_match (compile_options example_meta_single) ''-double''))
                  example_context ''synth'' example_voice_factory example_mixer 4 None None None))
   \<and> fst (poly_compileNode example_host example_compiler new_FaustPolyDspGenerator initial_world example_context ''synth'' ''process = osc;'' None ''-I libs'' 4 None None) =
          Inr (Some (FaustPolyAudioWorkletNode example_context (poly_key ''synth'' example_voice_factory) example_voice_factory example_mixer 4 (sampleSizeOf example_meta_single) None))
   \<and> (createPolyDSPFactory example_compiler ''synth'' ''process = osc;'' ''-I libs'' = None
         \<or> (\<exists>f p. createPolyDSPFactory example_compiler ''synth'' ''process = osc;'' ''-I libs'' = Some f
                   \<and> JSON_parse example_host_refusing (json f) = Inr p
                   \<and> getAsyncInternalMixerModule example_compiler (js_match (compile_options p) ''-double'') = None)
         \<or> (\<exists>e \<in> set (events_since initial_world (snd (snd (poly_compileNode example_host_refusing example_compiler new_FaustPolyDspGenerator initial_world example_context ''synth'' ''process = osc;'' None ''-I libs'' 4 None None)))). is_failed_addModule e))"
proof -
  have v: "createPolyDSPFactory example_compiler ''synth'' ''process = osc;'' ''-I libs'' = Some example_voice_factory"
    by (simp add: example_defs generator_defs digits.simps events_since_def)
  have e: "createPolyDSPFactory example_compiler ''synth'' (effect_dsp ''process = osc;'' None) ''-I libs'' = None"
    by (simp add: example_defs generator_defs digits.simps events_since_def)
  have p: "JSON_parse example_host (json example_voice_factory) = Inr example_meta_single"
    by (simp add: example_defs generator_defs digits.simps events_since_def)
  have x: "getAsyncInternalMixerModule example_compiler (js_match (compile_options example_meta_single) ''-double'') = Some example_mixer"
    by (simp add: example_defs generator_defs digits.simps events_since_def)
  have s: "None \<noteq> Some True"
    by simp
  have am: "addModule example_host example_context (PolyProcessorCode (poly_key ''synth'' example_voice_factory) (json example_voice_factory) None) = None"
    by (simp add: example_defs generator_defs digits.simps events_since_def)
  have nw: "newAudioWorkletNode example_host example_context (poly_key ''synth'' example_voice_factory) = None"
    by (simp add: example_defs generator_defs digits.simps events_since_def)
  have nl: "poly_compileNode example_host_refusing example_compiler new_FaustPolyDspGenerator initial_world example_context ''synth'' ''process = osc;'' None ''-I libs'' 4 None None
        = (Inr None, new_FaustPolyDspGenerator, (snd (snd (poly_compileNode example_host_refusing example_compiler new_FaustPolyDspGenerator initial_world example_context ''synth'' ''process = osc;'' None ''-I libs'' 4 None None))))"
    by (simp add: example_defs generator_defs digits.simps events_since_def)
  note a = C10_effect_failure_tolerated [where h = example_host
      and c = example_compiler
      and this = new_FaustPolyDspGenerator
      and w = initial_world
      and ctx = example_context
      and name = "''synth''"
      and dspCode = "''process = osc;''"
      and effectCode = None
      and args = "''-I libs''"
      and voices = 4
      and sp = None
      and bufferSize = None
      and vf = example_voice_factory
      and m = example_meta_single
      and mm = example_mixer
      and hb = example_host_refusing
      and cb = example_compiler
      and thisb = new_FaustPolyDspGenerator
      and wb = initial_world
      and ctxb = example_context
      and nameb = "''synth''"
      and dspCodeb = "''process = osc;''"
      and effectCodeb = None
      and argsb = "''-I libs''"
      and voicesb = 4
      and spb = None
      and bufferSizeb = None
      and thisb' = new_FaustPolyDspGenerator
      and wb' = "snd (snd (poly_compileNode example_host_refusing example_compiler new_FaustPolyDspGenerator initial_world example_context ''synth'' ''process = osc;'' None ''-I libs'' 4 None None))"]
  note b0 = a [THEN conjunct1, THEN mp, OF conjI [OF v conjI [OF e conjI [OF p x]]]]
  note b0_0 = b0
  note b1 = a [THEN conjunct2, THEN conjunct1, THEN mp, OF conjI [OF v conjI [OF e conjI [OF p conjI [OF x conjI [OF s conjI [OF am nw]]]]]]]
  note b1_0 = b1
  note b2 = a [THEN conjunct2, THEN conjunct2, THEN mp, OF nl]
  note b2_0 = b2
  show ?thesis
    by (intro conjI) (rule v e p x s am nw nl b0_0 b1_0 b2_0)+
qed

text \<open>
  C10, as stated, fails. The voice code compiles and the mixer module loads, and yet \<open>compileNode\<close> returns
  \<open>null\<close>: the worklet refuses the processor code, so \<open>createNode\<close> returns
  \<open>null\<close>.
\<close>

theorem C10_counterexample:
  "createPolyDSPFactory example_compiler ''synth'' ''process = osc;'' ''-I libs'' = Some example_voice_factory
   \<and> getAsyncInternalMixerModule example_compiler False = Some example_mixer
   \<and> fst (poly_compileNode example_host_refusing example_compiler new_FaustPolyDspGenerator initial_world
            example_context ''synth'' ''process = osc;'' None ''-I libs'' 4 None None) = Inr None"
  by (simp add: example_defs generator_defs digits.simps)

subsection \<open>The registration cache\<close>

lemma mono_createNode_registers:
  assumes "sp \<noteq> Some True"
    and "JSON_parse h (json factory) = Inr m"
    and "mono_key nameIn factory \<notin> gMonoWorkletProcessors w"
    and "addModule h ctx (MonoProcessorCode (mono_key nameIn factory) (json factory)) = None"
  shows "events_since w (snd (mono_createNode h w ctx nameIn factory sp bufferSize)) =
           [EvAddModule ctx (MonoProcessorCode (mono_key nameIn factory) (json factory)) True,
            EvNewAudioWorkletNode ctx (mono_key nameIn factory)]"
    and "gMonoWorkletProcessors (snd (mono_createNode h w ctx nameIn factory sp bufferSize)) =
           insert (mono_key nameIn factory) (gMonoWorkletProcessors w)"
    and "gPolyWorkletProcessors (snd (mono_createNode h w ctx nameIn factory sp bufferSize)) =
           gPolyWorkletProcessors w"
  using assms
  by (auto simp: unfold_createNode split: createNode_splits)

lemma poly_createNode_registers:
  assumes "sp \<noteq> Some True"
    and "JSON_parse h (json voiceFactory) = Inr m"
    and "poly_key nameIn voiceFactory \<notin> gPolyWorkletProcessors w"
    and "addModule h ctx (PolyProcessorCode (poly_key nameIn voiceFactory) (json voiceFactory)
                            (map_option json effectFactory)) = None"
  shows "events_since w (snd (poly_createNode h w ctx nameIn voiceFactory mixerModule voices sp
                                effectFactory bufferSize)) =
           [EvAddModule ctx (PolyProcessorCode (poly_key nameIn voiceFactory) (json voiceFactory)
                               (map_option json effectFactory)) True,
            EvNewAudioWorkletNode ctx (poly_key nameIn voiceFactory)]"
    and "gPolyWorkletProcessors (snd (poly_createNode h w ctx nameIn voiceFactory mixerModule voices sp
                                effectFactory bufferSize)) =
           insert (poly_key nameIn voiceFactory) (gPolyWorkletProcessors w)"
    and "gMonoWorkletProcessors (snd (poly_createNode h w ctx nameIn voiceFactory mixerModule voices sp
                                effectFactory bufferSize)) =
           gMonoWorkletProcessors w"
  using assms
  by (auto simp: unfold_createNode split: createNode_splits)

lemma mono_createNode_cached:
  assumes "sp \<noteq> Some True"
    and "mono_key nameIn factory \<in> gMonoWorkletProcessors w"
  shows "filter is_addModule (events_since w (snd (mono_createNode h w ctx nameIn factory sp bufferSize))) = []"
    and "gMonoWorkletProcessors (snd (mono_createNode h w ctx nameIn factory sp bufferSize)) =
           gMonoWorkletProcessors w"
    and "gPolyWorkletProcessors (snd (mono_createNode h w ctx nameIn factory sp bufferSize)) =
           gPolyWorkletProcessors w"
    and "JSON_parse h (json factory) = Inr m \<Longrightarrow>
         mono_createNode h w ctx nameIn factory sp bufferSize =
           new_FaustMonoAudioWorkletNode h w ctx (mono_key nameIn factory) factory (sampleSizeOf m)"
  using assms
  by (auto simp: unfold_createNode split: createNode_splits)

lemma poly_createNode_cached:
  assumes "sp \<noteq> Some True"
    and "poly_key nameIn voiceFactory \<in> gPolyWorkletProcessors w"
  shows "filter is_addModule
           (events_since w (snd (poly_createNode h w ctx nameIn voiceFactory mixerModule voices sp
                                   effectFactory bufferSize))) = []"
    and "gMonoWorkletProcessors (snd (poly_createNode h w ctx nameIn voiceFactory mixerModule voices sp
                                   effectFactory bufferSize)) = gMonoWorkletProcessors w"
    and "gPolyWorkletProcessors (snd (poly_createNode h w ctx nameIn voiceFactory mixerModule voices sp
                                   effectFactory bufferSize)) = gPolyWorkletProcessors w"
    and "JSON_parse h (json voiceFactory) = Inr m \<Longrightarrow>
         poly_createNode h w ctx nameIn voiceFactory mixerModule voices sp effectFactory bufferSize =
           new_FaustPolyAudioWorkletNode h w ctx (poly_key nameIn voiceFactory) voiceFactory mixerModule
             voices (sampleSizeOf m) effectFactory"
  using assms
  by (auto simp: unfold_createNode split: createNode_splits)

lemma mono_createNode_grows:
  "\<exists>evs. trace (snd (mono_createNode h w ctx nameIn factory sp bufferSize)) = trace w @ evs"
  using mono_createNode_trace by blast

lemma poly_createNode_grows:
  "\<exists>evs. trace (snd (poly_createNode h w ctx nameIn voiceFactory mixerModule voices sp effectFactory
                        bufferSize)) = trace w @ evs"
  using poly_createNode_trace by blast

lemma events_since_trans:
  assumes "\<exists>evs. trace w1 = trace w @ evs" and "\<exists>evs. trace w2 = trace w1 @ evs"
  shows "events_since w w2 = events_since w w1 @ events_since w1 w2"
  using assms by (auto simp: events_since_def)

lemma is_registration_is_addModule: "is_registration e \<Longrightarrow> is_addModule e"
  by (cases e) simp_all

lemma no_addModule_no_registration:
  assumes "filter is_addModule evs = []"
  shows "filter is_registration evs = []"
  using assms is_registration_is_addModule by (auto simp: filter_empty_conv)

lemma mono_second_build_cached:
  assumes "cfactory fa = cfactory fb" and "spa \<noteq> Some True" and "spb \<noteq> Some True"
    and "JSON_parse ha (json fa) = Inr ma"
    and "mono_key name fa \<notin> gMonoWorkletProcessors w"
    and "addModule ha ctxa (MonoProcessorCode (mono_key name fa) (json fa)) = None"
  shows "filter is_addModule
           (events_since (snd (mono_createNode ha w ctxa name fa spa bsa))
              (snd (mono_createNode hb (snd (mono_createNode ha w ctxa name fa spa bsa))
                      ctxb name fb spb bsb))) = []"
    and "length (filter is_registration
           (events_since w
              (snd (mono_createNode hb (snd (mono_createNode ha w ctxa name fa spa bsa))
                      ctxb name fb spb bsb)))) = 1"
proof -
  let ?w1 = "snd (mono_createNode ha w ctxa name fa spa bsa)"
  let ?w2 = "snd (mono_createNode hb ?w1 ctxb name fb spb bsb)"
  have k: "mono_key name fb = mono_key name fa"
    using assms(1) by (simp add: mono_key_def)
  have e1: "events_since w ?w1 =
           [EvAddModule ctxa (MonoProcessorCode (mono_key name fa) (json fa)) True,
            EvNewAudioWorkletNode ctxa (mono_key name fa)]"
    using mono_createNode_registers(1) [OF assms(2) assms(4) assms(5) assms(6)] .
  have "gMonoWorkletProcessors ?w1 = insert (mono_key name fa) (gMonoWorkletProcessors w)"
    using mono_createNode_registers(2) [OF assms(2) assms(4) assms(5) assms(6)] .
  then have m: "mono_key name fb \<in> gMonoWorkletProcessors ?w1"
    using k by simp
  show c: "filter is_addModule (events_since ?w1 ?w2) = []"
    using mono_createNode_cached(1) [OF assms(3) m] .
  have "events_since w ?w2 = events_since w ?w1 @ events_since ?w1 ?w2"
    by (rule events_since_trans) (rule mono_createNode_grows)+
  then show "length (filter is_registration (events_since w ?w2)) = 1"
    using e1 no_addModule_no_registration [OF c] by simp
qed

lemma poly_second_build_cached:
  assumes "cfactory fa = cfactory fb" and "spa \<noteq> Some True" and "spb \<noteq> Some True"
    and "JSON_parse ha (json fa) = Inr ma"
    and "poly_key name fa \<notin> gPolyWorkletProcessors w"
    and "addModule ha ctxa (PolyProcessorCode (poly_key name fa) (json fa) (map_option json efa)) = None"
  shows "filter is_addModule
           (events_since (snd (poly_createNode ha w ctxa name fa mma va spa efa bsa))
              (snd (poly_createNode hb (snd (poly_createNode ha w ctxa name fa mma va spa efa bsa))
                      ctxb name fb mmb vb spb efb bsb))) = []"
    and "length (filter is_registration
           (events_since w
              (snd (poly_createNode hb (snd (poly_createNode ha w ctxa name fa mma va spa efa bsa))
                      ctxb name fb mmb vb spb efb bsb)))) = 1"
proof -
  let ?w1 = "snd (poly_createNode ha w ctxa name fa mma va spa efa bsa)"
  let ?w2 = "snd (poly_createNode hb ?w1 ctxb name fb mmb vb spb efb bsb)"
  have k: "poly_key name fb = poly_key name fa"
    using assms(1) by (simp add: poly_key_def)
  have e1: "events_since w ?w1 =
           [EvAddModule ctxa (PolyProcessorCode (poly_key name fa) (json fa) (map_option json efa)) True,
            EvNewAudioWorkletNode ctxa (poly_key name fa)]"
    using poly_createNode_registers(1) [OF assms(2) assms(4) assms(5) assms(6)] .
  have "gPolyWorkletProcessors ?w1 = insert (poly_key name fa) (gPolyWorkletProcessors w)"
    using poly_createNode_registers(2) [OF assms(2) assms(4) assms(5) assms(6)] .
  then have m: "poly_key name fb \<in> gPolyWorkletProcessors ?w1"
    using k by simp
  show c: "filter is_addModule (events_since ?w1 ?w2) = []"
    using poly_createNode_cached(1) [OF assms(3) m] .
  have "events_since w ?w2 = events_since w ?w1 @ events_since ?w1 ?w2"
    by (rule events_since_trans) (rule poly_createNode_grows)+
  then show "length (filter is_registration (events_since w ?w2)) = 1"
    using e1 no_addModule_no_registration [OF c] by simp
qed

text \<open>
  C2, as the code has it. The name under which a processor is registered is made of the DSP
  name and the factory's handle, not of the factory's binary or metadata. For two factories
  with the same handle, built one after the other under the same name with the worklet
  backend, from a state in which the name is not registered and with a first
  \<open>addModule\<close> that succeeds, the second build calls \<open>addModule\<close> not at all and
  the two builds register exactly once in total.
\<close>

theorem C2_same_handle_registers_once:
  "(cfactory fa = cfactory fb \<and> spa \<noteq> Some True \<and> spb \<noteq> Some True
      \<and> JSON_parse ha (json fa) = Inr ma
      \<and> mono_key name fa \<notin> gMonoWorkletProcessors w
      \<and> addModule ha ctxa (MonoProcessorCode (mono_key name fa) (json fa)) = None
    \<longrightarrow> filter is_addModule
           (events_since (snd (mono_createNode ha w ctxa name fa spa bsa))
              (snd (mono_createNode hb (snd (mono_createNode ha w ctxa name fa spa bsa))
                      ctxb name fb spb bsb))) = []
        \<and> length (filter is_registration
           (events_since w
              (snd (mono_createNode hb (snd (mono_createNode ha w ctxa name fa spa bsa))
                      ctxb name fb spb bsb)))) = 1)
   \<and> (cfactory fa = cfactory fb \<and> spa \<noteq> Some True \<and> spb \<noteq> Some True
      \<and> JSON_parse ha (json fa) = Inr ma
      \<and> poly_key name fa \<notin> gPolyWorkletProcessors w
      \<and> addModule ha ctxa (PolyProcessorCode (poly_key name fa) (json fa) (map_option json efa)) = None
    \<longrightarrow> filter is_addModule
           (events_since (snd (poly_createNode ha w ctxa name fa mma va spa efa bsa))
              (snd (poly_createNode hb (snd (poly_createNode ha w ctxa name fa mma va spa efa bsa))
                      ctxb name fb mmb vb spb efb bsb))) = []
        \<and> length (filter is_registration
           (events_since w
              (snd (poly_createNode hb (snd (poly_createNode ha w ctxa name fa mma va spa efa bsa))
                      ctxb name fb mmb vb spb efb bsb)))) = 1)"
proof (intro conjI impI)
  assume a: "cfactory fa = cfactory fb \<and> spa \<noteq> Some True \<and> spb \<noteq> Some True
      \<and> JSON_parse ha (json fa) = Inr ma
      \<and> mono_key name fa \<notin> gMonoWorkletProcessors w
      \<and> addModule ha ctxa (MonoProcessorCode (mono_key name fa) (json fa)) = None"
  show "filter is_addModule
           (events_since (snd (mono_createNode ha w ctxa name fa spa bsa))
              (snd (mono_createNode hb (snd (mono_createNode ha w ctxa name fa spa bsa))
                      ctxb name fb spb bsb))) = []"
    using a mono_second_build_cached(1) by blast
  show "length (filter is_registration
           (events_since w
              (snd (mono_createNode hb (snd (mono_createNode ha w ctxa name fa spa bsa))
                      ctxb name fb spb bsb)))) = 1"
    using a mono_second_build_cached(2) by blast
next
  assume a: "cfactory fa = cfactory fb \<and> spa \<noteq> Some True \<and> spb \<noteq> Some True
      \<and> JSON_parse ha (json fa) = Inr ma
      \<and> poly_key name fa \<notin> gPolyWorkletProcessors w
      \<and> addModule ha ctxa (PolyProcessorCode (poly_key name fa) (json fa) (map_option json efa)) = None"
  show "filter is_addModule
           (events_since (snd (poly_createNode ha w ctxa name fa mma va spa efa bsa))
              (snd (poly_createNode hb (snd (poly_createNode ha w ctxa name fa mma va spa efa bsa))
                      ctxb name fb mmb vb spb efb bsb))) = []"
    using a poly_second_build_cached(1) by blast
  show "length (filter is_registration
           (events_since w
              (snd (poly_createNode hb (snd (poly_createNode ha w ctxa name fa mma va spa efa bsa))
                      ctxb name fb mmb vb spb efb bsb)))) = 1"
    using a poly_second_build_cached(2) by blast
qed

theorem C2_same_handle_registers_once_witness:
  "(cfactory example_factory = cfactory example_factory)
   \<and> (None \<noteq> Some True)
   \<and> (JSON_parse example_host (json example_factory) = Inr example_meta_single)
   \<and> (mono_key ''osc'' example_factory \<notin> gMonoWorkletProcessors initial_world)
   \<and> (addModule example_host example_context (MonoProcessorCode (mono_key ''osc'' example_factory) (json example_factory)) = None)
   \<and> (poly_key ''osc'' example_factory \<notin> gPolyWorkletProcessors initial_world)
   \<and> (addModule example_host example_context (PolyProcessorCode (poly_key ''osc'' example_factory) (json example_factory) (map_option json (None :: FaustDspFactory option))) = None)
   \<and> filter is_addModule
           (events_since (snd (mono_createNode example_host initial_world example_context ''osc'' example_factory None None))
              (snd (mono_createNode example_host (snd (mono_createNode example_host initial_world example_context ''osc'' example_factory None None))
                      example_context ''osc'' example_factory None None))) = []
   \<and> length (filter is_registration
           (events_since initial_world
              (snd (mono_createNode example_host (snd (mono_createNode example_host initial_world example_context ''osc'' example_factory None None))
                      example_context ''osc'' example_factory None None)))) = 1
   \<and> filter is_addModule
           (events_since (snd (poly_createNode example_host initial_world example_context ''osc'' example_factory example_mixer 4 None None None))
              (snd (poly_createNode example_host (snd (poly_createNode example_host initial_world example_context ''osc'' example_factory example_mixer 4 None None None))
                      example_context ''osc'' example_factory example_mixer 4 None None None))) = []
   \<and> length (filter is_registration
           (events_since initial_world
              (snd (poly_createNode example_host (snd (poly_createNode example_host initial_world example_context ''osc'' example_factory example_mixer 4 None None None))
                      example_context ''osc'' example_factory example_mixer 4 None None None)))) = 1"
proof -
  have c: "cfactory example_factory = cfactory example_factory"
    by simp
  have s: "None \<noteq> Some True"
    by simp
  have p: "JSON_parse example_host (json example_factory) = Inr example_meta_single"
    by (simp add: example_defs generator_defs digits.simps events_since_def)
  have n: "mono_key ''osc'' example_factory \<notin> gMonoWorkletProcessors initial_world"
    by (simp add: example_defs generator_defs digits.simps events_since_def)
  have am: "addModule example_host example_context (MonoProcessorCode (mono_key ''osc'' example_factory) (json example_factory)) = None"
    by (simp add: example_defs generator_defs digits.simps events_since_def)
  have pn: "poly_key ''osc'' example_factory \<notin> gPolyWorkletProcessors initial_world"
    by (simp add: example_defs generator_defs digits.simps events_since_def)
  have pa: "addModule example_host example_context (PolyProcessorCode (poly_key ''osc'' example_factory) (json example_factory) (map_option json (None :: FaustDspFactory option))) = None"
    by (simp add: example_defs generator_defs digits.simps events_since_def)
  note a = C2_same_handle_registers_once [where ha = example_host
      and hb = example_host
      and w = initial_world
      and ctxa = example_context
      and ctxb = example_context
      and name = "''osc''"
      and fa = example_factory
      and fb = example_factory
      and spa = None
      and spb = None
      and bsa = None
      and bsb = None
      and ma = example_meta_single
      and mma = example_mixer
      and mmb = example_mixer
      and va = 4
      and vb = 4
      and efa = None
      and efb = None]
  note b0 = a [THEN conjunct1, THEN mp, OF conjI [OF c conjI [OF s conjI [OF s conjI [OF p conjI [OF n am]]]]]]
  note b0_0 = b0 [THEN conjunct1]
  note b0_1 = b0 [THEN conjunct2]
  note b1 = a [THEN conjunct2, THEN mp, OF conjI [OF c conjI [OF s conjI [OF s conjI [OF p conjI [OF pn pa]]]]]]
  note b1_0 = b1 [THEN conjunct1]
  note b1_1 = b1 [THEN conjunct2]
  show ?thesis
    by (intro conjI) (rule c s p n am pn pa b0_0 b0_1 b1_0 b1_1)+
qed

text \<open>
  C2, as stated, fails. Two factories with the same binary and the same metadata but
  different handles, built under the same name, register twice.
\<close>

theorem C2_counterexample:
  "code example_factory = code example_factory_again
   \<and> json example_factory = json example_factory_again
   \<and> length (filter is_registration
         (trace (snd (mono_createNode example_host
                        (snd (mono_createNode example_host initial_world example_context ''osc''
                                example_factory None None))
                        example_context ''osc'' example_factory_again None None)))) = 2"
  by (simp add: example_defs generator_defs digits.simps)

subsection \<open>Registered at most once\<close>

lemma digit_char: "n < 10 \<Longrightarrow> is_digit (''0123456789'' ! n)"
  unfolding is_digit_def by (rule nth_mem) simp

lemma digits_last: "digits n \<noteq> [] \<and> is_digit (last (digits n))"
proof (cases "n < 10")
  case True
  then have "digits n = [''0123456789'' ! n]"
    by (subst digits.simps) simp
  with digit_char [OF True] show ?thesis by simp
next
  case False
  then have "digits n = digits (n div 10) @ [''0123456789'' ! (n mod 10)]"
    by (subst digits.simps) simp
  moreover have "is_digit (''0123456789'' ! (n mod 10))"
    by (rule digit_char) simp
  ultimately show ?thesis by simp
qed

lemma number_toString_last:
  "number_toString i \<noteq> [] \<and> is_digit (last (number_toString i))"
  using digits_last by (simp add: number_toString_def)

lemma mono_key_last:
  "mono_key name f \<noteq> [] \<and> is_digit (last (mono_key name f))"
  using number_toString_last [of "cfactory f"] by (simp add: mono_key_def)

lemma poly_key_last: "poly_key name f \<noteq> [] \<and> last (poly_key name f) = CHR ''y''"
  by (simp add: poly_key_def)

lemma y_not_digit: "\<not> is_digit (CHR ''y'')"
  by (simp add: is_digit_def)

lemma world_inv_count:
  assumes "world_inv w"
  shows "length (filter (registers k) (trace w))
           \<le> (if k \<in> gMonoWorkletProcessors w \<union> gPolyWorkletProcessors w then 1 else 0)"
  using assms unfolding world_inv_def by blast

lemma world_inv_mono_keys:
  assumes "world_inv w" and "k \<in> gMonoWorkletProcessors w"
  shows "k \<noteq> [] \<and> is_digit (last k)"
  using assms unfolding world_inv_def by blast

lemma world_inv_poly_keys:
  assumes "world_inv w" and "k \<in> gPolyWorkletProcessors w"
  shows "k \<noteq> [] \<and> last k = CHR ''y''"
  using assms unfolding world_inv_def by blast

lemma registers_is_registration: "registers k e \<Longrightarrow> is_registration e"
  by (cases e) simp_all

lemma no_registration_no_registers:
  assumes "filter is_registration evs = []"
  shows "filter (registers k) evs = []"
  using assms registers_is_registration by (auto simp: filter_empty_conv)

lemma world_inv_extend:
  assumes "world_inv w" and "trace w' = trace w @ evs" and "filter is_registration evs = []"
    and "gMonoWorkletProcessors w' = gMonoWorkletProcessors w"
    and "gPolyWorkletProcessors w' = gPolyWorkletProcessors w"
  shows "world_inv w'"
  using assms no_registration_no_registers [OF assms(3)]
  by (simp add: world_inv_def)

lemma world_inv_register_mono:
  assumes "world_inv w" and "mono_key name f \<notin> gMonoWorkletProcessors w"
    and "trace w' = trace w @ EvAddModule c (MonoProcessorCode (mono_key name f) j) True # evs"
    and "filter is_registration evs = []"
    and "gMonoWorkletProcessors w' = insert (mono_key name f) (gMonoWorkletProcessors w)"
    and "gPolyWorkletProcessors w' = gPolyWorkletProcessors w"
  shows "world_inv w'"
proof -
  have np: "mono_key name f \<notin> gPolyWorkletProcessors w"
  proof
    assume "mono_key name f \<in> gPolyWorkletProcessors w"
    with assms(1) have "last (mono_key name f) = CHR ''y''"
      using world_inv_poly_keys by blast
    with mono_key_last [of name f] y_not_digit show False by simp
  qed
  have z: "length (filter (registers (mono_key name f)) (trace w)) = 0"
    using world_inv_count [OF assms(1), of "mono_key name f"] assms(2) np by simp
  have e: "filter (registers k) evs = []" for k
    using no_registration_no_registers [OF assms(4)] .
  have "length (filter (registers k) (trace w'))
          \<le> (if k \<in> gMonoWorkletProcessors w' \<union> gPolyWorkletProcessors w' then 1 else 0)" for k
  proof (cases "k = mono_key name f")
    case True
    with z e assms(3) assms(5) show ?thesis by simp
  next
    case False
    have "length (filter (registers k) (trace w))
            \<le> (if k \<in> gMonoWorkletProcessors w \<union> gPolyWorkletProcessors w then 1 else 0)"
      using world_inv_count [OF assms(1)] .
    with False e assms(3) assms(5) assms(6) show ?thesis by simp
  qed
  moreover have "\<forall>k \<in> gMonoWorkletProcessors w'. k \<noteq> [] \<and> is_digit (last k)"
    using world_inv_mono_keys [OF assms(1)] assms(5) mono_key_last [of name f] by auto
  moreover have "\<forall>k \<in> gPolyWorkletProcessors w'. k \<noteq> [] \<and> last k = CHR ''y''"
    using world_inv_poly_keys [OF assms(1)] assms(6) by auto
  ultimately show ?thesis unfolding world_inv_def by blast
qed

lemma world_inv_register_poly:
  assumes "world_inv w" and "poly_key name f \<notin> gPolyWorkletProcessors w"
    and "trace w' = trace w @ EvAddModule c (PolyProcessorCode (poly_key name f) j ej) True # evs"
    and "filter is_registration evs = []"
    and "gPolyWorkletProcessors w' = insert (poly_key name f) (gPolyWorkletProcessors w)"
    and "gMonoWorkletProcessors w' = gMonoWorkletProcessors w"
  shows "world_inv w'"
proof -
  have np: "poly_key name f \<notin> gMonoWorkletProcessors w"
  proof
    assume "poly_key name f \<in> gMonoWorkletProcessors w"
    with assms(1) have "is_digit (last (poly_key name f))"
      using world_inv_mono_keys by blast
    with poly_key_last [of name f] y_not_digit show False by simp
  qed
  have z: "length (filter (registers (poly_key name f)) (trace w)) = 0"
    using world_inv_count [OF assms(1), of "poly_key name f"] assms(2) np by simp
  have e: "filter (registers k) evs = []" for k
    using no_registration_no_registers [OF assms(4)] .
  have "length (filter (registers k) (trace w'))
          \<le> (if k \<in> gMonoWorkletProcessors w' \<union> gPolyWorkletProcessors w' then 1 else 0)" for k
  proof (cases "k = poly_key name f")
    case True
    with z e assms(3) assms(5) show ?thesis by simp
  next
    case False
    have "length (filter (registers k) (trace w))
            \<le> (if k \<in> gMonoWorkletProcessors w \<union> gPolyWorkletProcessors w then 1 else 0)"
      using world_inv_count [OF assms(1)] .
    with False e assms(3) assms(5) assms(6) show ?thesis by simp
  qed
  moreover have "\<forall>k \<in> gPolyWorkletProcessors w'. k \<noteq> [] \<and> last k = CHR ''y''"
    using world_inv_poly_keys [OF assms(1)] assms(5) poly_key_last [of name f] by auto
  moreover have "\<forall>k \<in> gMonoWorkletProcessors w'. k \<noteq> [] \<and> is_digit (last k)"
    using world_inv_mono_keys [OF assms(1)] assms(6) by auto
  ultimately show ?thesis unfolding world_inv_def by blast
qed

lemma trace_events_since:
  assumes "\<exists>evs. trace w' = trace w @ evs"
  shows "trace w' = trace w @ events_since w w'"
  using assms by (auto simp: events_since_def)

lemma mono_createNode_parse_error:
  assumes "JSON_parse h (json factory) = Inl e"
  shows "snd (mono_createNode h w ctx nameIn factory sp bufferSize) = w"
  using assms by (simp add: mono_createNode_def)

lemma poly_createNode_parse_error:
  assumes "JSON_parse h (json vf) = Inl e"
  shows "snd (poly_createNode h w ctx nameIn vf mm voices sp ef bufferSize) = w"
  using assms by (simp add: poly_createNode_def)

lemma mono_createNode_inv:
  assumes "world_inv w"
  shows "world_inv (snd (mono_createNode h w ctx nameIn factory sp bufferSize))"
proof -
  let ?c = "mono_createNode h w ctx nameIn factory sp bufferSize"
  let ?k = "mono_key nameIn factory"
  have t: "trace (snd ?c) = trace w @ events_since w (snd ?c)"
    by (rule trace_events_since) (rule mono_createNode_grows)
  show ?thesis
  proof (cases "sp = Some True")
    case True
    then have c: "mono_createNode h w ctx nameIn factory (Some True) bufferSize = (fst ?c, snd ?c)"
      by simp
    from True show ?thesis
      using world_inv_extend [OF assms t
          no_addModule_no_registration [OF mono_createNode_sp_frame(3) [OF c]]
          mono_createNode_sp_frame(1) [OF c] mono_createNode_sp_frame(2) [OF c]]
      by simp
  next
    case False
    note sp = False
    show ?thesis
    proof (cases "?k \<in> gMonoWorkletProcessors w")
      case True
      show ?thesis
        by (rule world_inv_extend [OF assms t
              no_addModule_no_registration [OF mono_createNode_cached(1) [OF sp True]]
              mono_createNode_cached(2) [OF sp True] mono_createNode_cached(3) [OF sp True]])
    next
      case False
      note k = False
      show ?thesis
      proof (cases "JSON_parse h (json factory)")
        case (Inl e)
        then show ?thesis
          using assms by (simp add: mono_createNode_parse_error)
      next
        case (Inr m)
        show ?thesis
        proof (cases "addModule h ctx (MonoProcessorCode ?k (json factory))")
          case None
          have a: "trace (snd ?c) = trace w @ EvAddModule ctx (MonoProcessorCode ?k (json factory)) True
                                   # [EvNewAudioWorkletNode ctx ?k]"
            using t mono_createNode_registers(1) [OF sp Inr k None] by simp
          have b: "filter is_registration [EvNewAudioWorkletNode ctx ?k] = []"
            by simp
          show ?thesis
            by (rule world_inv_register_mono [OF assms k a b
                  mono_createNode_registers(2) [OF sp Inr k None]
                  mono_createNode_registers(3) [OF sp Inr k None]])
        next
          case (Some x)
          have "snd ?c = emit (EvAddModule ctx (MonoProcessorCode ?k (json factory)) False) w"
            using mono_createNode_addModule_throws [OF sp Inr k Some] by simp
          then have a: "trace (snd ?c) = trace w @ [EvAddModule ctx (MonoProcessorCode ?k (json factory)) False]"
            and g: "gMonoWorkletProcessors (snd ?c) = gMonoWorkletProcessors w"
            and p: "gPolyWorkletProcessors (snd ?c) = gPolyWorkletProcessors w"
            by (simp_all add: emit_def)
          have b: "filter is_registration [EvAddModule ctx (MonoProcessorCode ?k (json factory)) False] = []"
            by simp
          show ?thesis
            by (rule world_inv_extend [OF assms a b g p])
        qed
      qed
    qed
  qed
qed

lemma poly_createNode_inv:
  assumes "world_inv w"
  shows "world_inv (snd (poly_createNode h w ctx nameIn vf mm voices sp ef bufferSize))"
proof -
  let ?c = "poly_createNode h w ctx nameIn vf mm voices sp ef bufferSize"
  let ?k = "poly_key nameIn vf"
  have t: "trace (snd ?c) = trace w @ events_since w (snd ?c)"
    by (rule trace_events_since) (rule poly_createNode_grows)
  show ?thesis
  proof (cases "sp = Some True")
    case True
    then have c: "poly_createNode h w ctx nameIn vf mm voices (Some True) ef bufferSize = (fst ?c, snd ?c)"
      by simp
    from True show ?thesis
      using world_inv_extend [OF assms t
          no_addModule_no_registration [OF poly_createNode_sp_frame(3) [OF c]]
          poly_createNode_sp_frame(1) [OF c] poly_createNode_sp_frame(2) [OF c]]
      by simp
  next
    case False
    note sp = False
    show ?thesis
    proof (cases "?k \<in> gPolyWorkletProcessors w")
      case True
      show ?thesis
        by (rule world_inv_extend [OF assms t
              no_addModule_no_registration [OF poly_createNode_cached(1) [OF sp True]]
              poly_createNode_cached(2) [OF sp True] poly_createNode_cached(3) [OF sp True]])
    next
      case False
      note k = False
      show ?thesis
      proof (cases "JSON_parse h (json vf)")
        case (Inl e)
        then show ?thesis
          using assms by (simp add: poly_createNode_parse_error)
      next
        case (Inr m)
        show ?thesis
        proof (cases "addModule h ctx (PolyProcessorCode ?k (json vf) (map_option json ef))")
          case None
          have a: "trace (snd ?c) = trace w @ EvAddModule ctx (PolyProcessorCode ?k (json vf) (map_option json ef)) True
                                   # [EvNewAudioWorkletNode ctx ?k]"
            using t poly_createNode_registers(1) [OF sp Inr k None] by simp
          have b: "filter is_registration [EvNewAudioWorkletNode ctx ?k] = []"
            by simp
          show ?thesis
            by (rule world_inv_register_poly [OF assms k a b
                  poly_createNode_registers(2) [OF sp Inr k None]
                  poly_createNode_registers(3) [OF sp Inr k None]])
        next
          case (Some x)
          have "snd ?c = emit (EvAddModule ctx (PolyProcessorCode ?k (json vf) (map_option json ef)) False) w"
            using poly_createNode_addModule_throws [OF sp Inr k Some] by simp
          then have a: "trace (snd ?c) = trace w @ [EvAddModule ctx (PolyProcessorCode ?k (json vf) (map_option json ef)) False]"
            and g: "gMonoWorkletProcessors (snd ?c) = gMonoWorkletProcessors w"
            and p: "gPolyWorkletProcessors (snd ?c) = gPolyWorkletProcessors w"
            by (simp_all add: emit_def)
          have b: "filter is_registration [EvAddModule ctx (PolyProcessorCode ?k (json vf) (map_option json ef)) False] = []"
            by simp
          show ?thesis
            by (rule world_inv_extend [OF assms a b g p])
        qed
      qed
    qed
  qed
qed

lemma emit_inv:
  assumes "world_inv w" and "\<not> is_registration e"
  shows "world_inv (emit e w)"
proof -
  have a: "trace (emit e w) = trace w @ [e]" by (simp add: emit_def)
  have b: "filter is_registration [e] = []" using assms(2) by simp
  show ?thesis
    by (rule world_inv_extend [OF assms(1) a b]) (simp_all add: emit_def)
qed

lemma mono_compileNode_inv:
  assumes "world_inv w"
  shows "world_inv (snd (snd (mono_compileNode h c this w ctx name dspCode args sp bufferSize)))"
proof (cases "createMonoDSPFactory c name dspCode args")
  case None
  then show ?thesis
    using emit_inv [OF assms, of "EvCreateMonoDSPFactory name dspCode args"]
    by (simp add: mono_compileNode_def Let_def)
next
  case (Some f)
  have "world_inv (snd (mono_createNode h (emit (EvCreateMonoDSPFactory name dspCode args) w)
                          ctx name f sp bufferSize))"
    by (rule mono_createNode_inv) (rule emit_inv [OF assms], simp)
  with Some show ?thesis
    by (simp add: mono_compileNode_def Let_def split_beta)
qed

lemma mono_createOfflineProcessor_inv:
  assumes "world_inv w"
  shows "world_inv (snd (mono_createOfflineProcessor h w factory sr bufferSize))"
  using emit_inv [OF assms, of "EvCreateMonoDSPInstance factory"]
  by (simp add: mono_createOfflineProcessor_def Let_def split: sum.splits)

lemma poly_compileNode_inv:
  assumes "world_inv w"
  shows "world_inv (snd (snd (poly_compileNode h c this w ctx name dspCode effectCode args voices sp
                                bufferSize)))"
proof -
  let ?w1 = "emit (EvCreatePolyDSPFactory name dspCode args) w"
  let ?w2 = "emit (EvCreatePolyDSPFactory name (effect_dsp dspCode effectCode) args) ?w1"
  have i1: "world_inv ?w1" by (rule emit_inv [OF assms]) simp
  have i2: "world_inv ?w2" by (rule emit_inv [OF i1]) simp
  have i3: "world_inv (emit (EvGetMixerModule d) ?w2)" for d
    by (rule emit_inv [OF i2]) simp
  have i4: "world_inv (snd (poly_createNode h (emit (EvGetMixerModule d) ?w2) ctx name vf mm voices sp
                              ef bufferSize))" for d vf mm ef
    by (rule poly_createNode_inv [OF i3])
  show ?thesis
    using i1 i2 i3 i4
    by (simp add: poly_compileNode_def Let_def split_beta split: option.splits sum.splits)
qed

lemma step_inv:
  assumes "world_inv (statics s)"
  shows "world_inv (statics (step c s))"
proof (cases c)
  case (MonoCompileNode h cmp ctx name dspCode args sp bufferSize)
  then show ?thesis
    using mono_compileNode_inv [OF assms, of h cmp "monoGenerator s" ctx name dspCode args sp bufferSize]
    by (simp add: Let_def split_beta)
next
  case (MonoCreateNode h ctx name factory sp bufferSize)
  then show ?thesis
    using mono_createNode_inv [OF assms] by simp
next
  case (MonoCreateOfflineProcessor h factory sr bufferSize)
  then show ?thesis
    using mono_createOfflineProcessor_inv [OF assms] by simp
next
  case (PolyCompileNode h cmp ctx name dspCode effectCode args voices sp bufferSize)
  then show ?thesis
    using poly_compileNode_inv [OF assms, of h cmp "polyGenerator s" ctx name dspCode effectCode args
        voices sp bufferSize]
    by (simp add: Let_def split_beta)
next
  case (PolyCreateNode h ctx name vf mm voices sp ef bufferSize)
  then show ?thesis
    using poly_createNode_inv [OF assms] by simp
qed

lemma run_inv:
  assumes "world_inv (statics s)"
  shows "world_inv (statics (run cs s))"
  using assms by (induction cs arbitrary: s) (simp_all add: step_inv)

lemma initial_inv: "world_inv (statics initial_system)"
  by (simp add: initial_system_def initial_world_def world_inv_def)

lemma filter_length_mono:
  assumes "\<And>x. P x \<Longrightarrow> Q x"
  shows "length (filter P xs) \<le> length (filter Q xs)"
  using assms by (induction xs) auto

lemma registers_in_registers: "registers_in ctx k e \<Longrightarrow> registers k e"
  by (cases e) simp_all

lemma registered_at_most_once:
  "length (filter (registers k) (trace (statics (run cs initial_system)))) \<le> 1"
  using world_inv_count [OF run_inv [OF initial_inv], of k cs]
  by (simp split: if_splits)

lemma mono_createNode_keeps_keys:
  "gMonoWorkletProcessors w \<subseteq> gMonoWorkletProcessors (snd (mono_createNode h w ctx nameIn factory sp bufferSize))
   \<and> gPolyWorkletProcessors w \<subseteq> gPolyWorkletProcessors (snd (mono_createNode h w ctx nameIn factory sp bufferSize))"
  by (auto simp: unfold_createNode split: createNode_splits)

lemma poly_createNode_keeps_keys:
  "gMonoWorkletProcessors w \<subseteq> gMonoWorkletProcessors (snd (poly_createNode h w ctx nameIn vf mm voices sp ef bufferSize))
   \<and> gPolyWorkletProcessors w \<subseteq> gPolyWorkletProcessors (snd (poly_createNode h w ctx nameIn vf mm voices sp ef bufferSize))"
  by (auto simp: unfold_createNode split: createNode_splits)

lemma emit_keys [simp]:
  "gMonoWorkletProcessors (emit e w) = gMonoWorkletProcessors w"
  "gPolyWorkletProcessors (emit e w) = gPolyWorkletProcessors w"
  by (simp_all add: emit_def)

lemma step_keeps_keys:
  "gMonoWorkletProcessors (statics s) \<subseteq> gMonoWorkletProcessors (statics (step c s))
   \<and> gPolyWorkletProcessors (statics s) \<subseteq> gPolyWorkletProcessors (statics (step c s))"
proof (cases c)
  case (MonoCompileNode h cmp ctx name dspCode args sp bufferSize)
  show ?thesis
  proof (cases "createMonoDSPFactory cmp name dspCode args")
    case None
    with MonoCompileNode show ?thesis
      by (simp add: mono_compileNode_def Let_def)
  next
    case (Some f)
    with MonoCompileNode show ?thesis
      using mono_createNode_keeps_keys
        [of "emit (EvCreateMonoDSPFactory name dspCode args) (statics s)" h ctx name f sp bufferSize]
      by (simp add: mono_compileNode_def Let_def split_beta)
  qed
next
  case (MonoCreateNode h ctx name factory sp bufferSize)
  then show ?thesis
    using mono_createNode_keeps_keys by simp
next
  case (MonoCreateOfflineProcessor h factory sr bufferSize)
  then show ?thesis
    by (simp add: mono_createOfflineProcessor_def Let_def split: sum.splits)
next
  case (PolyCompileNode h cmp ctx name dspCode effectCode args voices sp bufferSize)
  have k: "gMonoWorkletProcessors (statics s)
             \<subseteq> gMonoWorkletProcessors (snd (poly_createNode h (world_after_poly_compile (statics s) name
                      dspCode effectCode args d) ctx name vf mm voices sp ef bufferSize))
           \<and> gPolyWorkletProcessors (statics s)
             \<subseteq> gPolyWorkletProcessors (snd (poly_createNode h (world_after_poly_compile (statics s) name
                      dspCode effectCode args d) ctx name vf mm voices sp ef bufferSize))" for d vf mm ef
    using poly_createNode_keeps_keys
      [of "world_after_poly_compile (statics s) name dspCode effectCode args d" h ctx name vf mm voices
         sp ef bufferSize]
    by (simp add: world_after_poly_compile_def)
  from PolyCompileNode show ?thesis
    using k
    by (simp add: poly_compileNode_def Let_def split_beta world_after_poly_compile_def
        split: option.splits sum.splits)
next
  case (PolyCreateNode h ctx name vf mm voices sp ef bufferSize)
  then show ?thesis
    using poly_createNode_keeps_keys by simp
qed

lemma run_keeps_keys:
  "gMonoWorkletProcessors (statics s) \<subseteq> gMonoWorkletProcessors (statics (run cs s))
   \<and> gPolyWorkletProcessors (statics s) \<subseteq> gPolyWorkletProcessors (statics (run cs s))"
proof (induction cs arbitrary: s)
  case Nil
  then show ?case by simp
next
  case (Cons c cs)
  from step_keeps_keys [of s c] Cons.IH [of "step c s"] show ?case
    by auto
qed

text \<open>
  A call that is awaited before the next one begins is \<open>begin\<close> followed at once by
  \<open>resume\<close> in the same state: this is \<open>createNode\<close> as defined above, and a
  sequence of calls is a sequence of such calls.
\<close>

lemma mono_createNode_awaited:
  "mono_createNode h w ctx nameIn factory sp bufferSize =
     (case mono_createNode_begin h w ctx nameIn factory sp bufferSize of
        Inl finished \<Rightarrow> finished
      | Inr suspended \<Rightarrow> mono_createNode_resume suspended w)"
  by (auto simp: mono_createNode_begin_def mono_createNode_def mono_registerProcessor_def Let_def
      split: sum.splits option.splits)

lemma poly_createNode_awaited:
  "poly_createNode h w ctx nameIn vf mm voices sp ef bufferSize =
     (case poly_createNode_begin h w ctx nameIn vf mm voices sp ef bufferSize of
        Inl finished \<Rightarrow> finished
      | Inr suspended \<Rightarrow> poly_createNode_resume suspended w)"
  by (auto simp: poly_createNode_begin_def poly_createNode_def poly_registerProcessor_def Let_def
      split: sum.splits option.splits)

text \<open>
  Two calls that overlap both find the name absent, and both call \<open>addModule\<close>. The
  statements below are about awaited calls and say nothing about this.
\<close>

lemma overlapping_calls_register_twice:
  "mono_createNode_begin example_host initial_world example_context ''osc'' example_factory None None
     = Inr (MonoSuspended example_host example_context ''osc1'' example_factory 4)
   \<and> length (filter (registers ''osc1'')
         (trace (snd (mono_createNode_resume
                        (MonoSuspended example_host example_context ''osc1'' example_factory 4)
                        (snd (mono_createNode_resume
                                (MonoSuspended example_host example_context ''osc1'' example_factory 4)
                                initial_world)))))) = 2"
  by (simp add: mono_createNode_begin_def example_defs generator_defs digits.simps)

text \<open>
  C1, as the code has it. For calls that are awaited one after the other from the initial
  state, a name has been registered at most once, with whatever context, so at most once with
  any one context: the static set belongs to the generator class and is shared by all
  contexts. A \<open>createNode\<close> call for the worklet backend with a name that is not in the
  set calls \<open>addModule\<close>; when that succeeds the name is put into the set and the
  worklet node is constructed, and when it throws the call returns \<open>null\<close> and the name
  is not put into the set. A call with a name that is in the set, on whatever context, calls
  \<open>addModule\<close> not at all, leaves the sets as they are and goes on to construct the
  worklet node. A name stays in its set over all later calls.
\<close>

theorem C1_awaited_calls_register_once:
  "length (filter (registers_in rctx key) (trace (statics (run cs initial_system)))) \<le> 1
   \<and> length (filter (registers key) (trace (statics (run cs initial_system)))) \<le> 1
   \<and> (sp \<noteq> Some True \<and> JSON_parse h (json f) = Inr m
      \<and> mono_key name f \<notin> gMonoWorkletProcessors w
      \<and> addModule h ctx (MonoProcessorCode (mono_key name f) (json f)) = None
    \<longrightarrow> events_since w (snd (mono_createNode h w ctx name f sp bufferSize)) =
          [EvAddModule ctx (MonoProcessorCode (mono_key name f) (json f)) True,
           EvNewAudioWorkletNode ctx (mono_key name f)]
        \<and> gMonoWorkletProcessors (snd (mono_createNode h w ctx name f sp bufferSize)) =
          insert (mono_key name f) (gMonoWorkletProcessors w))
   \<and> (sp \<noteq> Some True \<and> JSON_parse hf (json f) = Inr m
      \<and> mono_key name f \<notin> gMonoWorkletProcessors w
      \<and> addModule hf ctx (MonoProcessorCode (mono_key name f) (json f)) = Some x
    \<longrightarrow> mono_createNode hf w ctx name f sp bufferSize =
          (Inr None, emit (EvAddModule ctx (MonoProcessorCode (mono_key name f) (json f)) False) w)
        \<and> mono_key name f \<notin> gMonoWorkletProcessors (snd (mono_createNode hf w ctx name f sp bufferSize)))
   \<and> (spb \<noteq> Some True \<and> mono_key nameb fb \<in> gMonoWorkletProcessors wb
    \<longrightarrow> filter is_addModule (events_since wb (snd (mono_createNode hb wb ctxb nameb fb spb bufferSizeb))) = []
        \<and> gMonoWorkletProcessors (snd (mono_createNode hb wb ctxb nameb fb spb bufferSizeb)) = gMonoWorkletProcessors wb
        \<and> gPolyWorkletProcessors (snd (mono_createNode hb wb ctxb nameb fb spb bufferSizeb)) = gPolyWorkletProcessors wb)
   \<and> (spb \<noteq> Some True \<and> mono_key nameb fb \<in> gMonoWorkletProcessors wb
      \<and> JSON_parse hb (json fb) = Inr mb
    \<longrightarrow> mono_createNode hb wb ctxb nameb fb spb bufferSizeb =
          new_FaustMonoAudioWorkletNode hb wb ctxb (mono_key nameb fb) fb (sampleSizeOf mb))
   \<and> (sp \<noteq> Some True \<and> JSON_parse h (json f) = Inr m
      \<and> poly_key name f \<notin> gPolyWorkletProcessors w
      \<and> addModule h ctx (PolyProcessorCode (poly_key name f) (json f) (map_option json ef)) = None
    \<longrightarrow> events_since w (snd (poly_createNode h w ctx name f mm voices sp ef bufferSize)) =
          [EvAddModule ctx (PolyProcessorCode (poly_key name f) (json f) (map_option json ef)) True,
           EvNewAudioWorkletNode ctx (poly_key name f)]
        \<and> gPolyWorkletProcessors (snd (poly_createNode h w ctx name f mm voices sp ef bufferSize)) =
          insert (poly_key name f) (gPolyWorkletProcessors w))
   \<and> (sp \<noteq> Some True \<and> JSON_parse hf (json f) = Inr m
      \<and> poly_key name f \<notin> gPolyWorkletProcessors w
      \<and> addModule hf ctx (PolyProcessorCode (poly_key name f) (json f) (map_option json ef)) = Some x
    \<longrightarrow> poly_createNode hf w ctx name f mm voices sp ef bufferSize =
          (Inr None, emit (EvAddModule ctx (PolyProcessorCode (poly_key name f) (json f) (map_option json ef)) False) w)
        \<and> poly_key name f \<notin> gPolyWorkletProcessors (snd (poly_createNode hf w ctx name f mm voices sp ef bufferSize)))
   \<and> (spb \<noteq> Some True \<and> poly_key nameb fb \<in> gPolyWorkletProcessors wb
    \<longrightarrow> filter is_addModule (events_since wb (snd (poly_createNode hb wb ctxb nameb fb mmb voicesb spb efb bufferSizeb))) = []
        \<and> gMonoWorkletProcessors (snd (poly_createNode hb wb ctxb nameb fb mmb voicesb spb efb bufferSizeb)) = gMonoWorkletProcessors wb
        \<and> gPolyWorkletProcessors (snd (poly_createNode hb wb ctxb nameb fb mmb voicesb spb efb bufferSizeb)) = gPolyWorkletProcessors wb)
   \<and> (spb \<noteq> Some True \<and> poly_key nameb fb \<in> gPolyWorkletProcessors wb
      \<and> JSON_parse hb (json fb) = Inr mb
    \<longrightarrow> poly_createNode hb wb ctxb nameb fb mmb voicesb spb efb bufferSizeb =
          new_FaustPolyAudioWorkletNode hb wb ctxb (poly_key nameb fb) fb mmb voicesb (sampleSizeOf mb) efb)
   \<and> (k \<in> gMonoWorkletProcessors (statics s)
    \<longrightarrow> k \<in> gMonoWorkletProcessors (statics (run cs s)))
   \<and> (kp \<in> gPolyWorkletProcessors (statics s)
    \<longrightarrow> kp \<in> gPolyWorkletProcessors (statics (run cs s)))"
proof (intro conjI impI)
  have "length (filter (registers_in rctx key) (trace (statics (run cs initial_system))))
          \<le> length (filter (registers key) (trace (statics (run cs initial_system))))"
    by (rule filter_length_mono) (rule registers_in_registers)
  also have "\<dots> \<le> 1"
    by (rule registered_at_most_once)
  finally show "length (filter (registers_in rctx key) (trace (statics (run cs initial_system)))) \<le> 1" .
next
  show "length (filter (registers key) (trace (statics (run cs initial_system)))) \<le> 1"
    by (rule registered_at_most_once)
next
  assume a: "sp \<noteq> Some True \<and> JSON_parse h (json f) = Inr m
      \<and> mono_key name f \<notin> gMonoWorkletProcessors w
      \<and> addModule h ctx (MonoProcessorCode (mono_key name f) (json f)) = None"
  show "events_since w (snd (mono_createNode h w ctx name f sp bufferSize)) =
          [EvAddModule ctx (MonoProcessorCode (mono_key name f) (json f)) True,
           EvNewAudioWorkletNode ctx (mono_key name f)]"
    using a mono_createNode_registers(1) by blast
  show "gMonoWorkletProcessors (snd (mono_createNode h w ctx name f sp bufferSize)) =
          insert (mono_key name f) (gMonoWorkletProcessors w)"
    using a mono_createNode_registers(2) by blast
next
  assume a: "sp \<noteq> Some True \<and> JSON_parse hf (json f) = Inr m
      \<and> mono_key name f \<notin> gMonoWorkletProcessors w
      \<and> addModule hf ctx (MonoProcessorCode (mono_key name f) (json f)) = Some x"
  show e: "mono_createNode hf w ctx name f sp bufferSize =
          (Inr None, emit (EvAddModule ctx (MonoProcessorCode (mono_key name f) (json f)) False) w)"
    using a mono_createNode_addModule_throws by blast
  show "mono_key name f \<notin> gMonoWorkletProcessors (snd (mono_createNode hf w ctx name f sp bufferSize))"
    using a by (simp add: e)
next
  assume a: "spb \<noteq> Some True \<and> mono_key nameb fb \<in> gMonoWorkletProcessors wb"
  show "filter is_addModule (events_since wb (snd (mono_createNode hb wb ctxb nameb fb spb bufferSizeb))) = []"
    using a mono_createNode_cached(1) by blast
  show "gMonoWorkletProcessors (snd (mono_createNode hb wb ctxb nameb fb spb bufferSizeb)) = gMonoWorkletProcessors wb"
    using a mono_createNode_cached(2) by blast
  show "gPolyWorkletProcessors (snd (mono_createNode hb wb ctxb nameb fb spb bufferSizeb)) = gPolyWorkletProcessors wb"
    using a mono_createNode_cached(3) by blast
next
  assume a: "spb \<noteq> Some True \<and> mono_key nameb fb \<in> gMonoWorkletProcessors wb
      \<and> JSON_parse hb (json fb) = Inr mb"
  show "mono_createNode hb wb ctxb nameb fb spb bufferSizeb =
          new_FaustMonoAudioWorkletNode hb wb ctxb (mono_key nameb fb) fb (sampleSizeOf mb)"
    using a mono_createNode_cached(4) by blast
next
  assume a: "sp \<noteq> Some True \<and> JSON_parse h (json f) = Inr m
      \<and> poly_key name f \<notin> gPolyWorkletProcessors w
      \<and> addModule h ctx (PolyProcessorCode (poly_key name f) (json f) (map_option json ef)) = None"
  show "events_since w (snd (poly_createNode h w ctx name f mm voices sp ef bufferSize)) =
          [EvAddModule ctx (PolyProcessorCode (poly_key name f) (json f) (map_option json ef)) True,
           EvNewAudioWorkletNode ctx (poly_key name f)]"
    using a poly_createNode_registers(1) by blast
  show "gPolyWorkletProcessors (snd (poly_createNode h w ctx name f mm voices sp ef bufferSize)) =
          insert (poly_key name f) (gPolyWorkletProcessors w)"
    using a poly_createNode_registers(2) by blast
next
  assume a: "sp \<noteq> Some True \<and> JSON_parse hf (json f) = Inr m
      \<and> poly_key name f \<notin> gPolyWorkletProcessors w
      \<and> addModule hf ctx (PolyProcessorCode (poly_key name f) (json f) (map_option json ef)) = Some x"
  show e: "poly_createNode hf w ctx name f mm voices sp ef bufferSize =
          (Inr None, emit (EvAddModule ctx (PolyProcessorCode (poly_key name f) (json f) (map_option json ef)) False) w)"
    using a poly_createNode_addModule_throws by blast
  show "poly_key name f \<notin> gPolyWorkletProcessors (snd (poly_createNode hf w ctx name f mm voices sp ef bufferSize))"
    using a by (simp add: e)
next
  assume a: "spb \<noteq> Some True \<and> poly_key nameb fb \<in> gPolyWorkletProcessors wb"
  show "filter is_addModule (events_since wb (snd (poly_createNode hb wb ctxb nameb fb mmb voicesb spb efb bufferSizeb))) = []"
    using a poly_createNode_cached(1) by blast
  show "gMonoWorkletProcessors (snd (poly_createNode hb wb ctxb nameb fb mmb voicesb spb efb bufferSizeb)) = gMonoWorkletProcessors wb"
    using a poly_createNode_cached(2) by blast
  show "gPolyWorkletProcessors (snd (poly_createNode hb wb ctxb nameb fb mmb voicesb spb efb bufferSizeb)) = gPolyWorkletProcessors wb"
    using a poly_createNode_cached(3) by blast
next
  assume a: "spb \<noteq> Some True \<and> poly_key nameb fb \<in> gPolyWorkletProcessors wb
      \<and> JSON_parse hb (json fb) = Inr mb"
  show "poly_createNode hb wb ctxb nameb fb mmb voicesb spb efb bufferSizeb =
          new_FaustPolyAudioWorkletNode hb wb ctxb (poly_key nameb fb) fb mmb voicesb (sampleSizeOf mb) efb"
    using a poly_createNode_cached(4) by blast
next
  assume "k \<in> gMonoWorkletProcessors (statics s)"
  then show "k \<in> gMonoWorkletProcessors (statics (run cs s))"
    using run_keeps_keys [of s cs] by blast
next
  assume "kp \<in> gPolyWorkletProcessors (statics s)"
  then show "kp \<in> gPolyWorkletProcessors (statics (run cs s))"
    using run_keeps_keys [of s cs] by blast
qed

theorem C1_awaited_calls_register_once_witness:
  "(None \<noteq> Some True)
   \<and> (JSON_parse example_host (json example_factory) = Inr example_meta_single)
   \<and> (JSON_parse example_host_refusing (json example_factory) = Inr example_meta_single)
   \<and> (mono_key ''osc'' example_factory \<notin> gMonoWorkletProcessors initial_world)
   \<and> (addModule example_host example_context (MonoProcessorCode (mono_key ''osc'' example_factory) (json example_factory)) = None)
   \<and> (addModule example_host_refusing example_context (MonoProcessorCode (mono_key ''osc'' example_factory) (json example_factory)) = Some (Exn ''AbortError''))
   \<and> (mono_key ''osc'' example_factory \<in> gMonoWorkletProcessors (statics (run [MonoCreateNode example_host example_context ''osc'' example_factory None None, PolyCreateNode example_host example_context ''osc'' example_factory example_mixer 4 None None None] initial_system)))
   \<and> (poly_key ''osc'' example_factory \<notin> gPolyWorkletProcessors initial_world)
   \<and> (addModule example_host example_context (PolyProcessorCode (poly_key ''osc'' example_factory) (json example_factory) (map_option json (None :: FaustDspFactory option))) = None)
   \<and> (addModule example_host_refusing example_context (PolyProcessorCode (poly_key ''osc'' example_factory) (json example_factory) (map_option json (None :: FaustDspFactory option))) = Some (Exn ''AbortError''))
   \<and> (poly_key ''osc'' example_factory \<in> gPolyWorkletProcessors (statics (run [MonoCreateNode example_host example_context ''osc'' example_factory None None, PolyCreateNode example_host example_context ''osc'' example_factory example_mixer 4 None None None] initial_system)))
   \<and> (''osc1'' \<in> gMonoWorkletProcessors (statics (run [MonoCreateNode example_host example_context ''osc'' example_factory None None, PolyCreateNode example_host example_context ''osc'' example_factory example_mixer 4 None None None] initial_system)))
   \<and> (''osc1_poly'' \<in> gPolyWorkletProcessors (statics (run [MonoCreateNode example_host example_context ''osc'' example_factory None None, PolyCreateNode example_host example_context ''osc'' example_factory example_mixer 4 None None None] initial_system)))
   \<and> length (filter (registers_in example_context ''osc1'') (trace (statics (run [MonoCreateNode example_host example_context ''osc'' example_factory None None, MonoCreateNode example_host example_context_other ''osc'' example_factory None None] initial_system)))) \<le> 1
   \<and> length (filter (registers ''osc1'') (trace (statics (run [MonoCreateNode example_host example_context ''osc'' example_factory None None, MonoCreateNode example_host example_context_other ''osc'' example_factory None None] initial_system)))) \<le> 1
   \<and> events_since initial_world (snd (mono_createNode example_host initial_world example_context ''osc'' example_factory None None)) =
          [EvAddModule example_context (MonoProcessorCode (mono_key ''osc'' example_factory) (json example_factory)) True,
           EvNewAudioWorkletNode example_context (mono_key ''osc'' example_factory)]
   \<and> gMonoWorkletProcessors (snd (mono_createNode example_host initial_world example_context ''osc'' example_factory None None)) =
          insert (mono_key ''osc'' example_factory) (gMonoWorkletProcessors initial_world)
   \<and> mono_createNode example_host_refusing initial_world example_context ''osc'' example_factory None None =
          (Inr None, emit (EvAddModule example_context (MonoProcessorCode (mono_key ''osc'' example_factory) (json example_factory)) False) initial_world)
   \<and> mono_key ''osc'' example_factory \<notin> gMonoWorkletProcessors (snd (mono_createNode example_host_refusing initial_world example_context ''osc'' example_factory None None))
   \<and> filter is_addModule (events_since (statics (run [MonoCreateNode example_host example_context ''osc'' example_factory None None, PolyCreateNode example_host example_context ''osc'' example_factory example_mixer 4 None None None] initial_system)) (snd (mono_createNode example_host (statics (run [MonoCreateNode example_host example_context ''osc'' example_factory None None, PolyCreateNode example_host example_context ''osc'' example_factory example_mixer 4 None None None] initial_system)) example_context_other ''osc'' example_factory None None))) = []
   \<and> gMonoWorkletProcessors (snd (mono_createNode example_host (statics (run [MonoCreateNode example_host example_context ''osc'' example_factory None None, PolyCreateNode example_host example_context ''osc'' example_factory example_mixer 4 None None None] initial_system)) example_context_other ''osc'' example_factory None None)) = gMonoWorkletProcessors (statics (run [MonoCreateNode example_host example_context ''osc'' example_factory None None, PolyCreateNode example_host example_context ''osc'' example_factory example_mixer 4 None None None] initial_system))
   \<and> gPolyWorkletProcessors (snd (mono_createNode example_host (statics (run [MonoCreateNode example_host example_context ''osc'' example_factory None None, PolyCreateNode example_host example_context ''osc'' example_factory example_mixer 4 None None None] initial_system)) example_context_other ''osc'' example_factory None None)) = gPolyWorkletProcessors (statics (run [MonoCreateNode example_host example_context ''osc'' example_factory None None, PolyCreateNode example_host example_context ''osc'' example_factory example_mixer 4 None None None] initial_system))
   \<and> mono_createNode example_host (statics (run [MonoCreateNode example_host example_context ''osc'' example_factory None None, PolyCreateNode example_host example_context ''osc'' example_factory example_mixer 4 None None None] initial_system)) example_context_other ''osc'' example_factory None None =
          new_FaustMonoAudioWorkletNode example_host (statics (run [MonoCreateNode example_host example_context ''osc'' example_factory None None, PolyCreateNode example_host example_context ''osc'' example_factory example_mixer 4 None None None] initial_system)) example_context_other (mono_key ''osc'' example_factory) example_factory (sampleSizeOf example_meta_single)
   \<and> events_since initial_world (snd (poly_createNode example_host initial_world example_context ''osc'' example_factory example_mixer 4 None (None :: FaustDspFactory option) None)) =
          [EvAddModule example_context (PolyProcessorCode (poly_key ''osc'' example_factory) (json example_factory) (map_option json (None :: FaustDspFactory option))) True,
           EvNewAudioWorkletNode example_context (poly_key ''osc'' example_factory)]
   \<and> gPolyWorkletProcessors (snd (poly_createNode example_host initial_world example_context ''osc'' example_factory example_mixer 4 None (None :: FaustDspFactory option) None)) =
          insert (poly_key ''osc'' example_factory) (gPolyWorkletProcessors initial_world)
   \<and> poly_createNode example_host_refusing initial_world example_context ''osc'' example_factory example_mixer 4 None (None :: FaustDspFactory option) None =
          (Inr None, emit (EvAddModule example_context (PolyProcessorCode (poly_key ''osc'' example_factory) (json example_factory) (map_option json (None :: FaustDspFactory option))) False) initial_world)
   \<and> poly_key ''osc'' example_factory \<notin> gPolyWorkletProcessors (snd (poly_createNode example_host_refusing initial_world example_context ''osc'' example_factory example_mixer 4 None (None :: FaustDspFactory option) None))
   \<and> filter is_addModule (events_since (statics (run [MonoCreateNode example_host example_context ''osc'' example_factory None None, PolyCreateNode example_host example_context ''osc'' example_factory example_mixer 4 None None None] initial_system)) (snd (poly_createNode example_host (statics (run [MonoCreateNode example_host example_context ''osc'' example_factory None None, PolyCreateNode example_host example_context ''osc'' example_factory example_mixer 4 None None None] initial_system)) example_context_other ''osc'' example_factory example_mixer 4 None (None :: FaustDspFactory option) None))) = []
   \<and> gMonoWorkletProcessors (snd (poly_createNode example_host (statics (run [MonoCreateNode example_host example_context ''osc'' example_factory None None, PolyCreateNode example_host example_context ''osc'' example_factory example_mixer 4 None None None] initial_system)) example_context_other ''osc'' example_factory example_mixer 4 None (None :: FaustDspFactory option) None)) = gMonoWorkletProcessors (statics (run [MonoCreateNode example_host example_context ''osc'' example_factory None None, PolyCreateNode example_host example_context ''osc'' example_factory example_mixer 4 None None None] initial_system))
   \<and> gPolyWorkletProcessors (snd (poly_createNode example_host (statics (run [MonoCreateNode example_host example_context ''osc'' example_factory None None, PolyCreateNode example_host example_context ''osc'' example_factory example_mixer 4 None None None] initial_system)) example_context_other ''osc'' example_factory example_mixer 4 None (None :: FaustDspFactory option) None)) = gPolyWorkletProcessors (statics (run [MonoCreateNode example_host example_context ''osc'' example_factory None None, PolyCreateNode example_host example_context ''osc'' example_factory example_mixer 4 None None None] initial_system))
   \<and> poly_createNode example_host (statics (run [MonoCreateNode example_host example_context ''osc'' example_factory None None, PolyCreateNode example_host example_context ''osc'' example_factory example_mixer 4 None None None] initial_system)) example_context_other ''osc'' example_factory example_mixer 4 None (None :: FaustDspFactory option) None =
          new_FaustPolyAudioWorkletNode example_host (statics (run [MonoCreateNode example_host example_context ''osc'' example_factory None None, PolyCreateNode example_host example_context ''osc'' example_factory example_mixer 4 None None None] initial_system)) example_context_other (poly_key ''osc'' example_factory) example_factory example_mixer 4 (sampleSizeOf example_meta_single) (None :: FaustDspFactory option)
   \<and> ''osc1'' \<in> gMonoWorkletProcessors (statics (run [MonoCreateNode example_host example_context ''osc'' example_factory None None, MonoCreateNode example_host example_context_other ''osc'' example_factory None None] (run [MonoCreateNode example_host example_context ''osc'' example_factory None None, PolyCreateNode example_host example_context ''osc'' example_factory example_mixer 4 None None None] initial_system)))
   \<and> ''osc1_poly'' \<in> gPolyWorkletProcessors (statics (run [MonoCreateNode example_host example_context ''osc'' example_factory None None, MonoCreateNode example_host example_context_other ''osc'' example_factory None None] (run [MonoCreateNode example_host example_context ''osc'' example_factory None None, PolyCreateNode example_host example_context ''osc'' example_factory example_mixer 4 None None None] initial_system)))"
proof -
  have s0: "None \<noteq> Some True"
    by simp
  have p: "JSON_parse example_host (json example_factory) = Inr example_meta_single"
    by (simp add: example_defs generator_defs digits.simps events_since_def)
  have pf: "JSON_parse example_host_refusing (json example_factory) = Inr example_meta_single"
    by (simp add: example_defs generator_defs digits.simps events_since_def)
  have n: "mono_key ''osc'' example_factory \<notin> gMonoWorkletProcessors initial_world"
    by (simp add: example_defs generator_defs digits.simps events_since_def)
  have am: "addModule example_host example_context (MonoProcessorCode (mono_key ''osc'' example_factory) (json example_factory)) = None"
    by (simp add: example_defs generator_defs digits.simps events_since_def)
  have af: "addModule example_host_refusing example_context (MonoProcessorCode (mono_key ''osc'' example_factory) (json example_factory)) = Some (Exn ''AbortError'')"
    by (simp add: example_defs generator_defs digits.simps events_since_def)
  have i: "mono_key ''osc'' example_factory \<in> gMonoWorkletProcessors (statics (run [MonoCreateNode example_host example_context ''osc'' example_factory None None, PolyCreateNode example_host example_context ''osc'' example_factory example_mixer 4 None None None] initial_system))"
    by (simp add: example_defs generator_defs digits.simps events_since_def)
  have pn: "poly_key ''osc'' example_factory \<notin> gPolyWorkletProcessors initial_world"
    by (simp add: example_defs generator_defs digits.simps events_since_def)
  have pa: "addModule example_host example_context (PolyProcessorCode (poly_key ''osc'' example_factory) (json example_factory) (map_option json (None :: FaustDspFactory option))) = None"
    by (simp add: example_defs generator_defs digits.simps events_since_def)
  have paf: "addModule example_host_refusing example_context (PolyProcessorCode (poly_key ''osc'' example_factory) (json example_factory) (map_option json (None :: FaustDspFactory option))) = Some (Exn ''AbortError'')"
    by (simp add: example_defs generator_defs digits.simps events_since_def)
  have pin: "poly_key ''osc'' example_factory \<in> gPolyWorkletProcessors (statics (run [MonoCreateNode example_host example_context ''osc'' example_factory None None, PolyCreateNode example_host example_context ''osc'' example_factory example_mixer 4 None None None] initial_system))"
    by (simp add: example_defs generator_defs digits.simps events_since_def)
  have km: "''osc1'' \<in> gMonoWorkletProcessors (statics (run [MonoCreateNode example_host example_context ''osc'' example_factory None None, PolyCreateNode example_host example_context ''osc'' example_factory example_mixer 4 None None None] initial_system))"
    by (simp add: example_defs generator_defs digits.simps events_since_def)
  have kpm: "''osc1_poly'' \<in> gPolyWorkletProcessors (statics (run [MonoCreateNode example_host example_context ''osc'' example_factory None None, PolyCreateNode example_host example_context ''osc'' example_factory example_mixer 4 None None None] initial_system))"
    by (simp add: example_defs generator_defs digits.simps events_since_def)
  note a = C1_awaited_calls_register_once [where h = example_host
      and hf = example_host_refusing
      and x = "Exn ''AbortError''"
      and w = initial_world
      and ctx = example_context
      and name = "''osc''"
      and f = example_factory
      and sp = None
      and bufferSize = None
      and m = example_meta_single
      and mm = example_mixer
      and voices = 4
      and ef = "(None :: FaustDspFactory option)"
      and hb = example_host
      and wb = "statics (run [MonoCreateNode example_host example_context ''osc'' example_factory None None, PolyCreateNode example_host example_context ''osc'' example_factory example_mixer 4 None None None] initial_system)"
      and ctxb = example_context_other
      and nameb = "''osc''"
      and fb = example_factory
      and spb = None
      and bufferSizeb = None
      and mb = example_meta_single
      and mmb = example_mixer
      and voicesb = 4
      and efb = "(None :: FaustDspFactory option)"
      and s = "run [MonoCreateNode example_host example_context ''osc'' example_factory None None, PolyCreateNode example_host example_context ''osc'' example_factory example_mixer 4 None None None] initial_system"
      and cs = "[MonoCreateNode example_host example_context ''osc'' example_factory None None, MonoCreateNode example_host example_context_other ''osc'' example_factory None None]"
      and k = "''osc1''"
      and kp = "''osc1_poly''"
      and rctx = example_context
      and key = "''osc1''"]
  note b0 = a [THEN conjunct1]
  note b0_0 = b0
  note b1 = a [THEN conjunct2, THEN conjunct1]
  note b1_0 = b1
  note b2 = a [THEN conjunct2, THEN conjunct2, THEN conjunct1, THEN mp, OF conjI [OF s0 conjI [OF p conjI [OF n am]]]]
  note b2_0 = b2 [THEN conjunct1]
  note b2_1 = b2 [THEN conjunct2]
  note b3 = a [THEN conjunct2, THEN conjunct2, THEN conjunct2, THEN conjunct1, THEN mp, OF conjI [OF s0 conjI [OF pf conjI [OF n af]]]]
  note b3_0 = b3 [THEN conjunct1]
  note b3_1 = b3 [THEN conjunct2]
  note b4 = a [THEN conjunct2, THEN conjunct2, THEN conjunct2, THEN conjunct2, THEN conjunct1, THEN mp, OF conjI [OF s0 i]]
  note b4_0 = b4 [THEN conjunct1]
  note b4_1 = b4 [THEN conjunct2, THEN conjunct1]
  note b4_2 = b4 [THEN conjunct2, THEN conjunct2]
  note b5 = a [THEN conjunct2, THEN conjunct2, THEN conjunct2, THEN conjunct2, THEN conjunct2, THEN conjunct1, THEN mp, OF conjI [OF s0 conjI [OF i p]]]
  note b5_0 = b5
  note b6 = a [THEN conjunct2, THEN conjunct2, THEN conjunct2, THEN conjunct2, THEN conjunct2, THEN conjunct2, THEN conjunct1, THEN mp, OF conjI [OF s0 conjI [OF p conjI [OF pn pa]]]]
  note b6_0 = b6 [THEN conjunct1]
  note b6_1 = b6 [THEN conjunct2]
  note b7 = a [THEN conjunct2, THEN conjunct2, THEN conjunct2, THEN conjunct2, THEN conjunct2, THEN conjunct2, THEN conjunct2, THEN conjunct1, THEN mp, OF conjI [OF s0 conjI [OF pf conjI [OF pn paf]]]]
  note b7_0 = b7 [THEN conjunct1]
  note b7_1 = b7 [THEN conjunct2]
  note b8 = a [THEN conjunct2, THEN conjunct2, THEN conjunct2, THEN conjunct2, THEN conjunct2, THEN conjunct2, THEN conjunct2, THEN conjunct2, THEN conjunct1, THEN mp, OF conjI [OF s0 pin]]
  note b8_0 = b8 [THEN conjunct1]
  note b8_1 = b8 [THEN conjunct2, THEN conjunct1]
  note b8_2 = b8 [THEN conjunct2, THEN conjunct2]
  note b9 = a [THEN conjunct2, THEN conjunct2, THEN conjunct2, THEN conjunct2, THEN conjunct2, THEN conjunct2, THEN conjunct2, THEN conjunct2, THEN conjunct2, THEN conjunct1, THEN mp, OF conjI [OF s0 conjI [OF pin p]]]
  note b9_0 = b9
  note b10 = a [THEN conjunct2, THEN conjunct2, THEN conjunct2, THEN conjunct2, THEN conjunct2, THEN conjunct2, THEN conjunct2, THEN conjunct2, THEN conjunct2, THEN conjunct2, THEN conjunct1, THEN mp, OF km]
  note b10_0 = b10
  note b11 = a [THEN conjunct2, THEN conjunct2, THEN conjunct2, THEN conjunct2, THEN conjunct2, THEN conjunct2, THEN conjunct2, THEN conjunct2, THEN conjunct2, THEN conjunct2, THEN conjunct2, THEN mp, OF kpm]
  note b11_0 = b11
  show ?thesis
    by (intro conjI) (rule s0 p pf n am af i pn pa paf pin km kpm b0_0 b1_0 b2_0 b2_1 b3_0 b3_1 b4_0 b4_1 b4_2 b5_0 b6_0 b6_1 b7_0 b7_1 b8_0 b8_1 b8_2 b9_0 b10_0 b11_0)+
qed

text \<open>
  C1, as stated, fails. The first \<open>createNode\<close> call with the name \<open>osc1\<close> calls
  \<open>addModule\<close>, which throws: the name is not recorded, and the next call with the same
  name does not skip the registration but calls \<open>addModule\<close> again.
\<close>

theorem C1_counterexample:
  "filter is_addModule (trace (snd (mono_createNode example_host_refusing initial_world example_context ''osc'' example_factory None None)))
     = [EvAddModule example_context (MonoProcessorCode ''osc1'' example_json_single) False]
   \<and> mono_key ''osc'' example_factory = ''osc1''
   \<and> ''osc1'' \<notin> gMonoWorkletProcessors (snd (mono_createNode example_host_refusing initial_world example_context ''osc'' example_factory None None))
   \<and> filter is_addModule
         (events_since (snd (mono_createNode example_host_refusing initial_world example_context ''osc'' example_factory None None))
            (snd (mono_createNode example_host (snd (mono_createNode example_host_refusing initial_world example_context ''osc'' example_factory None None))
                    example_context ''osc'' example_factory None None)))
       = [EvAddModule example_context (MonoProcessorCode ''osc1'' example_json_single) True]"
  by (simp add: example_defs generator_defs digits.simps events_since_def)

subsection \<open>Channel counts\<close>

lemma mono_createNode_counts:
  assumes "JSON_parse h (json factory) = Inr m"
    and "fst (mono_createNode h w ctx nameIn factory sp bufferSize) = Inr (Some n)"
  shows "mono_node_getNumInputs h n = Some (inputs m)"
    and "mono_node_getNumOutputs h n = Some (outputs m)"
  using assms
  by (auto simp: unfold_createNode createAsyncMonoDSPInstance_def mono_node_getNumInputs_def
        mono_node_getNumOutputs_def mono_getNumInputs_def mono_getNumOutputs_def
      split: createNode_splits)

lemma poly_createNode_counts:
  assumes "JSON_parse h (json vf) = Inr m"
    and "fst (poly_createNode h w ctx nameIn vf mm voices sp ef bufferSize) = Inr (Some n)"
  shows "poly_node_getNumInputs h n = Some (inputs m)"
    and "poly_node_getNumOutputs h n = Some (outputs m)"
  using assms
  by (auto simp: unfold_createNode createAsyncMonoDSPInstance_def createAsyncPolyDSPInstance_def
        poly_node_getNumInputs_def poly_node_getNumOutputs_def poly_getNumInputs_def
        poly_getNumOutputs_def
      split: createNode_splits)

lemma mono_node_apply_counts:
  "mono_node_getNumInputs h (mono_node_apply k op' n) = mono_node_getNumInputs h n"
  "mono_node_getNumOutputs h (mono_node_apply k op' n) = mono_node_getNumOutputs h n"
  by (induction k op' n rule: mono_node_apply.induct)
    (simp_all add: mono_node_getNumInputs_def mono_node_getNumOutputs_def mono_getNumInputs_def
      mono_getNumOutputs_def instance_apply_def)

lemma poly_node_apply_counts:
  "poly_node_getNumInputs h (poly_node_apply k op' n) = poly_node_getNumInputs h n"
  "poly_node_getNumOutputs h (poly_node_apply k op' n) = poly_node_getNumOutputs h n"
  by (induction k op' n rule: poly_node_apply.induct)
    (simp_all add: poly_node_getNumInputs_def poly_node_getNumOutputs_def poly_getNumInputs_def
      poly_getNumOutputs_def instance_apply_def)

lemma mono_node_life_counts:
  "mono_node_getNumInputs h (fold (mono_node_apply k) ops n) = mono_node_getNumInputs h n"
  "mono_node_getNumOutputs h (fold (mono_node_apply k) ops n) = mono_node_getNumOutputs h n"
  by (induction ops arbitrary: n) (simp_all add: mono_node_apply_counts)

lemma poly_node_life_counts:
  "poly_node_getNumInputs h (fold (poly_node_apply k) ops n) = poly_node_getNumInputs h n"
  "poly_node_getNumOutputs h (fold (poly_node_apply k) ops n) = poly_node_getNumOutputs h n"
  by (induction ops arbitrary: n) (simp_all add: poly_node_apply_counts)

text \<open>
  C8. A node built by \<open>createNode\<close> from a factory whose metadata parses reports the
  input and output channel counts declared in the metadata, and reports them unchanged after
  any sequence of operations on the node. The script-processor node is created with the counts
  its DSP reports; what the DSP and the nodes report is modelled from the spec.
\<close>

theorem C8_channel_counts:
  "(JSON_parse h (json factory) = Inr m
      \<and> fst (mono_createNode h w ctx nameIn factory sp bufferSize) = Inr (Some n)
    \<longrightarrow> mono_node_getNumInputs h (fold (mono_node_apply k) ops n) = Some (inputs m)
        \<and> mono_node_getNumOutputs h (fold (mono_node_apply k) ops n) = Some (outputs m))
   \<and> (JSON_parse h (json factory) = Inr m
      \<and> fst (poly_createNode h w ctx nameIn factory mixerModule voices sp effectFactory bufferSize)
          = Inr (Some pn)
    \<longrightarrow> poly_node_getNumInputs h (fold (poly_node_apply k) pops pn) = Some (inputs m)
        \<and> poly_node_getNumOutputs h (fold (poly_node_apply k) pops pn) = Some (outputs m))"
proof (intro conjI impI)
  assume a: "JSON_parse h (json factory) = Inr m
      \<and> fst (mono_createNode h w ctx nameIn factory sp bufferSize) = Inr (Some n)"
  show "mono_node_getNumInputs h (fold (mono_node_apply k) ops n) = Some (inputs m)"
    using a mono_createNode_counts(1) by (auto simp: mono_node_life_counts)
  show "mono_node_getNumOutputs h (fold (mono_node_apply k) ops n) = Some (outputs m)"
    using a mono_createNode_counts(2) by (auto simp: mono_node_life_counts)
next
  assume a: "JSON_parse h (json factory) = Inr m
      \<and> fst (poly_createNode h w ctx nameIn factory mixerModule voices sp effectFactory bufferSize)
          = Inr (Some pn)"
  show "poly_node_getNumInputs h (fold (poly_node_apply k) pops pn) = Some (inputs m)"
    using a poly_createNode_counts(1) by (auto simp: poly_node_life_counts)
  show "poly_node_getNumOutputs h (fold (poly_node_apply k) pops pn) = Some (outputs m)"
    using a poly_createNode_counts(2) by (auto simp: poly_node_life_counts)
qed

theorem C8_channel_counts_witness:
  "(JSON_parse example_host (json example_factory_double) = Inr example_meta_double)
   \<and> (fst (mono_createNode example_host initial_world example_context ''osc'' example_factory_double (Some True) (Some 512)) = Inr (Some (FaustMonoScriptProcessorNode 512 0 1 (FaustMonoWebAudioDsp \<lparr>numInputs = 0, numOutputs = 1, memory = []\<rparr> 44100 8 512))))
   \<and> (fst (poly_createNode example_host initial_world example_context ''osc'' example_factory_double example_mixer 4 (Some True) None (Some 512))
          = Inr (Some (FaustPolyScriptProcessorNode 512 0 1 (FaustPolyWebAudioDsp (FaustPolyDspInstance \<lparr>numInputs = 0, numOutputs = 1, memory = []\<rparr> 4 example_mixer None) 44100 8 512))))
   \<and> mono_node_getNumInputs example_host (fold (mono_node_apply example_behaviour) [OpInit 44100, OpSetParam ''/osc/freq'' 440, OpCompute 128] (FaustMonoScriptProcessorNode 512 0 1 (FaustMonoWebAudioDsp \<lparr>numInputs = 0, numOutputs = 1, memory = []\<rparr> 44100 8 512))) = Some (inputs example_meta_double)
   \<and> mono_node_getNumOutputs example_host (fold (mono_node_apply example_behaviour) [OpInit 44100, OpSetParam ''/osc/freq'' 440, OpCompute 128] (FaustMonoScriptProcessorNode 512 0 1 (FaustMonoWebAudioDsp \<lparr>numInputs = 0, numOutputs = 1, memory = []\<rparr> 44100 8 512))) = Some (outputs example_meta_double)
   \<and> poly_node_getNumInputs example_host (fold (poly_node_apply example_behaviour) [OpKeyOn 60 100, OpCompute 128, OpKeyOff 60] (FaustPolyScriptProcessorNode 512 0 1 (FaustPolyWebAudioDsp (FaustPolyDspInstance \<lparr>numInputs = 0, numOutputs = 1, memory = []\<rparr> 4 example_mixer None) 44100 8 512))) = Some (inputs example_meta_double)
   \<and> poly_node_getNumOutputs example_host (fold (poly_node_apply example_behaviour) [OpKeyOn 60 100, OpCompute 128, OpKeyOff 60] (FaustPolyScriptProcessorNode 512 0 1 (FaustPolyWebAudioDsp (FaustPolyDspInstance \<lparr>numInputs = 0, numOutputs = 1, memory = []\<rparr> 4 example_mixer None) 44100 8 512))) = Some (outputs example_meta_double)"
proof -
  have p: "JSON_parse example_host (json example_factory_double) = Inr example_meta_double"
    by (simp add: example_defs generator_defs digits.simps events_since_def)
  have b: "fst (mono_createNode example_host initial_world example_context ''osc'' example_factory_double (Some True) (Some 512)) = Inr (Some (FaustMonoScriptProcessorNode 512 0 1 (FaustMonoWebAudioDsp \<lparr>numInputs = 0, numOutputs = 1, memory = []\<rparr> 44100 8 512)))"
    by (simp add: example_defs generator_defs digits.simps events_since_def)
  have pb: "fst (poly_createNode example_host initial_world example_context ''osc'' example_factory_double example_mixer 4 (Some True) None (Some 512))
          = Inr (Some (FaustPolyScriptProcessorNode 512 0 1 (FaustPolyWebAudioDsp (FaustPolyDspInstance \<lparr>numInputs = 0, numOutputs = 1, memory = []\<rparr> 4 example_mixer None) 44100 8 512)))"
    by (simp add: example_defs generator_defs digits.simps events_since_def)
  note a = C8_channel_counts [where h = example_host
      and w = initial_world
      and ctx = example_context
      and nameIn = "''osc''"
      and factory = example_factory_double
      and sp = "Some True"
      and bufferSize = "Some 512"
      and m = example_meta_double
      and mixerModule = example_mixer
      and voices = 4
      and effectFactory = None
      and k = example_behaviour
      and ops = "[OpInit 44100, OpSetParam ''/osc/freq'' 440, OpCompute 128]"
      and pops = "[OpKeyOn 60 100, OpCompute 128, OpKeyOff 60]"
      and n = "FaustMonoScriptProcessorNode 512 0 1 (FaustMonoWebAudioDsp \<lparr>numInputs = 0, numOutputs = 1, memory = []\<rparr> 44100 8 512)"
      and pn = "FaustPolyScriptProcessorNode 512 0 1 (FaustPolyWebAudioDsp (FaustPolyDspInstance \<lparr>numInputs = 0, numOutputs = 1, memory = []\<rparr> 4 example_mixer None) 44100 8 512)"]
  note b0 = a [THEN conjunct1, THEN mp, OF conjI [OF p b]]
  note b0_0 = b0 [THEN conjunct1]
  note b0_1 = b0 [THEN conjunct2]
  note b1 = a [THEN conjunct2, THEN mp, OF conjI [OF p pb]]
  note b1_0 = b1 [THEN conjunct1]
  note b1_1 = b1 [THEN conjunct2]
  show ?thesis
    by (intro conjI) (rule p b pb b0_0 b0_1 b1_0 b1_1)+
qed

end
